theory Spec2Isabelle
  imports Main "HOL-Library.Word" "HOL-Library.Monad_Syntax"
begin

section \<open>Execution contexts of the MT4 expander: data model\<close>

text \<open>
  The embedding follows \<^verbatim>\<open>src/context.cpp\<close> and \<^verbatim>\<open>header/Expander.h\<close>.
  The library is built for a 32-bit terminal: pointers are cast to \<^verbatim>\<open>uint\<close>, so
  pointers, window handles, \<^verbatim>\<open>uint\<close> and \<^verbatim>\<open>DWORD\<close> are 32-bit words; \<^verbatim>\<open>(int)x\<close>
  reads such a word with \<open>sint\<close>. Positions in a \<^verbatim>\<open>std::vector\<close> are natural numbers
  (a vector cannot hold more elements than the address space).
\<close>

type_synonym uint = "32 word"
type_synonym DWORD = "32 word"
type_synonym HWND = "32 word"
type_synonym pointer = "32 word"
type_synonym BOOL = bool

abbreviation NULL :: "32 word" where
  "NULL \<equiv> 0"

abbreviation INVALID_HWND :: HWND where
  "INVALID_HWND \<equiv> - 1"

abbreviation EMPTY :: int where
  "EMPTY \<equiv> - 1"

text \<open>The enumerations of \<^verbatim>\<open>Expander.h\<close>. A field of enumeration type that holds
  \<^verbatim>\<open>NULL\<close> (a zeroed or released record) is \<open>None\<close>.\<close>

datatype ProgramType = PT_INDICATOR | PT_EXPERT | PT_SCRIPT

datatype ModuleType = MT_INDICATOR | MT_EXPERT | MT_SCRIPT | MT_LIBRARY

datatype RootFunction = RF_INIT | RF_START | RF_DEINIT

datatype InitializeReason =
    IR_USER | IR_TEMPLATE | IR_PROGRAM | IR_PROGRAM_AFTERTEST
  | IR_PARAMETERS | IR_TIMEFRAMECHANGE | IR_SYMBOLCHANGE | IR_RECOMPILE

datatype UninitializeReason =
    UR_UNDEFINED | UR_REMOVE | UR_RECOMPILE | UR_CHARTCHANGE | UR_CHARTCLOSE
  | UR_PARAMETERS | UR_ACCOUNT | UR_TEMPLATE | UR_INITFAILED | UR_CLOSE

text \<open>The cast \<^verbatim>\<open>(ModuleType)programType\<close> of a main module (\<^verbatim>\<open>PROGRAMTYPE_x\<close> and
  \<^verbatim>\<open>MODULETYPE_x\<close> are the same number: "Hauptmodul: ModuleType == ProgramType").\<close>

fun ModuleType_of :: "ProgramType \<Rightarrow> ModuleType" where
  "ModuleType_of PT_INDICATOR = MT_INDICATOR"
| "ModuleType_of PT_EXPERT = MT_EXPERT"
| "ModuleType_of PT_SCRIPT = MT_SCRIPT"

text \<open>Modelled from the spec: the struct \<^verbatim>\<open>EXECUTION_CONTEXT\<close> (its header
  \<^verbatim>\<open>struct/xtrade/ExecutionContext.h\<close> is not among the sources). The fields are those
  that \<^verbatim>\<open>context.cpp\<close> reads and writes, which are the fields of section 3 of the
  specification.\<close>

record EXECUTION_CONTEXT =
  programId :: uint
  programType :: "ProgramType option"
  programName :: string
  moduleType :: "ModuleType option"
  moduleName :: string
  rootFunction :: "RootFunction option"
  initCycle :: BOOL
  initReason :: "InitializeReason option"
  uninitReason :: UninitializeReason
  testing :: BOOL
  visualMode :: BOOL
  optimization :: BOOL
  initFlags :: DWORD
  deinitFlags :: DWORD
  logging :: BOOL
  customLogFile :: "string option"
  symbol :: string
  timeframe :: uint
  hChart :: HWND
  hChartWindow :: HWND
  superContext :: pointer
  threadId :: uint
  ticks :: uint
  previousTickTime :: uint
  currentTickTime :: uint
  mqlError :: int
  dllError :: int
  dllErrorMsg :: "string option"
  dllWarning :: int
  dllWarningMsg :: "string option"

text \<open>The value of \<^verbatim>\<open>new EXECUTION_CONTEXT()\<close>: every field zero.\<close>

definition zero_context :: EXECUTION_CONTEXT where
  "zero_context =
     \<lparr> programId = 0, programType = None, programName = [], moduleType = None,
       moduleName = [], rootFunction = None, initCycle = False, initReason = None,
       uninitReason = UR_UNDEFINED, testing = False, visualMode = False,
       optimization = False, initFlags = 0, deinitFlags = 0, logging = False,
       customLogFile = None, symbol = [], timeframe = 0, hChart = NULL,
       hChartWindow = NULL, superContext = NULL, threadId = 0, ticks = 0,
       previousTickTime = 0, currentTickTime = 0, mqlError = 0, dllError = 0,
       dllErrorMsg = None, dllWarning = 0, dllWarningMsg = None \<rparr>"

text \<open>The error codes that \<^verbatim>\<open>context.cpp\<close> reports, and the events of the
  diagnostics channel (\<^verbatim>\<open>debug\<close>, \<^verbatim>\<open>warn\<close>, \<^verbatim>\<open>error\<close>). Errors are reported, not
  thrown: the reporting function goes on and returns its failure value.\<close>

datatype ErrorCode = ERR_INVALID_PARAMETER | ERR_ILLEGAL_STATE | ERR_RUNTIME_ERROR

datatype diagnostic = L_DEBUG | L_WARN ErrorCode | L_ERROR ErrorCode

text \<open>The global state of the library: the four globals declared at the top of
  \<^verbatim>\<open>context.cpp\<close>, the memory the context pointers point into, and the diagnostics
  emitted so far. A context chain is a vector of context pointers.\<close>

type_synonym ContextChain = "pointer list"

record terminal =
  g_contextChains :: "ContextChain list"
  g_threads :: "DWORD list"
  g_threadsPrograms :: "uint list"
  g_lastUIThreadProgram :: uint
  memory :: "pointer \<rightharpoonup> EXECUTION_CONTEXT"
  diagnostics :: "diagnostic list"

text \<open>What the library asks of the terminal and of the operating system during one call.
  These functions and constants are declared in \<^verbatim>\<open>Expander.h\<close> or used by
  \<^verbatim>\<open>context.cpp\<close> and defined elsewhere; they are parameters of the model.
  \<open>operator_new\<close> is the address the allocator hands out for the next
  \<^verbatim>\<open>new EXECUTION_CONTEXT()\<close>; \<open>FindWindowHandle_desktop\<close> is the outcome of the search
  through the terminal's windows at the end of \<^verbatim>\<open>FindWindowHandle\<close> (the handle and the
  diagnostics emitted on the way).\<close>

record host =
  MIN_VALID_POINTER :: uint
  GetCurrentThreadId :: DWORD
  GetUIThreadId :: DWORD
  IsUIThread :: BOOL
  GetTerminalBuild :: uint
  operator_new :: pointer
  GetParent :: "HWND \<Rightarrow> HWND"
  GetWindowText :: "HWND \<Rightarrow> string"
  FindWindowHandle_desktop :: "ModuleType \<Rightarrow> string \<Rightarrow> uint \<Rightarrow> HWND \<times> diagnostic list"

section \<open>Memory, diagnostics, field setters\<close>

text \<open>Reading through a pointer. A null pointer and a pointer to memory that holds no
  context cannot be read: the C++ behaviour is undefined there, and every function of the
  model returns \<open>None\<close> in that case.\<close>

definition deref :: "terminal \<Rightarrow> pointer \<Rightarrow> EXECUTION_CONTEXT option" where
  "deref s p = (if p = NULL then None else memory s p)"

definition poke :: "terminal \<Rightarrow> pointer \<Rightarrow> (EXECUTION_CONTEXT \<Rightarrow> EXECUTION_CONTEXT) \<Rightarrow> terminal option" where
  "poke s p f =
     (case deref s p of
        None \<Rightarrow> None
      | Some e \<Rightarrow> Some (s\<lparr>memory := (memory s)(p \<mapsto> f e)\<rparr>))"

text \<open>\<^verbatim>\<open>g_contextChains[pid][i]\<close>, undefined outside either vector.\<close>

definition chain_slot :: "terminal \<Rightarrow> uint \<Rightarrow> nat \<Rightarrow> pointer option" where
  "chain_slot s pid i =
     (if unat pid < length (g_contextChains s) \<and> i < length (g_contextChains s ! unat pid)
      then Some (g_contextChains s ! unat pid ! i) else None)"

text \<open>\<^verbatim>\<open>g_contextChains[pid][i] = p\<close>.\<close>

definition set_chain_slot :: "terminal \<Rightarrow> uint \<Rightarrow> nat \<Rightarrow> pointer \<Rightarrow> terminal option" where
  "set_chain_slot s pid i p =
     (if unat pid < length (g_contextChains s) \<and> i < length (g_contextChains s ! unat pid)
      then Some (s\<lparr>g_contextChains :=
                    (g_contextChains s)[unat pid := (g_contextChains s ! unat pid)[i := p]]\<rparr>)
      else None)"

text \<open>\<^verbatim>\<open>g_contextChains[pid].push_back(p)\<close>.\<close>

definition chain_push_back :: "terminal \<Rightarrow> uint \<Rightarrow> pointer \<Rightarrow> terminal option" where
  "chain_push_back s pid p =
     (if unat pid < length (g_contextChains s)
      then Some (s\<lparr>g_contextChains :=
                    (g_contextChains s)[unat pid := g_contextChains s ! unat pid @ [p]]\<rparr>)
      else None)"

text \<open>Modelled from the spec: \<^verbatim>\<open>debug\<close>, \<^verbatim>\<open>warn\<close> and \<^verbatim>\<open>error\<close> (declared in
  \<^verbatim>\<open>Expander.h\<close>, defined elsewhere) emit one diagnostic event and return 0, the
  caller's failure value.\<close>

definition debug :: "terminal \<Rightarrow> terminal" where
  "debug s = s\<lparr>diagnostics := diagnostics s @ [L_DEBUG]\<rparr>"

definition warn :: "terminal \<Rightarrow> ErrorCode \<Rightarrow> terminal" where
  "warn s code = s\<lparr>diagnostics := diagnostics s @ [L_WARN code]\<rparr>"

definition error :: "terminal \<Rightarrow> ErrorCode \<Rightarrow> terminal" where
  "error s code = s\<lparr>diagnostics := diagnostics s @ [L_ERROR code]\<rparr>"

text \<open>Modelled from the spec: the setters \<^verbatim>\<open>ec_SetXxx(ec, value)\<close> are defined with the
  struct, outside the sources at hand. Each one writes the field it names in the record
  that \<open>ec\<close> points to.\<close>

definition ec_SetProgramId :: "terminal \<Rightarrow> pointer \<Rightarrow> uint \<Rightarrow> terminal option" where
  "ec_SetProgramId s ec v = poke s ec (\<lambda>e. e\<lparr>programId := v\<rparr>)"

definition ec_SetProgramType :: "terminal \<Rightarrow> pointer \<Rightarrow> ProgramType \<Rightarrow> terminal option" where
  "ec_SetProgramType s ec v = poke s ec (\<lambda>e. e\<lparr>programType := Some v\<rparr>)"

definition ec_SetProgramName :: "terminal \<Rightarrow> pointer \<Rightarrow> string \<Rightarrow> terminal option" where
  "ec_SetProgramName s ec v = poke s ec (\<lambda>e. e\<lparr>programName := v\<rparr>)"

definition ec_SetModuleType :: "terminal \<Rightarrow> pointer \<Rightarrow> ModuleType \<Rightarrow> terminal option" where
  "ec_SetModuleType s ec v = poke s ec (\<lambda>e. e\<lparr>moduleType := Some v\<rparr>)"

definition ec_SetModuleName :: "terminal \<Rightarrow> pointer \<Rightarrow> string \<Rightarrow> terminal option" where
  "ec_SetModuleName s ec v = poke s ec (\<lambda>e. e\<lparr>moduleName := v\<rparr>)"

definition ec_SetRootFunction :: "terminal \<Rightarrow> pointer \<Rightarrow> RootFunction option \<Rightarrow> terminal option" where
  "ec_SetRootFunction s ec v = poke s ec (\<lambda>e. e\<lparr>rootFunction := v\<rparr>)"

definition ec_SetInitCycle :: "terminal \<Rightarrow> pointer \<Rightarrow> BOOL \<Rightarrow> terminal option" where
  "ec_SetInitCycle s ec v = poke s ec (\<lambda>e. e\<lparr>initCycle := v\<rparr>)"

definition ec_SetInitReason :: "terminal \<Rightarrow> pointer \<Rightarrow> InitializeReason option \<Rightarrow> terminal option" where
  "ec_SetInitReason s ec v = poke s ec (\<lambda>e. e\<lparr>initReason := v\<rparr>)"

definition ec_SetUninitReason :: "terminal \<Rightarrow> pointer \<Rightarrow> UninitializeReason \<Rightarrow> terminal option" where
  "ec_SetUninitReason s ec v = poke s ec (\<lambda>e. e\<lparr>uninitReason := v\<rparr>)"

definition ec_SetTesting :: "terminal \<Rightarrow> pointer \<Rightarrow> BOOL \<Rightarrow> terminal option" where
  "ec_SetTesting s ec v = poke s ec (\<lambda>e. e\<lparr>testing := v\<rparr>)"

definition ec_SetVisualMode :: "terminal \<Rightarrow> pointer \<Rightarrow> BOOL \<Rightarrow> terminal option" where
  "ec_SetVisualMode s ec v = poke s ec (\<lambda>e. e\<lparr>visualMode := v\<rparr>)"

definition ec_SetOptimization :: "terminal \<Rightarrow> pointer \<Rightarrow> BOOL \<Rightarrow> terminal option" where
  "ec_SetOptimization s ec v = poke s ec (\<lambda>e. e\<lparr>optimization := v\<rparr>)"

definition ec_SetInitFlags :: "terminal \<Rightarrow> pointer \<Rightarrow> DWORD \<Rightarrow> terminal option" where
  "ec_SetInitFlags s ec v = poke s ec (\<lambda>e. e\<lparr>initFlags := v\<rparr>)"

definition ec_SetDeinitFlags :: "terminal \<Rightarrow> pointer \<Rightarrow> DWORD \<Rightarrow> terminal option" where
  "ec_SetDeinitFlags s ec v = poke s ec (\<lambda>e. e\<lparr>deinitFlags := v\<rparr>)"

definition ec_SetLogging :: "terminal \<Rightarrow> pointer \<Rightarrow> BOOL \<Rightarrow> terminal option" where
  "ec_SetLogging s ec v = poke s ec (\<lambda>e. e\<lparr>logging := v\<rparr>)"

definition ec_SetCustomLogFile :: "terminal \<Rightarrow> pointer \<Rightarrow> string option \<Rightarrow> terminal option" where
  "ec_SetCustomLogFile s ec v = poke s ec (\<lambda>e. e\<lparr>customLogFile := v\<rparr>)"

definition ec_SetSymbol :: "terminal \<Rightarrow> pointer \<Rightarrow> string \<Rightarrow> terminal option" where
  "ec_SetSymbol s ec v = poke s ec (\<lambda>e. e\<lparr>symbol := v\<rparr>)"

definition ec_SetTimeframe :: "terminal \<Rightarrow> pointer \<Rightarrow> uint \<Rightarrow> terminal option" where
  "ec_SetTimeframe s ec v = poke s ec (\<lambda>e. e\<lparr>timeframe := v\<rparr>)"

definition ec_SetHChart :: "terminal \<Rightarrow> pointer \<Rightarrow> HWND \<Rightarrow> terminal option" where
  "ec_SetHChart s ec v = poke s ec (\<lambda>e. e\<lparr>hChart := v\<rparr>)"

definition ec_SetHChartWindow :: "terminal \<Rightarrow> pointer \<Rightarrow> HWND \<Rightarrow> terminal option" where
  "ec_SetHChartWindow s ec v = poke s ec (\<lambda>e. e\<lparr>hChartWindow := v\<rparr>)"

definition ec_SetSuperContext :: "terminal \<Rightarrow> pointer \<Rightarrow> pointer \<Rightarrow> terminal option" where
  "ec_SetSuperContext s ec v = poke s ec (\<lambda>e. e\<lparr>superContext := v\<rparr>)"

definition ec_SetThreadId :: "terminal \<Rightarrow> pointer \<Rightarrow> uint \<Rightarrow> terminal option" where
  "ec_SetThreadId s ec v = poke s ec (\<lambda>e. e\<lparr>threadId := v\<rparr>)"

definition ec_SetTicks :: "terminal \<Rightarrow> pointer \<Rightarrow> uint \<Rightarrow> terminal option" where
  "ec_SetTicks s ec v = poke s ec (\<lambda>e. e\<lparr>ticks := v\<rparr>)"

definition ec_SetPreviousTickTime :: "terminal \<Rightarrow> pointer \<Rightarrow> uint \<Rightarrow> terminal option" where
  "ec_SetPreviousTickTime s ec v = poke s ec (\<lambda>e. e\<lparr>previousTickTime := v\<rparr>)"

definition ec_SetCurrentTickTime :: "terminal \<Rightarrow> pointer \<Rightarrow> uint \<Rightarrow> terminal option" where
  "ec_SetCurrentTickTime s ec v = poke s ec (\<lambda>e. e\<lparr>currentTickTime := v\<rparr>)"

definition ec_SetMqlError :: "terminal \<Rightarrow> pointer \<Rightarrow> int \<Rightarrow> terminal option" where
  "ec_SetMqlError s ec v = poke s ec (\<lambda>e. e\<lparr>mqlError := v\<rparr>)"

definition ec_SetDllError :: "terminal \<Rightarrow> pointer \<Rightarrow> int \<Rightarrow> terminal option" where
  "ec_SetDllError s ec v = poke s ec (\<lambda>e. e\<lparr>dllError := v\<rparr>)"

definition ec_SetDllWarning :: "terminal \<Rightarrow> pointer \<Rightarrow> int \<Rightarrow> terminal option" where
  "ec_SetDllWarning s ec v = poke s ec (\<lambda>e. e\<lparr>dllWarning := v\<rparr>)"

section \<open>The thread and program tracker\<close>

text \<open>The loop of \<^verbatim>\<open>StoreThreadAndProgram\<close> over \<^verbatim>\<open>g_threads[i]\<close>, from index \<open>i\<close> on:
  at the first entry equal to the current thread it stores a non-zero program id in
  \<^verbatim>\<open>g_threadsPrograms[i]\<close> and stops with \<open>i\<close>; it ends with -1 when there is none.\<close>

fun threads_loop :: "DWORD list \<Rightarrow> DWORD \<Rightarrow> uint \<Rightarrow> nat \<Rightarrow> uint list \<Rightarrow> (int \<times> uint list) option" where
  "threads_loop [] currentThread pid i progs = Some (- 1, progs)"
| "threads_loop (t # ts) currentThread pid i progs =
     (if t = currentThread then
        (if pid \<noteq> 0 then
           (if i < length progs then Some (int i, progs[i := pid]) else None)
         else Some (int i, progs))
      else threads_loop ts currentThread pid (Suc i) progs)"

definition StoreThreadAndProgram :: "host \<Rightarrow> terminal \<Rightarrow> uint \<Rightarrow> (int \<times> terminal) option" where
  "StoreThreadAndProgram h s pid =
     (if sint pid < 0 then Some (EMPTY, error s ERR_INVALID_PARAMETER)
      else
        let currentThread = GetCurrentThreadId h in
        case threads_loop (g_threads s) currentThread pid 0 (g_threadsPrograms s) of
          None \<Rightarrow> None
        | Some (found, progs) \<Rightarrow>
            let s1 = s\<lparr>g_threadsPrograms := progs\<rparr>;
                (currentThreadIndex, s2) =
                  (if found = - 1 then
                     let s' = s1\<lparr>g_threads := g_threads s1 @ [currentThread],
                                 g_threadsPrograms := g_threadsPrograms s1 @ [pid]\<rparr>;
                         idx = int (length (g_threads s')) - 1
                     in (idx, if idx > 511 then debug s' else s')
                   else (found, s1));
                s3 = (if pid \<noteq> 0 \<and> IsUIThread h
                      then s2\<lparr>g_lastUIThreadProgram := pid\<rparr> else s2)
            in Some (currentThreadIndex, s3))"

section \<open>The limbo scan\<close>

text \<open>The six nested tests of \<^verbatim>\<open>FindIndicatorInLimbo\<close> on a master context.
  \<^verbatim>\<open>programType == MT_INDICATOR\<close> compares with the number that is also
  \<^verbatim>\<open>PT_INDICATOR\<close>; \<^verbatim>\<open>rootFunction == NULL\<close> is a record between deinit and init.\<close>

definition limbo_match :: "host \<Rightarrow> EXECUTION_CONTEXT \<Rightarrow> HWND \<Rightarrow> string \<Rightarrow> UninitializeReason \<Rightarrow> bool" where
  "limbo_match h master hChart' name reason =
     (if threadId master = GetUIThreadId h then
        if hChart master = hChart' then
          if programType master = Some PT_INDICATOR then
            if programName master = name then
              if uninitReason master = reason then
                rootFunction master = None
              else False
            else False
          else False
        else False
      else False)"

text \<open>The loop of \<^verbatim>\<open>FindIndicatorInLimbo\<close> over the chains that are still to be
  visited, in the order of the registry; after the last one the function returns
  \<^verbatim>\<open>NULL\<close>.\<close>

fun limbo_loop :: "host \<Rightarrow> terminal \<Rightarrow> HWND \<Rightarrow> string \<Rightarrow> UninitializeReason \<Rightarrow> ContextChain list \<Rightarrow> int option" where
  "limbo_loop h s hChart' name reason [] = Some 0"
| "limbo_loop h s hChart' name reason (chain # rest) =
     (case chain of
        [] \<Rightarrow> None
      | p # _ \<Rightarrow>
          (case deref s p of
             None \<Rightarrow> None
           | Some master \<Rightarrow>
               if limbo_match h master hChart' name reason
               then Some (sint (programId master))
               else limbo_loop h s hChart' name reason rest))"

text \<open>The scan starts at index 1 (\<^verbatim>\<open>index[0] is never occupied\<close>) and is skipped for a
  null chart handle.\<close>

definition FindIndicatorInLimbo :: "host \<Rightarrow> terminal \<Rightarrow> HWND \<Rightarrow> string \<Rightarrow> UninitializeReason \<Rightarrow> int option" where
  "FindIndicatorInLimbo h s hChart' name reason =
     (if hChart' \<noteq> NULL
      then limbo_loop h s hChart' name reason (drop 1 (g_contextChains s))
      else Some 0)"

section \<open>Leaving a context\<close>

text \<open>\<^verbatim>\<open>LeaveContext\<close>. The cases \<^verbatim>\<open>MT_INDICATOR\<close> and \<^verbatim>\<open>MT_SCRIPT\<close> share one body. In
  the expert's case the uninit reason is read after the root function was written.\<close>

definition LeaveContext :: "host \<Rightarrow> terminal \<Rightarrow> pointer \<Rightarrow> (BOOL \<times> terminal) option" where
  "LeaveContext h s ec =
     (if ec < MIN_VALID_POINTER h then Some (False, error s ERR_INVALID_PARAMETER)
      else do {
        e \<leftarrow> deref s ec;
        let pid = programId e;
        if sint pid < 1 then Some (False, error s ERR_INVALID_PARAMETER)
        else if rootFunction e \<noteq> Some RF_DEINIT then Some (False, error s ERR_INVALID_PARAMETER)
        else if moduleType e = Some MT_INDICATOR \<or> moduleType e = Some MT_SCRIPT then do {
          main \<leftarrow> chain_slot s pid 1;
          if ec \<noteq> main then Some (False, error s ERR_ILLEGAL_STATE)
          else do {
            s1 \<leftarrow> ec_SetRootFunction s ec None;
            s2 \<leftarrow> set_chain_slot s1 pid 1 NULL;
            Some (True, s2)
          }
        }
        else if moduleType e = Some MT_EXPERT then do {
          main \<leftarrow> chain_slot s pid 1;
          if ec \<noteq> main then Some (False, error s ERR_ILLEGAL_STATE)
          else do {
            s1 \<leftarrow> ec_SetRootFunction s ec None;
            e1 \<leftarrow> deref s1 ec;
            s2 \<leftarrow> (if uninitReason e1 \<noteq> UR_CHARTCHANGE \<and> uninitReason e1 \<noteq> UR_PARAMETERS
                      \<and> uninitReason e1 \<noteq> UR_ACCOUNT
                   then set_chain_slot s1 pid 1 NULL else Some s1);
            Some (True, s2)
          }
        }
        else if moduleType e = Some MT_LIBRARY then do {
          s1 \<leftarrow> ec_SetRootFunction s ec None;
          Some (False, s1)
        }
        else Some (False, error s ERR_INVALID_PARAMETER)
      })"

section \<open>The window handle\<close>

text \<open>\<^verbatim>\<open>FindWindowHandle\<close>: the three early returns as written; what follows them in the
  source walks the terminal's windows through the Win32 API and is the parameter
  \<open>FindWindowHandle_desktop\<close>.\<close>

definition FindWindowHandle :: "host \<Rightarrow> terminal \<Rightarrow> HWND \<Rightarrow> pointer \<Rightarrow> ModuleType \<Rightarrow> string \<Rightarrow> uint \<Rightarrow> BOOL \<Rightarrow> BOOL \<Rightarrow> (HWND \<times> terminal) option" where
  "FindWindowHandle h s hChart' sec moduleType' symbol' timeframe' isTesting isVisualMode =
     (if hChart' \<noteq> NULL then Some (hChart', s)
      else if sec \<noteq> NULL then do { se \<leftarrow> deref s sec; Some (hChart se, s) }
      else if isTesting \<and> \<not> isVisualMode then Some (NULL, s)
      else (case FindWindowHandle_desktop h moduleType' symbol' timeframe' of
              (hWnd, ds) \<Rightarrow> Some (hWnd, s\<lparr>diagnostics := diagnostics s @ ds\<rparr>)))"

section \<open>The init reason\<close>

text \<open>The resolvers return the init reason (\<open>None\<close> for \<^verbatim>\<open>NULL\<close>), the value left in the
  reference parameter \<^verbatim>\<open>originalProgramId\<close>, and the state with the diagnostics they
  emitted. \<open>illegal\<close> is the return statement
  \<^verbatim>\<open>return((InitializeReason)error(ERR_ILLEGAL_STATE, ...))\<close>.\<close>

definition illegal :: "terminal \<Rightarrow> uint \<Rightarrow> (InitializeReason option \<times> uint \<times> terminal) option" where
  "illegal s originalProgramId = Some (None, originalProgramId, error s ERR_ILLEGAL_STATE)"

definition InitReason_indicator :: "host \<Rightarrow> terminal \<Rightarrow> pointer \<Rightarrow> pointer \<Rightarrow> string \<Rightarrow> UninitializeReason \<Rightarrow> string \<Rightarrow> BOOL \<Rightarrow> BOOL \<Rightarrow> HWND \<Rightarrow> int \<Rightarrow> uint \<Rightarrow> (InitializeReason option \<times> uint \<times> terminal) option" where
  "InitReason_indicator h s ec sec programName' uninitReason' symbol' isTesting isVisualMode hChart' droppedOnChart originalProgramId =
     (let build = GetTerminalBuild h; isUIThread = IsUIThread h in
      if uninitReason' = UR_PARAMETERS then
        (if sec \<noteq> NULL then illegal s originalProgramId
         else do {
           e \<leftarrow> deref s ec;
           if programId e \<noteq> 0 then do {
             p \<leftarrow> chain_slot s (programId e) 0;
             master \<leftarrow> deref s p;
             let isProgramNew = (ticks master = 0);
             Some (if isProgramNew then Some IR_USER else Some IR_PARAMETERS, originalProgramId, s)
           }
           else do {
             found \<leftarrow> FindIndicatorInLimbo h s hChart' programName' uninitReason';
             if found < 0 then Some (None, originalProgramId, s)
             else
               let isProgramNew = (found = 0) in
               Some (if isProgramNew then Some IR_USER else Some IR_PARAMETERS, word_of_int found, s)
           }
         })
      else if uninitReason' = UR_CHARTCHANGE then
        (if sec \<noteq> NULL then illegal s originalProgramId
         else do {
           e \<leftarrow> deref s ec;
           if programId e = 0 then do {
             found \<leftarrow> FindIndicatorInLimbo h s hChart' programName' uninitReason';
             if found \<le> 0 then
               (if found < 0 then Some (None, originalProgramId, s)
                else Some (None, originalProgramId, error s ERR_RUNTIME_ERROR))
             else do {
               p \<leftarrow> chain_slot s (word_of_int found) 0;
               master \<leftarrow> deref s p;
               Some (if symbol master = symbol' then Some IR_TIMEFRAMECHANGE else Some IR_SYMBOLCHANGE,
                     word_of_int found, s)
             }
           }
           else do {
             p \<leftarrow> chain_slot s (programId e) 0;
             master \<leftarrow> deref s p;
             Some (if symbol master = symbol' then Some IR_TIMEFRAMECHANGE else Some IR_SYMBOLCHANGE,
                   originalProgramId, s)
           }
         })
      else if uninitReason' = UR_UNDEFINED then
        (if sec = NULL then
           (if build < 654 then Some (Some IR_TEMPLATE, originalProgramId, s)
            else if droppedOnChart \<ge> 0 then Some (Some IR_TEMPLATE, originalProgramId, s)
            else Some (Some IR_USER, originalProgramId, s))
         else if isTesting \<and> \<not> isVisualMode \<and> isUIThread then
           (if build \<le> 229 then Some (Some IR_PROGRAM_AFTERTEST, originalProgramId, s)
            else illegal s originalProgramId)
         else Some (Some IR_PROGRAM, originalProgramId, s))
      else if uninitReason' = UR_REMOVE then
        (if sec = NULL then illegal s originalProgramId
         else if \<not> isTesting \<or> \<not> isUIThread then illegal s originalProgramId
         else if (if \<not> isVisualMode then 388 \<le> build \<and> build \<le> 628
                  else 578 \<le> build \<and> build \<le> 628)
           then Some (Some IR_PROGRAM_AFTERTEST, originalProgramId, s)
         else illegal s originalProgramId)
      else if uninitReason' = UR_RECOMPILE then
        (if sec \<noteq> NULL then illegal s originalProgramId
         else Some (Some IR_RECOMPILE, originalProgramId, s))
      else if uninitReason' = UR_CHARTCLOSE then
        (if sec = NULL then illegal s originalProgramId
         else if \<not> isTesting \<or> \<not> isUIThread then illegal s originalProgramId
         else if build \<ge> 633 then Some (Some IR_PROGRAM_AFTERTEST, originalProgramId, s)
         else illegal s originalProgramId)
      else illegal s originalProgramId)"

definition InitReason_expert :: "host \<Rightarrow> terminal \<Rightarrow> pointer \<Rightarrow> UninitializeReason \<Rightarrow> string \<Rightarrow> BOOL \<Rightarrow> int \<Rightarrow> int \<Rightarrow> (InitializeReason option \<times> terminal) option" where
  "InitReason_expert h s ec uninitReason' symbol' isTesting droppedOnPosX droppedOnPosY =
     (let build = GetTerminalBuild h in
      if uninitReason' = UR_PARAMETERS then Some (Some IR_PARAMETERS, s)
      else if uninitReason' = UR_CHARTCHANGE then do {
        e \<leftarrow> deref s ec;
        if programId e = 0 then Some (None, error s ERR_ILLEGAL_STATE)
        else do {
          p \<leftarrow> chain_slot s (programId e) 0;
          master \<leftarrow> deref s p;
          Some (if symbol master = symbol' then Some IR_TIMEFRAMECHANGE else Some IR_SYMBOLCHANGE, s)
        }
      }
      else if uninitReason' = UR_RECOMPILE then Some (Some IR_RECOMPILE, s)
      else if uninitReason' = UR_CHARTCLOSE then
        (if build > 509 then Some (None, error s ERR_ILLEGAL_STATE) else Some (Some IR_USER, s))
      else if uninitReason' = UR_UNDEFINED then
        (if isTesting then Some (Some IR_USER, s)
         else if droppedOnPosX \<ge> 0 then Some (Some IR_USER, s)
         else Some (Some IR_TEMPLATE, s))
      else if uninitReason' = UR_REMOVE then
        (if droppedOnPosX \<ge> 0 then Some (Some IR_USER, s) else Some (Some IR_TEMPLATE, s))
      else if uninitReason' = UR_TEMPLATE then
        (if build \<le> 509 then Some (None, error s ERR_ILLEGAL_STATE)
         else if droppedOnPosX \<ge> 0 then Some (Some IR_USER, s)
         else Some (Some IR_TEMPLATE, s))
      else Some (None, error s ERR_ILLEGAL_STATE))"

definition InitReason_script :: InitializeReason where
  "InitReason_script = IR_USER"

definition InitReason :: "host \<Rightarrow> terminal \<Rightarrow> pointer \<Rightarrow> pointer \<Rightarrow> ProgramType \<Rightarrow> string \<Rightarrow> UninitializeReason \<Rightarrow> string \<Rightarrow> BOOL \<Rightarrow> BOOL \<Rightarrow> HWND \<Rightarrow> int \<Rightarrow> int \<Rightarrow> int \<Rightarrow> (InitializeReason option \<times> uint \<times> terminal) option" where
  "InitReason h s ec sec programType' programName' uninitReason' symbol' isTesting isVisualMode hChart' droppedOnChart droppedOnPosX droppedOnPosY =
     (let originalProgramId = NULL in
      case programType' of
        PT_INDICATOR \<Rightarrow>
          InitReason_indicator h s ec sec programName' uninitReason' symbol' isTesting isVisualMode
            hChart' droppedOnChart originalProgramId
      | PT_EXPERT \<Rightarrow> do {
          (r, s') \<leftarrow> InitReason_expert h s ec uninitReason' symbol' isTesting droppedOnPosX droppedOnPosY;
          Some (r, originalProgramId, s')
        }
      | PT_SCRIPT \<Rightarrow> Some (Some InitReason_script, originalProgramId, s))"

section \<open>The effective flags of a program\<close>

text \<open>Modelled from the spec: \<^verbatim>\<open>StringEndsWith\<close> (declared in \<^verbatim>\<open>Expander.h\<close>) tells
  whether a window title ends with the visual-mode marker.\<close>

definition StringEndsWith :: "string \<Rightarrow> string \<Rightarrow> BOOL" where
  "StringEndsWith str sfx =
     (length sfx \<le> length str \<and> drop (length str - length sfx) str = sfx)"

definition ProgramIsTesting :: "host \<Rightarrow> terminal \<Rightarrow> pointer \<Rightarrow> BOOL \<Rightarrow> (BOOL \<times> terminal) option" where
  "ProgramIsTesting h s ec isTesting = do {
     e \<leftarrow> deref s ec;
     if superContext e \<noteq> NULL then do {
       super \<leftarrow> deref s (superContext e);
       Some (testing super, s)
     }
     else (case programType e of
        Some PT_INDICATOR \<Rightarrow>
          if isTesting then Some (True, s)
          else
            let hWnd = hChartWindow e in
            if hWnd = NULL then Some (True, s)
            else
              let title = GetWindowText h hWnd in
              if length title = 0 then Some (False, s)
              else Some (StringEndsWith title ''(visual)'', s)
      | Some PT_EXPERT \<Rightarrow> Some (isTesting, s)
      | Some PT_SCRIPT \<Rightarrow>
          let hWnd = hChartWindow e in
          if hWnd \<noteq> NULL then Some (StringEndsWith (GetWindowText h hWnd) ''(visual)'', s)
          else Some (False, error s ERR_ILLEGAL_STATE)
      | None \<Rightarrow> Some (False, error s ERR_INVALID_PARAMETER))
   }"

definition ProgramIsVisualMode :: "host \<Rightarrow> terminal \<Rightarrow> pointer \<Rightarrow> BOOL \<Rightarrow> (BOOL \<times> terminal) option" where
  "ProgramIsVisualMode h s ec isVisualMode = do {
     e \<leftarrow> deref s ec;
     if superContext e \<noteq> NULL then do {
       super \<leftarrow> deref s (superContext e);
       Some (visualMode super, s)
     }
     else (case programType e of
        Some PT_INDICATOR \<Rightarrow> Some (testing e \<and> hChart e \<noteq> NULL, s)
      | Some PT_EXPERT \<Rightarrow> Some (isVisualMode, s)
      | Some PT_SCRIPT \<Rightarrow> Some (testing e, s)
      | None \<Rightarrow> Some (False, error s ERR_INVALID_PARAMETER))
   }"

definition ProgramIsOptimization :: "host \<Rightarrow> terminal \<Rightarrow> pointer \<Rightarrow> BOOL \<Rightarrow> (BOOL \<times> terminal) option" where
  "ProgramIsOptimization h s ec isOptimization = do {
     e \<leftarrow> deref s ec;
     if superContext e \<noteq> NULL then do {
       super \<leftarrow> deref s (superContext e);
       Some (optimization super, s)
     }
     else (case programType e of
        Some _ \<Rightarrow> Some (isOptimization, s)
      | None \<Rightarrow> Some (False, error s ERR_INVALID_PARAMETER))
   }"

definition ProgramIsLogging :: "host \<Rightarrow> terminal \<Rightarrow> pointer \<Rightarrow> (BOOL \<times> terminal) option" where
  "ProgramIsLogging h s ec = do {
     e \<leftarrow> deref s ec;
     if superContext e \<noteq> NULL then do {
       super \<leftarrow> deref s (superContext e);
       Some (logging super, s)
     }
     else (case programType e of
        Some _ \<Rightarrow> Some (True, s)
      | None \<Rightarrow> Some (False, error s ERR_INVALID_PARAMETER))
   }"

definition ProgramCustomLogFile :: "host \<Rightarrow> terminal \<Rightarrow> pointer \<Rightarrow> (string option \<times> terminal) option" where
  "ProgramCustomLogFile h s ec = do {
     e \<leftarrow> deref s ec;
     if superContext e \<noteq> NULL then do {
       super \<leftarrow> deref s (superContext e);
       Some (customLogFile super, s)
     }
     else (case programType e of
        Some _ \<Rightarrow> Some (None, s)
      | None \<Rightarrow> Some (None, error s ERR_INVALID_PARAMETER))
   }"

section \<open>Synchronising the context of a main module\<close>

text \<open>A C string argument: the pointer that is validated, and the characters it points
  to.\<close>

type_synonym cstring = "pointer \<times> string"

text \<open>Section (1.1) of \<^verbatim>\<open>SyncMainContext_init\<close>, an indicator in its init cycle: the
  main context is restored from the master context of its chain and stored as slot 1.\<close>

definition SyncMainContext_init_1_1 :: "terminal \<Rightarrow> pointer \<Rightarrow> terminal option" where
  "SyncMainContext_init_1_1 s ec = do {
     e \<leftarrow> deref s ec;
     p \<leftarrow> chain_slot s (programId e) 0;
     master \<leftarrow> deref s p;
     let s1 = s\<lparr>memory := (memory s)(ec \<mapsto> master)\<rparr>;
     set_chain_slot s1 (programId master) 1 ec
   }"

text \<open>Section (1.2), every other program: a new master context (memory that is not in
  use) and a new chain are created, and the index of the chain is the program id of both
  contexts. The block returns the locals \<^verbatim>\<open>lastProgramId\<close> and \<^verbatim>\<open>isNewExpert\<close>.\<close>

definition SyncMainContext_init_1_2 :: "host \<Rightarrow> terminal \<Rightarrow> pointer \<Rightarrow> ProgramType \<Rightarrow> (uint \<times> BOOL \<times> terminal) option" where
  "SyncMainContext_init_1_2 h s ec programType' = do {
     let master = operator_new h;
     e \<leftarrow> deref s ec;
     s1 \<leftarrow> (if master = NULL \<or> memory s master \<noteq> None then None
            else Some (s\<lparr>memory := (memory s)(master \<mapsto> e)\<rparr>));
     let chain = [master, ec];
     let s2 = s1\<lparr>g_contextChains := g_contextChains s1 @ [chain]\<rparr>;
     let size = (of_nat (length (g_contextChains s2)) :: uint);
     s3 \<leftarrow> poke s2 ec (\<lambda>e. e\<lparr>programId := size - 1\<rparr>);
     e3 \<leftarrow> deref s3 ec;
     s4 \<leftarrow> poke s3 master (\<lambda>m. m\<lparr>programId := programId e3\<rparr>);
     (index, s5) \<leftarrow> StoreThreadAndProgram h s4 0;
     lastProgramId \<leftarrow> (if 0 \<le> index \<and> nat index < length (g_threadsPrograms s5)
                       then Some (g_threadsPrograms s5 ! nat index) else None);
     e5 \<leftarrow> deref s5 ec;
     let s6 = s5\<lparr>g_threadsPrograms := (g_threadsPrograms s5)[nat index := programId e5]\<rparr>;
     Some (lastProgramId, programType' = PT_EXPERT, s6)
   }"

text \<open>Section (1), the block \<^verbatim>\<open>if (!ec->programId)\<close>. It returns the locals \<^verbatim>\<open>sec\<close>,
  \<^verbatim>\<open>lastProgramId\<close> and \<^verbatim>\<open>isNewExpert\<close>.\<close>

definition SyncMainContext_init_1 :: "host \<Rightarrow> terminal \<Rightarrow> pointer \<Rightarrow> ProgramType \<Rightarrow> InitializeReason option \<Rightarrow> uint \<Rightarrow> pointer \<Rightarrow> ((pointer \<times> uint \<times> BOOL) \<times> terminal) option" where
  "SyncMainContext_init_1 h s ec programType' initReason' originalProgramId sec = do {
     e \<leftarrow> deref s ec;
     if programId e = 0 then do {
       s1 \<leftarrow> (if originalProgramId \<noteq> 0 then do {
                 sa \<leftarrow> ec_SetProgramId s ec originalProgramId;
                 ea \<leftarrow> deref sa ec;
                 (_, sb) \<leftarrow> StoreThreadAndProgram h sa (programId ea);
                 Some sb
               } else Some s);
       let indicatorInInitCycle = (programType' = PT_INDICATOR \<and>
             (initReason' = Some IR_PARAMETERS \<or> initReason' = Some IR_SYMBOLCHANGE
              \<or> initReason' = Some IR_TIMEFRAMECHANGE));
       let indicatorAfterTest = (programType' = PT_INDICATOR \<and> initReason' = Some IR_PROGRAM_AFTERTEST);
       (lastProgramId, isNewExpert, s2) \<leftarrow>
         (if indicatorInInitCycle then do {
            sa \<leftarrow> SyncMainContext_init_1_1 s1 ec;
            Some (NULL, False, sa)
          }
          else SyncMainContext_init_1_2 h s1 ec programType');
       if indicatorAfterTest then do {
         s3 \<leftarrow> ec_SetSuperContext s2 ec NULL;
         Some ((NULL, lastProgramId, isNewExpert), s3)
       }
       else Some ((sec, lastProgramId, isNewExpert), s2)
     }
     else Some ((sec, NULL, False), s)
   }"

text \<open>Section (2): the fields written at the first call of init (\<^verbatim>\<open>!ec->ticks\<close>), then the
  fields written at every call. It returns the locals \<^verbatim>\<open>isTesting\<close>, \<^verbatim>\<open>isVisualMode\<close>
  and \<^verbatim>\<open>isOptimization\<close>, which the first part overwrites.\<close>

definition SyncMainContext_init_2 :: "host \<Rightarrow> terminal \<Rightarrow> pointer \<Rightarrow> ProgramType \<Rightarrow> string \<Rightarrow> InitializeReason option \<Rightarrow> UninitializeReason \<Rightarrow> DWORD \<Rightarrow> DWORD \<Rightarrow> string \<Rightarrow> uint \<Rightarrow> pointer \<Rightarrow> BOOL \<Rightarrow> BOOL \<Rightarrow> BOOL \<Rightarrow> HWND \<Rightarrow> ((BOOL \<times> BOOL \<times> BOOL) \<times> terminal) option" where
  "SyncMainContext_init_2 h s ec programType' programName' initReason' uninitReason' initFlags' deinitFlags' symbol' period sec isTesting isVisualMode isOptimization hChart' = do {
     e \<leftarrow> deref s ec;
     ((isTesting1, isVisualMode1, isOptimization1), s1) \<leftarrow>
       (if ticks e = 0 then do {
          sa \<leftarrow> ec_SetProgramType s ec programType';
          sb \<leftarrow> ec_SetProgramName sa ec programName';
          sc \<leftarrow> ec_SetModuleType sb ec (ModuleType_of programType');
          sd \<leftarrow> ec_SetModuleName sc ec programName';
          se \<leftarrow> ec_SetSuperContext sd ec sec;
          sf \<leftarrow> ec_SetHChart se ec hChart';
          sg \<leftarrow> ec_SetHChartWindow sf ec (if hChart' \<noteq> NULL then GetParent h hChart' else NULL);
          (isTesting', sh) \<leftarrow> ProgramIsTesting h sg ec isTesting;
          si \<leftarrow> ec_SetTesting sh ec isTesting';
          (isVisualMode', sj) \<leftarrow> ProgramIsVisualMode h si ec isVisualMode;
          sk \<leftarrow> ec_SetVisualMode sj ec isVisualMode';
          (isOptimization', sl) \<leftarrow> ProgramIsOptimization h sk ec isOptimization;
          sm \<leftarrow> ec_SetOptimization sl ec isOptimization';
          sn \<leftarrow> ec_SetInitFlags sm ec initFlags';
          so \<leftarrow> ec_SetDeinitFlags sn ec deinitFlags';
          (isLogging, sp) \<leftarrow> ProgramIsLogging h so ec;
          sq \<leftarrow> ec_SetLogging sp ec isLogging;
          (logFile, sr) \<leftarrow> ProgramCustomLogFile h sq ec;
          st \<leftarrow> ec_SetCustomLogFile sr ec logFile;
          Some ((isTesting', isVisualMode', isOptimization'), st)
        }
        else Some ((isTesting, isVisualMode, isOptimization), s));
     s2 \<leftarrow> ec_SetRootFunction s1 ec (Some RF_INIT);
     s3 \<leftarrow> ec_SetInitReason s2 ec initReason';
     s4 \<leftarrow> ec_SetUninitReason s3 ec uninitReason';
     s5 \<leftarrow> ec_SetSymbol s4 ec symbol';
     s6 \<leftarrow> ec_SetTimeframe s5 ec period;
     s7 \<leftarrow> ec_SetThreadId s6 ec (GetCurrentThreadId h);
     Some ((isTesting1, isVisualMode1, isOptimization1), s7)
   }"

text \<open>The body of \<^verbatim>\<open>if (lib->initCycle)\<close> in the loop of section (3): the library in
  slot \<open>i\<close> of the last chain is taken out of that chain, its fields are set from the
  main context \<open>ec\<close>, and it is appended to \<^verbatim>\<open>currentChain\<close>, the chain with index
  \<open>current\<close>.\<close>

definition reassign_library :: "pointer \<Rightarrow> uint \<Rightarrow> uint \<Rightarrow> nat \<Rightarrow> pointer \<Rightarrow> terminal \<Rightarrow> terminal option" where
  "reassign_library ec current lastProgramId i lib s = do {
     s1 \<leftarrow> set_chain_slot s lastProgramId i NULL;
     e1 \<leftarrow> deref s1 ec;
     s2 \<leftarrow> ec_SetProgramId s1 lib (programId e1);
     s3 \<leftarrow> ec_SetInitCycle s2 lib False;
     e3 \<leftarrow> deref s3 ec;
     s4 \<leftarrow> ec_SetVisualMode s3 lib (visualMode e3);
     e4 \<leftarrow> deref s4 ec;
     s5 \<leftarrow> ec_SetOptimization s4 lib (optimization e4);
     e5 \<leftarrow> deref s5 ec;
     s6 \<leftarrow> ec_SetLogging s5 lib (logging e5);
     e6 \<leftarrow> deref s6 ec;
     s7 \<leftarrow> ec_SetCustomLogFile s6 lib (customLogFile e6);
     e7 \<leftarrow> deref s7 ec;
     s8 \<leftarrow> ec_SetHChart s7 lib (hChart e7);
     e8 \<leftarrow> deref s8 ec;
     s9 \<leftarrow> ec_SetHChartWindow s8 lib (hChartWindow e8);
     chain_push_back s9 current lib
   }"

text \<open>The loop of section (3) over \<^verbatim>\<open>lastChain[i]\<close>, \<open>i\<close> from 2 up to the size the last
  chain had before the loop.\<close>

function reassign_loop :: "pointer \<Rightarrow> uint \<Rightarrow> uint \<Rightarrow> nat \<Rightarrow> nat \<Rightarrow> terminal \<Rightarrow> terminal option" where
  "reassign_loop ec current lastProgramId i lastSize s =
     (if i < lastSize then do {
        lib \<leftarrow> chain_slot s lastProgramId i;
        if lib = NULL then
          reassign_loop ec current lastProgramId (Suc i) lastSize (warn s ERR_ILLEGAL_STATE)
        else do {
          l \<leftarrow> deref s lib;
          if initCycle l then do {
            s' \<leftarrow> reassign_library ec current lastProgramId i lib s;
            reassign_loop ec current lastProgramId (Suc i) lastSize s'
          }
          else reassign_loop ec current lastProgramId (Suc i) lastSize s
        }
      }
      else Some s)"
  by pat_completeness auto
termination
  by (relation "measure (\<lambda>(ec, current, lastProgramId, i, lastSize, s). lastSize - i)") auto

declare reassign_loop.simps [simp del]

text \<open>Section (3): the libraries of the previous test are moved to the new expert.\<close>

definition SyncMainContext_init_3 :: "host \<Rightarrow> terminal \<Rightarrow> pointer \<Rightarrow> BOOL \<Rightarrow> BOOL \<Rightarrow> uint \<Rightarrow> terminal option" where
  "SyncMainContext_init_3 h s ec isNewExpert isTesting lastProgramId =
     (if isNewExpert \<and> isTesting \<and> lastProgramId \<noteq> 0 then do {
        lastMaster \<leftarrow> chain_slot s lastProgramId 0;
        if lastMaster \<noteq> NULL then do {
          lm \<leftarrow> deref s lastMaster;
          if initCycle lm then do {
            e \<leftarrow> deref s ec;
            current \<leftarrow> (if unat (programId e) < length (g_contextChains s)
                        then Some (programId e) else None);
            let lastSize = length (g_contextChains s ! unat lastProgramId);
            s1 \<leftarrow> reassign_loop ec current lastProgramId 2 lastSize s;
            poke s1 lastMaster (\<lambda>m. m\<lparr>initCycle := False\<rparr>)
          }
          else Some s
        }
        else Some s
      }
      else Some s)"

definition SyncMainContext_init :: "host \<Rightarrow> terminal \<Rightarrow> pointer \<Rightarrow> ProgramType \<Rightarrow> cstring \<Rightarrow> UninitializeReason \<Rightarrow> DWORD \<Rightarrow> DWORD \<Rightarrow> cstring \<Rightarrow> uint \<Rightarrow> pointer \<Rightarrow> BOOL \<Rightarrow> BOOL \<Rightarrow> BOOL \<Rightarrow> HWND \<Rightarrow> int \<Rightarrow> int \<Rightarrow> int \<Rightarrow> (BOOL \<times> terminal) option" where
  "SyncMainContext_init h s ec programType' programName' uninitReason' initFlags' deinitFlags' symbol' period sec isTesting isVisualMode isOptimization hChart' droppedOnChart droppedOnPosX droppedOnPosY =
     (if ec < MIN_VALID_POINTER h then Some (False, error s ERR_INVALID_PARAMETER)
      else if fst programName' < MIN_VALID_POINTER h then Some (False, error s ERR_INVALID_PARAMETER)
      else if fst symbol' < MIN_VALID_POINTER h then Some (False, error s ERR_INVALID_PARAMETER)
      else if sint period \<le> 0 then Some (False, error s ERR_INVALID_PARAMETER)
      else if sec \<noteq> NULL \<and> sec < MIN_VALID_POINTER h then Some (False, error s ERR_INVALID_PARAMETER)
      else do {
        e \<leftarrow> deref s ec;
        s1 \<leftarrow> (if programId e \<noteq> 0 then do {
                  (_, sa) \<leftarrow> StoreThreadAndProgram h s (programId e);
                  Some sa
                } else Some s);
        (initReason', originalProgramId, s2) \<leftarrow>
          InitReason h s1 ec sec programType' (snd programName') uninitReason' (snd symbol')
            isTesting isVisualMode hChart' droppedOnChart droppedOnPosX droppedOnPosY;
        (hChart1, s3) \<leftarrow>
          FindWindowHandle h s2 hChart' sec (ModuleType_of programType') (snd symbol') period
            isTesting isVisualMode;
        if hChart1 = INVALID_HWND then Some (False, error s3 ERR_RUNTIME_ERROR)
        else do {
          ((sec1, lastProgramId, isNewExpert), s4) \<leftarrow>
            SyncMainContext_init_1 h s3 ec programType' initReason' originalProgramId sec;
          ((isTesting1, isVisualMode1, isOptimization1), s5) \<leftarrow>
            SyncMainContext_init_2 h s4 ec programType' (snd programName') initReason' uninitReason'
              initFlags' deinitFlags' (snd symbol') period sec1 isTesting isVisualMode
              isOptimization hChart1;
          s6 \<leftarrow> SyncMainContext_init_3 h s5 ec isNewExpert isTesting1 lastProgramId;
          Some (True, s6)
        }
      })"

definition SyncMainContext_start :: "host \<Rightarrow> terminal \<Rightarrow> pointer \<Rightarrow> uint \<Rightarrow> (BOOL \<times> terminal) option" where
  "SyncMainContext_start h s ec time =
     (if ec < MIN_VALID_POINTER h then Some (False, error s ERR_INVALID_PARAMETER)
      else do {
        e \<leftarrow> deref s ec;
        if programId e = 0 then Some (False, error s ERR_INVALID_PARAMETER)
        else do {
          (_, s1) \<leftarrow> StoreThreadAndProgram h s (programId e);
          s2 \<leftarrow> ec_SetRootFunction s1 ec (Some RF_START);
          s3 \<leftarrow> ec_SetThreadId s2 ec (GetCurrentThreadId h);
          e3 \<leftarrow> deref s3 ec;
          s4 \<leftarrow> ec_SetTicks s3 ec (ticks e3 + 1);
          e4 \<leftarrow> deref s4 ec;
          s5 \<leftarrow> ec_SetPreviousTickTime s4 ec (currentTickTime e4);
          s6 \<leftarrow> ec_SetCurrentTickTime s5 ec time;
          Some (True, s6)
        }
      })"

definition SyncMainContext_deinit :: "host \<Rightarrow> terminal \<Rightarrow> pointer \<Rightarrow> UninitializeReason \<Rightarrow> (BOOL \<times> terminal) option" where
  "SyncMainContext_deinit h s ec uninitReason' =
     (if ec < MIN_VALID_POINTER h then Some (False, error s ERR_INVALID_PARAMETER)
      else do {
        e \<leftarrow> deref s ec;
        if programId e = 0 then Some (False, error s ERR_INVALID_PARAMETER)
        else do {
          (_, s1) \<leftarrow> StoreThreadAndProgram h s (programId e);
          s2 \<leftarrow> ec_SetRootFunction s1 ec (Some RF_DEINIT);
          s3 \<leftarrow> ec_SetUninitReason s2 ec uninitReason';
          s4 \<leftarrow> ec_SetThreadId s3 ec (GetCurrentThreadId h);
          Some (True, s4)
        }
      })"

section \<open>Synchronising the context of a library\<close>

definition SyncLibContext_init :: "host \<Rightarrow> terminal \<Rightarrow> pointer \<Rightarrow> UninitializeReason \<Rightarrow> DWORD \<Rightarrow> DWORD \<Rightarrow> cstring \<Rightarrow> cstring \<Rightarrow> uint \<Rightarrow> BOOL \<Rightarrow> (BOOL \<times> terminal) option" where
  "SyncLibContext_init h s ec uninitReason' initFlags' deinitFlags' moduleName' symbol' period isOptimization =
     (if ec < MIN_VALID_POINTER h then Some (False, error s ERR_INVALID_PARAMETER)
      else if fst moduleName' < MIN_VALID_POINTER h then Some (False, error s ERR_INVALID_PARAMETER)
      else if fst symbol' < MIN_VALID_POINTER h then Some (False, error s ERR_INVALID_PARAMETER)
      else if sint period \<le> 0 then Some (False, error s ERR_INVALID_PARAMETER)
      else do {
        e \<leftarrow> deref s ec;
        if programId e = 0 then do {
          (index, s1) \<leftarrow> StoreThreadAndProgram h s 0;
          pid \<leftarrow> (if 0 \<le> index \<and> nat index < length (g_threadsPrograms s1)
                   then Some (g_threadsPrograms s1 ! nat index) else None);
          p \<leftarrow> chain_slot s1 pid 0;
          master \<leftarrow> deref s1 p;
          let s2 = s1\<lparr>memory := (memory s1)(ec \<mapsto> master)\<rparr>;
          s3 \<leftarrow> ec_SetModuleType s2 ec MT_LIBRARY;
          s4 \<leftarrow> ec_SetModuleName s3 ec (snd moduleName');
          s5 \<leftarrow> ec_SetRootFunction s4 ec (Some RF_INIT);
          s6 \<leftarrow> ec_SetInitCycle s5 ec False;
          s7 \<leftarrow> ec_SetInitReason s6 ec None;
          s8 \<leftarrow> ec_SetUninitReason s7 ec uninitReason';
          s9 \<leftarrow> ec_SetInitFlags s8 ec initFlags';
          s10 \<leftarrow> ec_SetDeinitFlags s9 ec deinitFlags';
          s11 \<leftarrow> ec_SetTicks s10 ec NULL;
          s12 \<leftarrow> ec_SetMqlError s11 ec 0;
          s13 \<leftarrow> ec_SetDllError s12 ec 0;
          s14 \<leftarrow> poke s13 ec (\<lambda>e. e\<lparr>dllErrorMsg := None\<rparr>);
          s15 \<leftarrow> ec_SetDllWarning s14 ec 0;
          s16 \<leftarrow> poke s15 ec (\<lambda>e. e\<lparr>dllWarningMsg := None\<rparr>);
          s17 \<leftarrow> chain_push_back s16 pid ec;
          Some (True, s17)
        }
        else if IsUIThread h then do {
          (_, s1) \<leftarrow> StoreThreadAndProgram h s (programId e);
          s2 \<leftarrow> ec_SetRootFunction s1 ec (Some RF_INIT);
          s3 \<leftarrow> ec_SetInitCycle s2 ec False;
          s4 \<leftarrow> ec_SetUninitReason s3 ec uninitReason';
          s5 \<leftarrow> ec_SetSymbol s4 ec (snd symbol');
          s6 \<leftarrow> ec_SetTimeframe s5 ec period;
          Some (True, s6)
        }
        else do {
          (_, s1) \<leftarrow> StoreThreadAndProgram h s (programId e);
          s2 \<leftarrow> ec_SetRootFunction s1 ec (Some RF_INIT);
          s3 \<leftarrow> ec_SetInitCycle s2 ec True;
          s4 \<leftarrow> ec_SetUninitReason s3 ec uninitReason';
          s5 \<leftarrow> ec_SetVisualMode s4 ec False;
          s6 \<leftarrow> ec_SetOptimization s5 ec isOptimization;
          s7 \<leftarrow> ec_SetLogging s6 ec False;
          s8 \<leftarrow> ec_SetCustomLogFile s7 ec None;
          s9 \<leftarrow> ec_SetSymbol s8 ec (snd symbol');
          s10 \<leftarrow> ec_SetTimeframe s9 ec period;
          s11 \<leftarrow> ec_SetHChart s10 ec NULL;
          s12 \<leftarrow> ec_SetHChartWindow s11 ec NULL;
          s13 \<leftarrow> ec_SetThreadId s12 ec (GetCurrentThreadId h);
          e13 \<leftarrow> deref s13 ec;
          p \<leftarrow> chain_slot s13 (programId e13) 0;
          s14 \<leftarrow> poke s13 p (\<lambda>m. m\<lparr>initCycle := True\<rparr>);
          Some (True, s14)
        }
      })"

definition SyncLibContext_deinit :: "host \<Rightarrow> terminal \<Rightarrow> pointer \<Rightarrow> UninitializeReason \<Rightarrow> (BOOL \<times> terminal) option" where
  "SyncLibContext_deinit h s ec uninitReason' =
     (if ec < MIN_VALID_POINTER h then Some (False, error s ERR_INVALID_PARAMETER)
      else do {
        e \<leftarrow> deref s ec;
        if programId e = 0 then Some (False, error s ERR_INVALID_PARAMETER)
        else do {
          (_, s1) \<leftarrow> StoreThreadAndProgram h s (programId e);
          s2 \<leftarrow> ec_SetRootFunction s1 ec (Some RF_DEINIT);
          s3 \<leftarrow> ec_SetUninitReason s2 ec uninitReason';
          Some (True, s3)
        }
      })"

section \<open>Derived notions\<close>

text \<open>The master context of the chain at index \<open>i\<close> of the registry, where it can be
  read.\<close>

definition master_at :: "terminal \<Rightarrow> nat \<Rightarrow> EXECUTION_CONTEXT option" where
  "master_at s i =
     (if i < length (g_contextChains s)
      then (case g_contextChains s ! i of [] \<Rightarrow> None | p # _ \<Rightarrow> deref s p)
      else None)"

text \<open>The fields that section (3) of \<^verbatim>\<open>SyncMainContext_init\<close> writes into a library
  \<open>l\<close> that it moves to the program with main context \<open>e\<close>.\<close>

definition adopted :: "EXECUTION_CONTEXT \<Rightarrow> EXECUTION_CONTEXT \<Rightarrow> EXECUTION_CONTEXT" where
  "adopted e l =
     l\<lparr>programId := programId e, initCycle := False, visualMode := visualMode e,
       optimization := optimization e, logging := logging e,
       customLogFile := customLogFile e, hChart := hChart e,
       hChartWindow := hChartWindow e\<rparr>"

text \<open>A pointer to a readable record whose init-cycle mark is set.\<close>

definition marked :: "terminal \<Rightarrow> pointer \<Rightarrow> bool" where
  "marked s p = (case deref s p of None \<Rightarrow> False | Some l \<Rightarrow> initCycle l)"

text \<open>Two states with the same chains in which every record has the program id it had.\<close>

definition steady :: "terminal \<Rightarrow> terminal \<Rightarrow> bool" where
  "steady s s' \<longleftrightarrow>
     g_contextChains s' = g_contextChains s
     \<and> (\<forall>p. map_option programId (memory s' p) = map_option programId (memory s p))"

text \<open>A registry that grew out of another one: no chain was removed, and every chain that
  had a master still has it at its index.\<close>

definition kept :: "ContextChain list \<Rightarrow> ContextChain list \<Rightarrow> bool" where
  "kept C C' \<longleftrightarrow>
     length C \<le> length C'
     \<and> (\<forall>j<length C. \<forall>p ps. C ! j = p # ps \<longrightarrow> (\<exists>ps'. C' ! j = p # ps'))"

section \<open>Concrete hosts and states\<close>

text \<open>A terminal process whose current thread is the UI thread, and the same process seen
  from a tester thread.\<close>

definition ui_host :: host where
  "ui_host =
     \<lparr> MIN_VALID_POINTER = 0x10000, GetCurrentThreadId = 7, GetUIThreadId = 7,
       IsUIThread = True, GetTerminalBuild = 1090, operator_new = 0x500000,
       GetParent = (\<lambda>w. w + 1), GetWindowText = (\<lambda>w. ''EURUSD,H1''),
       FindWindowHandle_desktop = (\<lambda>m sym tf. (INVALID_HWND, [L_ERROR ERR_RUNTIME_ERROR])) \<rparr>"

definition tester_host :: host where
  "tester_host = ui_host\<lparr>GetCurrentThreadId := 9, IsUIThread := False\<rparr>"

text \<open>A registry that knows two threads and no program.\<close>

definition two_threads :: terminal where
  "two_threads =
     \<lparr> g_contextChains = [[]], g_threads = [5, 7], g_threadsPrograms = [1, 2],
       g_lastUIThreadProgram = 2, memory = Map.empty, diagnostics = [] \<rparr>"

text \<open>A program with id 1 at the end of its deinit: the chain holds the master and the
  main context (at \<open>0x200000\<close>); a third record with the same content is not in the
  chain, and a fourth record is still empty.\<close>

definition main_context :: "ModuleType \<Rightarrow> UninitializeReason \<Rightarrow> EXECUTION_CONTEXT" where
  "main_context m r =
     zero_context\<lparr>programId := 1, moduleType := Some m, programName := ''Program'',
       moduleName := ''Program'', rootFunction := Some RF_DEINIT, uninitReason := r,
       symbol := ''EURUSD'', timeframe := 60, threadId := 7, ticks := 12\<rparr>"

definition leaving :: "ModuleType \<Rightarrow> UninitializeReason \<Rightarrow> terminal" where
  "leaving m r =
     \<lparr> g_contextChains = [[], [0x400000, 0x200000]], g_threads = [7],
       g_threadsPrograms = [1], g_lastUIThreadProgram = 1,
       memory = [0x400000 \<mapsto> main_context m r, 0x200000 \<mapsto> main_context m r,
                 0x300000 \<mapsto> main_context m r, 0x380000 \<mapsto> zero_context],
       diagnostics = [] \<rparr>"

text \<open>Three indicators named Trend on one chart, all run by the UI thread with uninit
  reason \<^verbatim>\<open>UR_PARAMETERS\<close>: the first one is executing, the second and the third have left
  deinit. A fresh record lies at \<open>0x200000\<close>.\<close>

definition limbo_master :: "uint \<Rightarrow> RootFunction option \<Rightarrow> HWND \<Rightarrow> EXECUTION_CONTEXT" where
  "limbo_master pid rf chart =
     zero_context\<lparr>programId := pid, programType := Some PT_INDICATOR, programName := ''Trend'',
       moduleType := Some MT_INDICATOR, moduleName := ''Trend'', rootFunction := rf,
       uninitReason := UR_PARAMETERS, symbol := ''EURUSD'', timeframe := 60, hChart := chart,
       threadId := 7, ticks := 3\<rparr>"

definition limbo_state :: "HWND \<Rightarrow> terminal" where
  "limbo_state chart =
     \<lparr> g_contextChains = [[], [0x410000, 0x210000], [0x420000, NULL], [0x430000, NULL]],
       g_threads = [7], g_threadsPrograms = [1], g_lastUIThreadProgram = 1,
       memory = [0x410000 \<mapsto> limbo_master 1 (Some RF_START) chart,
                 0x210000 \<mapsto> limbo_master 1 (Some RF_START) chart,
                 0x420000 \<mapsto> limbo_master 2 None chart,
                 0x430000 \<mapsto> limbo_master 3 None chart,
                 0x200000 \<mapsto> zero_context],
       diagnostics = [] \<rparr>"

text \<open>Two indicators named Trend that have left deinit with uninit reason
  \<^verbatim>\<open>UR_PARAMETERS\<close>: the first one has no chart, the second one is on the chart
  \<open>0x3000\<close>. The master of a third chain (at \<open>0x440000\<close>) cannot be read.\<close>

definition chartless_state :: terminal where
  "chartless_state =
     \<lparr> g_contextChains = [[], [0x410000, NULL], [0x420000, NULL], [0x440000]],
       g_threads = [7], g_threadsPrograms = [2], g_lastUIThreadProgram = 2,
       memory = [0x410000 \<mapsto> limbo_master 1 None NULL,
                 0x420000 \<mapsto> limbo_master 2 None 0x3000],
       diagnostics = [] \<rparr>"

text \<open>An indicator's record at \<open>0x200000\<close> that was loaded by the expert whose context is
  at \<open>0x280000\<close>.\<close>

definition super_context :: EXECUTION_CONTEXT where
  "super_context =
     zero_context\<lparr>programId := 1, programType := Some PT_EXPERT, moduleType := Some MT_EXPERT,
       testing := True, visualMode := True, optimization := False, logging := True,
       customLogFile := Some ''expert.log''\<rparr>"

definition nested_context :: EXECUTION_CONTEXT where
  "nested_context = zero_context\<lparr>programType := Some PT_INDICATOR, superContext := 0x280000\<rparr>"

definition nested_state :: terminal where
  "nested_state =
     \<lparr> g_contextChains = [[], [0x400000, 0x280000]], g_threads = [9],
       g_threadsPrograms = [1], g_lastUIThreadProgram = 0,
       memory = [0x400000 \<mapsto> super_context, 0x280000 \<mapsto> super_context,
                 0x200000 \<mapsto> nested_context],
       diagnostics = [] \<rparr>"

text \<open>The tester between two tests: the expert of the first test had program id 1, its
  main context is released, and its chain still holds a library that is marked for the
  init cycle (at \<open>0x600000\<close>), an empty slot, and a library that is not marked. The
  record of the new expert at \<open>0x200000\<close> is still empty.\<close>

definition old_context :: "ModuleType \<Rightarrow> BOOL \<Rightarrow> EXECUTION_CONTEXT" where
  "old_context m c =
     zero_context\<lparr>programId := 1, programType := Some PT_EXPERT, programName := ''Expert'',
       moduleType := Some m, moduleName := ''Module'', initCycle := c, testing := True,
       symbol := ''EURUSD'', timeframe := 60, threadId := 9, ticks := 500\<rparr>"

definition second_test :: terminal where
  "second_test =
     \<lparr> g_contextChains = [[], [0x400000, NULL, 0x600000, NULL, 0x610000]],
       g_threads = [9], g_threadsPrograms = [1], g_lastUIThreadProgram = 0,
       memory = [0x400000 \<mapsto> old_context MT_EXPERT True,
                 0x600000 \<mapsto> old_context MT_LIBRARY True,
                 0x610000 \<mapsto> old_context MT_LIBRARY False,
                 0x200000 \<mapsto> zero_context],
       diagnostics = [] \<rparr>"

text \<open>A registry with nothing but the free chain at index 0, two known threads, and an
  empty record at \<open>0x200000\<close>.\<close>

definition fresh_state :: terminal where
  "fresh_state =
     \<lparr> g_contextChains = [[]], g_threads = [5, 7], g_threadsPrograms = [0, 0],
       g_lastUIThreadProgram = 0, memory = [0x200000 \<mapsto> zero_context], diagnostics = [] \<rparr>"

section \<open>The thread and program tracker: properties\<close>

lemma threads_loop_absent:
  "currentThread \<notin> set ts \<Longrightarrow> threads_loop ts currentThread pid i progs = Some (- 1, progs)"
  by (induction ts arbitrary: i) auto

lemma threads_loop_present:
  "currentThread \<in> set ts \<Longrightarrow>
   \<exists>k. threads_loop ts currentThread 0 i progs = Some (int (i + k), progs)
       \<and> k < length ts \<and> ts ! k = currentThread \<and> (\<forall>j<k. ts ! j \<noteq> currentThread)"
proof (induction ts arbitrary: i)
  case Nil
  then show ?case by simp
next
  case (Cons t ts)
  show ?case
  proof (cases "t = currentThread")
    case True
    then show ?thesis by (intro exI [of _ 0]) simp
  next
    case False
    with Cons.prems have "currentThread \<in> set ts" by simp
    from Cons.IH [OF this, of "Suc i"] obtain k where
      k: "threads_loop ts currentThread 0 (Suc i) progs = Some (int (Suc i + k), progs)"
         "k < length ts" "ts ! k = currentThread" "\<forall>j<k. ts ! j \<noteq> currentThread"
      by blast
    show ?thesis
    proof (intro exI [of _ "Suc k"] conjI allI impI)
      fix j assume "j < Suc k"
      then show "(t # ts) ! j \<noteq> currentThread"
        using False k(4) by (cases j) auto
    qed (use False k in auto)
  qed
qed

text \<open>
  C9. A call of the tracker with program id 0 by a thread that is already in
  \<^verbatim>\<open>g_threads\<close> returns the index of the thread's first entry and leaves the whole state
  as it was, so the thread's stored program and \<^verbatim>\<open>g_lastUIThreadProgram\<close> are
  unchanged. When the thread is not yet known, it is appended with the stored value 0 and
  its new index is returned. A negative program id is reported as an invalid parameter,
  -1 is returned, and the two vectors and \<^verbatim>\<open>g_lastUIThreadProgram\<close> are as before.
\<close>

theorem tracker_zero_program:
  "(GetCurrentThreadId h \<in> set (g_threads s) \<longrightarrow>
      (\<exists>k. StoreThreadAndProgram h s 0 = Some (int k, s)
          \<and> k < length (g_threads s) \<and> g_threads s ! k = GetCurrentThreadId h
          \<and> (\<forall>j<k. g_threads s ! j \<noteq> GetCurrentThreadId h)))
   \<and> (GetCurrentThreadId h \<notin> set (g_threads s) \<longrightarrow>
      (\<exists>s'. StoreThreadAndProgram h s 0 = Some (int (length (g_threads s)), s')
          \<and> g_threads s' = g_threads s @ [GetCurrentThreadId h]
          \<and> g_threadsPrograms s' = g_threadsPrograms s @ [0]
          \<and> g_lastUIThreadProgram s' = g_lastUIThreadProgram s
          \<and> g_contextChains s' = g_contextChains s \<and> memory s' = memory s))
   \<and> (sint pid < 0 \<longrightarrow>
      (\<exists>s'. StoreThreadAndProgram h s pid = Some (EMPTY, s')
          \<and> diagnostics s' = diagnostics s @ [L_ERROR ERR_INVALID_PARAMETER]
          \<and> g_threads s' = g_threads s
          \<and> g_threadsPrograms s' = g_threadsPrograms s
          \<and> g_lastUIThreadProgram s' = g_lastUIThreadProgram s))"
proof (intro conjI impI)
  assume "GetCurrentThreadId h \<in> set (g_threads s)"
  from threads_loop_present [OF this, of 0 "g_threadsPrograms s"] obtain k where
    k: "threads_loop (g_threads s) (GetCurrentThreadId h) 0 0 (g_threadsPrograms s)
          = Some (int k, g_threadsPrograms s)"
       "k < length (g_threads s)" "g_threads s ! k = GetCurrentThreadId h"
       "\<forall>j<k. g_threads s ! j \<noteq> GetCurrentThreadId h"
    by auto
  have "StoreThreadAndProgram h s 0 = Some (int k, s)"
    by (simp add: StoreThreadAndProgram_def k(1))
  with k show "\<exists>k. StoreThreadAndProgram h s 0 = Some (int k, s)
          \<and> k < length (g_threads s) \<and> g_threads s ! k = GetCurrentThreadId h
          \<and> (\<forall>j<k. g_threads s ! j \<noteq> GetCurrentThreadId h)"
    by blast
next
  assume "GetCurrentThreadId h \<notin> set (g_threads s)"
  then have "threads_loop (g_threads s) (GetCurrentThreadId h) 0 0 (g_threadsPrograms s)
               = Some (- 1, g_threadsPrograms s)"
    by (rule threads_loop_absent)
  then show "\<exists>s'. StoreThreadAndProgram h s 0 = Some (int (length (g_threads s)), s')
          \<and> g_threads s' = g_threads s @ [GetCurrentThreadId h]
          \<and> g_threadsPrograms s' = g_threadsPrograms s @ [0]
          \<and> g_lastUIThreadProgram s' = g_lastUIThreadProgram s
          \<and> g_contextChains s' = g_contextChains s \<and> memory s' = memory s"
    by (simp add: StoreThreadAndProgram_def debug_def Let_def)
next
  assume "sint pid < 0"
  then show "\<exists>s'. StoreThreadAndProgram h s pid = Some (EMPTY, s')
          \<and> diagnostics s' = diagnostics s @ [L_ERROR ERR_INVALID_PARAMETER]
          \<and> g_threads s' = g_threads s
          \<and> g_threadsPrograms s' = g_threadsPrograms s
          \<and> g_lastUIThreadProgram s' = g_lastUIThreadProgram s"
    by (simp add: StoreThreadAndProgram_def error_def)
qed

theorem tracker_zero_program_witness:
  "GetCurrentThreadId ui_host \<in> set (g_threads two_threads)
   \<and> StoreThreadAndProgram ui_host two_threads 0 = Some (1, two_threads)
   \<and> GetCurrentThreadId tester_host \<notin> set (g_threads two_threads)
   \<and> (\<exists>s'. StoreThreadAndProgram tester_host two_threads 0 = Some (2, s')
          \<and> g_threads s' = [5, 7, 9] \<and> g_threadsPrograms s' = [1, 2, 0]
          \<and> g_lastUIThreadProgram s' = 2)
   \<and> sint (- 1 :: uint) < 0
   \<and> (\<exists>s'. StoreThreadAndProgram ui_host two_threads (- 1) = Some (EMPTY, s')
          \<and> diagnostics s' = [L_ERROR ERR_INVALID_PARAMETER]
          \<and> g_threads s' = [5, 7] \<and> g_threadsPrograms s' = [1, 2]
          \<and> g_lastUIThreadProgram s' = 2)"
proof -
  have a: "GetCurrentThreadId ui_host \<in> set (g_threads two_threads)"
    by (simp add: ui_host_def two_threads_def)
  have b: "GetCurrentThreadId tester_host \<notin> set (g_threads two_threads)"
    by (simp add: tester_host_def ui_host_def two_threads_def)
  have c: "sint (- 1 :: uint) < 0"
    by simp
  have first: "g_threads two_threads ! 0 \<noteq> GetCurrentThreadId ui_host"
    by (simp add: ui_host_def two_threads_def)
  from tracker_zero_program [of ui_host two_threads "- 1"] a c
  obtain k s' where
    k: "StoreThreadAndProgram ui_host two_threads 0 = Some (int k, two_threads)"
       "k < length (g_threads two_threads)" "g_threads two_threads ! k = GetCurrentThreadId ui_host"
    and s': "StoreThreadAndProgram ui_host two_threads (- 1) = Some (EMPTY, s')"
       "diagnostics s' = diagnostics two_threads @ [L_ERROR ERR_INVALID_PARAMETER]"
       "g_threads s' = g_threads two_threads"
       "g_threadsPrograms s' = g_threadsPrograms two_threads"
       "g_lastUIThreadProgram s' = g_lastUIThreadProgram two_threads"
    by blast
  from k(2) have "k = 0 \<or> k = 1"
    by (auto simp: two_threads_def)
  with k(3) first have "k = 1"
    by auto
  with k(1) have one: "StoreThreadAndProgram ui_host two_threads 0 = Some (1, two_threads)"
    by simp
  from tracker_zero_program [of tester_host two_threads 0] b
  obtain s'' where
    s'': "StoreThreadAndProgram tester_host two_threads 0
            = Some (int (length (g_threads two_threads)), s'')"
       "g_threads s'' = g_threads two_threads @ [GetCurrentThreadId tester_host]"
       "g_threadsPrograms s'' = g_threadsPrograms two_threads @ [0]"
       "g_lastUIThreadProgram s'' = g_lastUIThreadProgram two_threads"
    by blast
  have two: "\<exists>s'. StoreThreadAndProgram tester_host two_threads 0 = Some (2, s')
          \<and> g_threads s' = [5, 7, 9] \<and> g_threadsPrograms s' = [1, 2, 0]
          \<and> g_lastUIThreadProgram s' = 2"
    using s'' by (intro exI [of _ s'']) (simp add: two_threads_def tester_host_def ui_host_def)
  have three: "\<exists>s'. StoreThreadAndProgram ui_host two_threads (- 1) = Some (EMPTY, s')
          \<and> diagnostics s' = [L_ERROR ERR_INVALID_PARAMETER]
          \<and> g_threads s' = [5, 7] \<and> g_threadsPrograms s' = [1, 2]
          \<and> g_lastUIThreadProgram s' = 2"
    using s' by (intro exI [of _ s']) (simp add: two_threads_def)
  from a b c one two three show ?thesis
    by blast
qed

section \<open>Memory and chains: basic facts\<close>

lemma deref_Some_not_NULL: "deref s p = Some e \<Longrightarrow> p \<noteq> NULL"
  by (auto simp: deref_def split: if_splits)

lemma deref_poke:
  "poke s p f = Some s' \<Longrightarrow> deref s' q = (if q = p then map_option f (deref s p) else deref s q)"
  by (auto simp: poke_def deref_def split: option.splits if_splits)

lemma chain_slot_SomeD:
  "chain_slot s pid i = Some p \<Longrightarrow>
     unat pid < length (g_contextChains s) \<and> i < length (g_contextChains s ! unat pid)
     \<and> g_contextChains s ! unat pid ! i = p"
  by (simp add: chain_slot_def split: if_splits)

lemma poke_Some:
  "deref s p = Some e \<Longrightarrow> poke s p f = Some (s\<lparr>memory := (memory s)(p \<mapsto> f e)\<rparr>)"
  by (simp add: poke_def)

section \<open>Leaving a context: properties\<close>

text \<open>What \<^verbatim>\<open>LeaveContext\<close> does with a main context that passed the checks, when the slot
  is cleared and when it is kept.\<close>

lemma leave_clearing:
  assumes "deref s ec = Some e" and "chain_slot s (programId e) 1 = Some ec"
  shows "\<exists>s'. (do { s1 \<leftarrow> ec_SetRootFunction s ec None;
                   s2 \<leftarrow> set_chain_slot s1 (programId e) 1 NULL;
                   Some (True, s2) }) = Some (True, s')
           \<and> deref s' ec = Some (e\<lparr>rootFunction := None\<rparr>)
           \<and> chain_slot s' (programId e) 1 = Some NULL"
proof -
  have nn: "ec \<noteq> NULL"
    using assms(1) by (rule deref_Some_not_NULL)
  let ?s1 = "s\<lparr>memory := (memory s)(ec \<mapsto> e\<lparr>rootFunction := None\<rparr>)\<rparr>"
  let ?s2 = "?s1\<lparr>g_contextChains := (g_contextChains s)[unat (programId e) :=
               (g_contextChains s ! unat (programId e))[1 := NULL]]\<rparr>"
  have s1: "ec_SetRootFunction s ec None = Some ?s1"
    using assms(1) by (simp add: ec_SetRootFunction_def poke_Some)
  have range: "unat (programId e) < length (g_contextChains s)"
      "1 < length (g_contextChains s ! unat (programId e))"
    using chain_slot_SomeD [OF assms(2)] by simp_all
  have s2: "set_chain_slot ?s1 (programId e) 1 NULL = Some ?s2"
    using range by (simp add: set_chain_slot_def)
  have "deref ?s2 ec = Some (e\<lparr>rootFunction := None\<rparr>)"
    using nn by (simp add: deref_def)
  moreover have "chain_slot ?s2 (programId e) 1 = Some NULL"
    using range by (simp add: chain_slot_def)
  ultimately show ?thesis
    using s1 s2 by simp
qed

text \<open>
  C1. An expert's main context that is released by \<^verbatim>\<open>LeaveContext\<close> (valid pointer,
  program id at least 1, root function \<^verbatim>\<open>RF_DEINIT\<close>, and the record is slot 1 of its
  chain): the call succeeds, only the root function of the record changes and it is
  cleared, and slot 1 of the chain still holds the record exactly when the uninit reason
  is \<^verbatim>\<open>UR_CHARTCHANGE\<close>, \<^verbatim>\<open>UR_PARAMETERS\<close> or \<^verbatim>\<open>UR_ACCOUNT\<close>; for every other reason
  (\<^verbatim>\<open>UR_TEMPLATE\<close> among them) the slot is \<^verbatim>\<open>NULL\<close> afterwards.
\<close>

theorem expert_release:
  assumes "MIN_VALID_POINTER h \<le> ec" and "deref s ec = Some e"
    and "1 \<le> sint (programId e)" and "rootFunction e = Some RF_DEINIT"
    and "moduleType e = Some MT_EXPERT"
    and "chain_slot s (programId e) 1 = Some ec"
  shows "\<exists>s'. LeaveContext h s ec = Some (True, s')
           \<and> deref s' ec = Some (e\<lparr>rootFunction := None\<rparr>)
           \<and> chain_slot s' (programId e) 1 =
               Some (if uninitReason e = UR_CHARTCHANGE \<or> uninitReason e = UR_PARAMETERS
                        \<or> uninitReason e = UR_ACCOUNT then ec else NULL)
           \<and> (chain_slot s' (programId e) 1 \<noteq> Some NULL \<longleftrightarrow>
                uninitReason e = UR_CHARTCHANGE \<or> uninitReason e = UR_PARAMETERS
                \<or> uninitReason e = UR_ACCOUNT)"
proof -
  have nn: "ec \<noteq> NULL"
    using assms(2) by (rule deref_Some_not_NULL)
  let ?s1 = "s\<lparr>memory := (memory s)(ec \<mapsto> e\<lparr>rootFunction := None\<rparr>)\<rparr>"
  have s1: "ec_SetRootFunction s ec None = Some ?s1"
    using assms(2) by (simp add: ec_SetRootFunction_def poke_Some)
  have e1: "deref ?s1 ec = Some (e\<lparr>rootFunction := None\<rparr>)"
    using nn by (simp add: deref_def)
  have range: "unat (programId e) < length (g_contextChains s)"
      "1 < length (g_contextChains s ! unat (programId e))"
      "g_contextChains s ! unat (programId e) ! 1 = ec"
    using chain_slot_SomeD [OF assms(6)] by simp_all
  show ?thesis
  proof (cases "uninitReason e = UR_CHARTCHANGE \<or> uninitReason e = UR_PARAMETERS
                  \<or> uninitReason e = UR_ACCOUNT")
    case True
    have "LeaveContext h s ec = Some (True, ?s1)"
      using assms True s1 e1 by (auto simp: LeaveContext_def not_less Let_def)
    moreover have "chain_slot ?s1 (programId e) 1 = Some ec"
      using range by (simp add: chain_slot_def)
    ultimately show ?thesis
      using True e1 nn by auto
  next
    case False
    let ?s2 = "?s1\<lparr>g_contextChains := (g_contextChains s)[unat (programId e) :=
                 (g_contextChains s ! unat (programId e))[1 := NULL]]\<rparr>"
    have s2: "set_chain_slot ?s1 (programId e) 1 NULL = Some ?s2"
      using range by (simp add: set_chain_slot_def)
    have "LeaveContext h s ec = Some (True, ?s2)"
      using assms False s1 e1 s2 by (simp add: LeaveContext_def not_less Let_def)
    moreover have "chain_slot ?s2 (programId e) 1 = Some NULL"
      using range by (simp add: chain_slot_def)
    moreover have "deref ?s2 ec = Some (e\<lparr>rootFunction := None\<rparr>)"
      using nn by (simp add: deref_def)
    ultimately show ?thesis
      using False by auto
  qed
qed

theorem expert_release_witness:
  "MIN_VALID_POINTER ui_host \<le> 0x200000
   \<and> deref (leaving MT_EXPERT UR_CHARTCHANGE) 0x200000 = Some (main_context MT_EXPERT UR_CHARTCHANGE)
   \<and> 1 \<le> sint (programId (main_context MT_EXPERT UR_CHARTCHANGE))
   \<and> rootFunction (main_context MT_EXPERT UR_CHARTCHANGE) = Some RF_DEINIT
   \<and> moduleType (main_context MT_EXPERT UR_CHARTCHANGE) = Some MT_EXPERT
   \<and> chain_slot (leaving MT_EXPERT UR_CHARTCHANGE) 1 1 = Some 0x200000
   \<and> (\<exists>s'. LeaveContext ui_host (leaving MT_EXPERT UR_CHARTCHANGE) 0x200000 = Some (True, s')
          \<and> chain_slot s' 1 1 = Some 0x200000)
   \<and> (\<exists>s'. LeaveContext ui_host (leaving MT_EXPERT UR_TEMPLATE) 0x200000 = Some (True, s')
          \<and> chain_slot s' 1 1 = Some NULL)"
proof -
  have pid: "programId (main_context m r) = 1" for m r
    by (simp add: main_context_def)
  have ur: "uninitReason (main_context m r) = r" for m r
    by (simp add: main_context_def)
  have v0: "MIN_VALID_POINTER ui_host \<le> 0x200000"
    by (simp add: ui_host_def)
  have v: "deref (leaving MT_EXPERT r) 0x200000 = Some (main_context MT_EXPERT r)"
    "1 \<le> sint (programId (main_context MT_EXPERT r))"
    "rootFunction (main_context MT_EXPERT r) = Some RF_DEINIT"
    "moduleType (main_context MT_EXPERT r) = Some MT_EXPERT"
    "chain_slot (leaving MT_EXPERT r) (programId (main_context MT_EXPERT r)) 1 = Some 0x200000"
    for r
    by (simp_all add: leaving_def main_context_def deref_def chain_slot_def)
  from expert_release [OF v0 v [of UR_CHARTCHANGE]]
  have a: "\<exists>s'. LeaveContext ui_host (leaving MT_EXPERT UR_CHARTCHANGE) 0x200000 = Some (True, s')
          \<and> chain_slot s' 1 1 = Some 0x200000"
    by (auto simp: pid ur)
  from expert_release [OF v0 v [of UR_TEMPLATE]]
  have b: "\<exists>s'. LeaveContext ui_host (leaving MT_EXPERT UR_TEMPLATE) 0x200000 = Some (True, s')
          \<and> chain_slot s' 1 1 = Some NULL"
    by (auto simp: pid ur)
  from a b v0 v [of UR_CHARTCHANGE] show ?thesis
    by (simp add: pid)
qed

text \<open>
  C4. For a readable record behind a valid pointer, \<^verbatim>\<open>LeaveContext\<close> reports an invalid
  parameter and returns \<^verbatim>\<open>FALSE\<close> when the program id is below 1 or the root function is
  not \<^verbatim>\<open>RF_DEINIT\<close>. Past these checks, for an indicator or a script: when slot 1 of the
  chain holds another pointer the call reports an illegal state and returns \<^verbatim>\<open>FALSE\<close>;
  when it holds the record, the call succeeds, the root function of the record is
  cleared and slot 1 is \<^verbatim>\<open>NULL\<close>.
\<close>

theorem leave_context_checks:
  assumes "MIN_VALID_POINTER h \<le> ec" and "deref s ec = Some e"
  shows "(sint (programId e) < 1 \<or> rootFunction e \<noteq> Some RF_DEINIT \<longrightarrow>
            LeaveContext h s ec = Some (False, error s ERR_INVALID_PARAMETER))
       \<and> (1 \<le> sint (programId e) \<and> rootFunction e = Some RF_DEINIT
            \<and> (moduleType e = Some MT_INDICATOR \<or> moduleType e = Some MT_SCRIPT) \<longrightarrow>
            (\<forall>main. chain_slot s (programId e) 1 = Some main \<longrightarrow>
               (main \<noteq> ec \<longrightarrow> LeaveContext h s ec = Some (False, error s ERR_ILLEGAL_STATE))
             \<and> (main = ec \<longrightarrow>
                  (\<exists>s'. LeaveContext h s ec = Some (True, s')
                       \<and> deref s' ec = Some (e\<lparr>rootFunction := None\<rparr>)
                       \<and> chain_slot s' (programId e) 1 = Some NULL))))"
proof (intro conjI impI allI)
  assume "sint (programId e) < 1 \<or> rootFunction e \<noteq> Some RF_DEINIT"
  then show "LeaveContext h s ec = Some (False, error s ERR_INVALID_PARAMETER)"
    using assms by (auto simp: LeaveContext_def not_less Let_def)
next
  fix main
  assume ok: "1 \<le> sint (programId e) \<and> rootFunction e = Some RF_DEINIT
            \<and> (moduleType e = Some MT_INDICATOR \<or> moduleType e = Some MT_SCRIPT)"
    and slot: "chain_slot s (programId e) 1 = Some main" and "main \<noteq> ec"
  then show "LeaveContext h s ec = Some (False, error s ERR_ILLEGAL_STATE)"
    using assms by (auto simp: LeaveContext_def not_less Let_def)
next
  fix main
  assume ok: "1 \<le> sint (programId e) \<and> rootFunction e = Some RF_DEINIT
            \<and> (moduleType e = Some MT_INDICATOR \<or> moduleType e = Some MT_SCRIPT)"
    and slot: "chain_slot s (programId e) 1 = Some main" and main: "main = ec"
  from leave_clearing [OF assms(2)] slot main obtain s' where
    s': "(do { s1 \<leftarrow> ec_SetRootFunction s ec None;
               s2 \<leftarrow> set_chain_slot s1 (programId e) 1 NULL;
               Some (True, s2) }) = Some (True, s')"
        "deref s' ec = Some (e\<lparr>rootFunction := None\<rparr>)"
        "chain_slot s' (programId e) 1 = Some NULL"
    by blast
  have "LeaveContext h s ec = Some (True, s')"
    using assms ok slot main s'(1) by (auto simp: LeaveContext_def not_less Let_def)
  with s' show "\<exists>s'. LeaveContext h s ec = Some (True, s')
                       \<and> deref s' ec = Some (e\<lparr>rootFunction := None\<rparr>)
                       \<and> chain_slot s' (programId e) 1 = Some NULL"
    by blast
qed

theorem leave_context_checks_witness:
  "MIN_VALID_POINTER ui_host \<le> 0x380000
   \<and> deref (leaving MT_INDICATOR UR_REMOVE) 0x380000 = Some zero_context
   \<and> sint (programId zero_context) < 1
   \<and> LeaveContext ui_host (leaving MT_INDICATOR UR_REMOVE) 0x380000
       = Some (False, error (leaving MT_INDICATOR UR_REMOVE) ERR_INVALID_PARAMETER)
   \<and> MIN_VALID_POINTER ui_host \<le> 0x300000
   \<and> deref (leaving MT_INDICATOR UR_REMOVE) 0x300000 = Some (main_context MT_INDICATOR UR_REMOVE)
   \<and> chain_slot (leaving MT_INDICATOR UR_REMOVE) 1 1 = Some 0x200000
   \<and> LeaveContext ui_host (leaving MT_INDICATOR UR_REMOVE) 0x300000
       = Some (False, error (leaving MT_INDICATOR UR_REMOVE) ERR_ILLEGAL_STATE)
   \<and> MIN_VALID_POINTER ui_host \<le> 0x200000
   \<and> deref (leaving MT_INDICATOR UR_REMOVE) 0x200000 = Some (main_context MT_INDICATOR UR_REMOVE)
   \<and> (\<exists>s'. LeaveContext ui_host (leaving MT_INDICATOR UR_REMOVE) 0x200000 = Some (True, s')
          \<and> deref s' 0x200000 = Some ((main_context MT_INDICATOR UR_REMOVE)\<lparr>rootFunction := None\<rparr>)
          \<and> chain_slot s' 1 1 = Some NULL)"
proof -
  let ?s = "leaving MT_INDICATOR UR_REMOVE"
  let ?e = "main_context MT_INDICATOR UR_REMOVE"
  have ptr: "MIN_VALID_POINTER ui_host \<le> 0x380000" "MIN_VALID_POINTER ui_host \<le> 0x300000"
      "MIN_VALID_POINTER ui_host \<le> 0x200000"
    by (simp_all add: ui_host_def)
  have mem: "deref ?s 0x380000 = Some zero_context" "deref ?s 0x300000 = Some ?e"
      "deref ?s 0x200000 = Some ?e"
    by (simp_all add: leaving_def deref_def)
  have rec: "sint (programId zero_context) < 1" "programId ?e = 1" "1 \<le> sint (programId ?e)"
      "rootFunction ?e = Some RF_DEINIT" "moduleType ?e = Some MT_INDICATOR"
    by (simp_all add: zero_context_def main_context_def)
  have slot: "chain_slot ?s 1 1 = Some 0x200000"
    by (simp add: leaving_def chain_slot_def)
  have a: "LeaveContext ui_host ?s 0x380000 = Some (False, error ?s ERR_INVALID_PARAMETER)"
    using leave_context_checks [OF ptr(1) mem(1)] rec(1) by blast
  have b: "LeaveContext ui_host ?s 0x300000 = Some (False, error ?s ERR_ILLEGAL_STATE)"
    using leave_context_checks [OF ptr(2) mem(2)] rec slot by simp
  have c: "\<exists>s'. LeaveContext ui_host ?s 0x200000 = Some (True, s')
          \<and> deref s' 0x200000 = Some (?e\<lparr>rootFunction := None\<rparr>)
          \<and> chain_slot s' 1 1 = Some NULL"
    using leave_context_checks [OF ptr(3) mem(3)] rec slot by simp
  from ptr mem rec(1) slot a b c show ?thesis
    by blast
qed

section \<open>The limbo scan: properties\<close>

lemma limbo_loop_none:
  "\<forall>k<length cs. \<exists>p rest m. cs ! k = p # rest \<and> deref s p = Some m
       \<and> \<not> limbo_match h m hc name reason
   \<Longrightarrow> limbo_loop h s hc name reason cs = Some 0"
proof (induction cs)
  case Nil
  show ?case by simp
next
  case (Cons c cs)
  from Cons.prems [rule_format, of 0] obtain p rest m where
    c: "c = p # rest" "deref s p = Some m" "\<not> limbo_match h m hc name reason"
    by auto
  have "\<forall>k<length cs. \<exists>p rest m. cs ! k = p # rest \<and> deref s p = Some m
       \<and> \<not> limbo_match h m hc name reason"
    using Cons.prems by (metis Suc_less_eq length_Cons nth_Cons_Suc)
  from Cons.IH [OF this] c show ?case
    by simp
qed

lemma limbo_loop_first:
  "k < length cs \<Longrightarrow> cs ! k = p # rest \<Longrightarrow> deref s p = Some m
   \<Longrightarrow> limbo_match h m hc name reason
   \<Longrightarrow> \<forall>j<k. \<exists>p' rest' m'. cs ! j = p' # rest' \<and> deref s p' = Some m'
          \<and> \<not> limbo_match h m' hc name reason
   \<Longrightarrow> limbo_loop h s hc name reason cs = Some (sint (programId m))"
proof (induction cs arbitrary: k)
  case Nil
  then show ?case by simp
next
  case (Cons c cs)
  show ?case
  proof (cases k)
    case 0
    with Cons.prems show ?thesis by simp
  next
    case (Suc k')
    from Cons.prems(5) [rule_format, of 0] Suc obtain p' rest' m' where
      c: "c = p' # rest'" "deref s p' = Some m'" "\<not> limbo_match h m' hc name reason"
      by auto
    have rest: "\<forall>j<k'. \<exists>p' rest' m'. cs ! j = p' # rest' \<and> deref s p' = Some m'
          \<and> \<not> limbo_match h m' hc name reason"
    proof (intro allI impI)
      fix j assume "j < k'"
      then have "Suc j < k" using Suc by simp
      from Cons.prems(5) [rule_format, OF this]
      show "\<exists>p' rest' m'. cs ! j = p' # rest' \<and> deref s p' = Some m'
          \<and> \<not> limbo_match h m' hc name reason"
        by simp
    qed
    have "limbo_loop h s hc name reason cs = Some (sint (programId m))"
      using Cons.IH [of k'] Cons.prems Suc rest by simp
    with c show ?thesis by simp
  qed
qed

lemma master_at_SomeD:
  "master_at s i = Some m \<Longrightarrow>
     \<exists>p rest. i < length (g_contextChains s) \<and> g_contextChains s ! i = p # rest \<and> deref s p = Some m"
  by (auto simp: master_at_def split: if_splits list.splits)

lemma limbo_state_masters:
  "master_at (limbo_state c) 1 = Some (limbo_master 1 (Some RF_START) c)"
  "master_at (limbo_state c) 2 = Some (limbo_master 2 None c)"
  "master_at (limbo_state c) 3 = Some (limbo_master 3 None c)"
  "master_at (limbo_state c) (Suc 0) = Some (limbo_master 1 (Some RF_START) c)"
  by (simp_all add: master_at_def limbo_state_def deref_def)

lemma limbo_master_match:
  "limbo_match ui_host (limbo_master pid rf c) c' name reason \<longleftrightarrow>
     c = c' \<and> name = ''Trend'' \<and> reason = UR_PARAMETERS \<and> rf = None"
  by (auto simp: limbo_match_def limbo_master_def ui_host_def zero_context_def)

lemma limbo_master_programId: "programId (limbo_master pid rf c) = pid"
  by (simp add: limbo_master_def)

text \<open>
  C3, as the code has it: the scan is made for a chart handle that is not null. The scan
  reads no more than the state and changes nothing, so its result is a function of the
  state and the arguments. When every chain from index 1 on has a readable master and
  none of them matches (UI thread, the chart handle, an indicator, the program name, the
  uninit reason, root function \<^verbatim>\<open>NULL\<close>), the scan returns \<^verbatim>\<open>NULL\<close>. When the master of
  chain \<open>i\<close> matches and the masters of all chains before it are readable and do not
  match, the scan returns the program id stored in the master of chain \<open>i\<close>; this is so
  also when a later chain \<open>k\<close> matches as well.
\<close>

theorem limbo_scan_first_match:
  assumes "hChart' \<noteq> NULL"
  shows "((\<forall>i. 1 \<le> i \<and> i < length (g_contextChains s) \<longrightarrow>
             (\<exists>m. master_at s i = Some m \<and> \<not> limbo_match h m hChart' name reason)) \<longrightarrow>
          FindIndicatorInLimbo h s hChart' name reason = Some 0)
       \<and> (\<forall>i m. 1 \<le> i \<and> master_at s i = Some m \<and> limbo_match h m hChart' name reason
             \<and> (\<forall>j. 1 \<le> j \<and> j < i \<longrightarrow>
                  (\<exists>m'. master_at s j = Some m' \<and> \<not> limbo_match h m' hChart' name reason)) \<longrightarrow>
          FindIndicatorInLimbo h s hChart' name reason = Some (sint (programId m))
          \<and> (\<forall>k m'. i < k \<and> master_at s k = Some m' \<and> limbo_match h m' hChart' name reason \<longrightarrow>
                FindIndicatorInLimbo h s hChart' name reason = Some (sint (programId m))))"
proof (intro conjI impI allI)
  assume none: "\<forall>i. 1 \<le> i \<and> i < length (g_contextChains s) \<longrightarrow>
             (\<exists>m. master_at s i = Some m \<and> \<not> limbo_match h m hChart' name reason)"
  have "\<forall>k<length (drop 1 (g_contextChains s)). \<exists>p rest m.
          drop 1 (g_contextChains s) ! k = p # rest \<and> deref s p = Some m
          \<and> \<not> limbo_match h m hChart' name reason"
  proof (intro allI impI)
    fix k assume k: "k < length (drop 1 (g_contextChains s))"
    then have "1 \<le> Suc k \<and> Suc k < length (g_contextChains s)" by simp
    with none obtain m where m: "master_at s (Suc k) = Some m"
        "\<not> limbo_match h m hChart' name reason"
      by blast
    from master_at_SomeD [OF m(1)] m(2) k
    show "\<exists>p rest m. drop 1 (g_contextChains s) ! k = p # rest \<and> deref s p = Some m
          \<and> \<not> limbo_match h m hChart' name reason"
      by auto
  qed
  from limbo_loop_none [OF this] assms
  show "FindIndicatorInLimbo h s hChart' name reason = Some 0"
    by (simp add: FindIndicatorInLimbo_def)
next
  fix i m
  assume a: "1 \<le> i \<and> master_at s i = Some m \<and> limbo_match h m hChart' name reason
             \<and> (\<forall>j. 1 \<le> j \<and> j < i \<longrightarrow>
                  (\<exists>m'. master_at s j = Some m' \<and> \<not> limbo_match h m' hChart' name reason))"
  then obtain k where k: "i = Suc k"
    by (cases i) auto
  from a master_at_SomeD [of s i m] obtain p rest where
    p: "i < length (g_contextChains s)" "g_contextChains s ! i = p # rest" "deref s p = Some m"
    by blast
  have 1: "k < length (drop 1 (g_contextChains s))"
    using p(1) k by simp
  have 2: "drop 1 (g_contextChains s) ! k = p # rest"
    using p k by simp
  have 3: "\<forall>j<k. \<exists>p' rest' m'. drop 1 (g_contextChains s) ! j = p' # rest'
             \<and> deref s p' = Some m' \<and> \<not> limbo_match h m' hChart' name reason"
  proof (intro allI impI)
    fix j assume j: "j < k"
    then have "1 \<le> Suc j \<and> Suc j < i" using k by simp
    with a obtain m' where m': "master_at s (Suc j) = Some m'"
        "\<not> limbo_match h m' hChart' name reason"
      by blast
    from master_at_SomeD [OF m'(1)] m'(2) j k p(1)
    show "\<exists>p' rest' m'. drop 1 (g_contextChains s) ! j = p' # rest'
             \<and> deref s p' = Some m' \<and> \<not> limbo_match h m' hChart' name reason"
      by auto
  qed
  from limbo_loop_first [OF 1 2 p(3) _ 3] a assms
  show r: "FindIndicatorInLimbo h s hChart' name reason = Some (sint (programId m))"
    by (simp add: FindIndicatorInLimbo_def)
  fix k' m'
  show "FindIndicatorInLimbo h s hChart' name reason = Some (sint (programId m))"
    by (rule r)
qed

theorem limbo_scan_first_match_witness:
  "(0x3000 :: HWND) \<noteq> NULL
   \<and> \<not> limbo_match ui_host (limbo_master 1 (Some RF_START) 0x3000) 0x3000 ''Trend'' UR_PARAMETERS
   \<and> master_at (limbo_state 0x3000) 2 = Some (limbo_master 2 None 0x3000)
   \<and> limbo_match ui_host (limbo_master 2 None 0x3000) 0x3000 ''Trend'' UR_PARAMETERS
   \<and> master_at (limbo_state 0x3000) 3 = Some (limbo_master 3 None 0x3000)
   \<and> limbo_match ui_host (limbo_master 3 None 0x3000) 0x3000 ''Trend'' UR_PARAMETERS
   \<and> FindIndicatorInLimbo ui_host (limbo_state 0x3000) 0x3000 ''Trend'' UR_PARAMETERS = Some 2
   \<and> FindIndicatorInLimbo ui_host (limbo_state 0x3000) 0x3000 ''Other'' UR_PARAMETERS = Some 0"
proof -
  let ?s = "limbo_state 0x3000"
  have c: "(0x3000 :: HWND) \<noteq> NULL"
    by simp
  have idx: "i = 1 \<or> i = 2 \<or> i = 3" if "1 \<le> i \<and> i < length (g_contextChains ?s)" for i
    using that by (auto simp: limbo_state_def)
  have none: "\<forall>i. 1 \<le> i \<and> i < length (g_contextChains ?s) \<longrightarrow>
      (\<exists>m. master_at ?s i = Some m \<and> \<not> limbo_match ui_host m 0x3000 ''Other'' UR_PARAMETERS)"
  proof (intro allI impI)
    fix i assume "1 \<le> i \<and> i < length (g_contextChains ?s)"
    from idx [OF this]
    show "\<exists>m. master_at ?s i = Some m \<and> \<not> limbo_match ui_host m 0x3000 ''Other'' UR_PARAMETERS"
      by (elim disjE) (simp_all add: limbo_state_masters limbo_master_match)
  qed
  have before: "\<forall>j. 1 \<le> j \<and> j < 2 \<longrightarrow>
      (\<exists>m'. master_at ?s j = Some m' \<and> \<not> limbo_match ui_host m' 0x3000 ''Trend'' UR_PARAMETERS)"
  proof (intro allI impI)
    fix j :: nat assume "1 \<le> j \<and> j < 2"
    then have "j = 1" by simp
    then show "\<exists>m'. master_at ?s j = Some m' \<and> \<not> limbo_match ui_host m' 0x3000 ''Trend'' UR_PARAMETERS"
      by (simp add: limbo_state_masters limbo_master_match)
  qed
  note th = limbo_scan_first_match [OF c, of ?s ui_host]
  have a: "FindIndicatorInLimbo ui_host ?s 0x3000 ''Other'' UR_PARAMETERS = Some 0"
    using th [of "''Other''" UR_PARAMETERS] none by blast
  have "FindIndicatorInLimbo ui_host ?s 0x3000 ''Trend'' UR_PARAMETERS
          = Some (sint (programId (limbo_master 2 None 0x3000)))"
    using th [of "''Trend''" UR_PARAMETERS, THEN conjunct2, rule_format, of 2 "limbo_master 2 None 0x3000"]
      before by (simp add: limbo_state_masters limbo_master_match)
  then have b: "FindIndicatorInLimbo ui_host ?s 0x3000 ''Trend'' UR_PARAMETERS = Some 2"
    by (simp add: limbo_master_programId)
  from a b c show ?thesis
    by (simp add: limbo_state_masters limbo_master_match)
qed

text \<open>The claim as it was made, for every chart handle, fails for the null handle: the
  second and the third indicator of the example match the query, and the scan returns
  \<^verbatim>\<open>NULL\<close>, not the program id 2.\<close>

theorem limbo_scan_every_handle_counterexample:
  "master_at (limbo_state NULL) 2 = Some (limbo_master 2 None NULL)
   \<and> limbo_match ui_host (limbo_master 2 None NULL) NULL ''Trend'' UR_PARAMETERS
   \<and> \<not> limbo_match ui_host (limbo_master 1 (Some RF_START) NULL) NULL ''Trend'' UR_PARAMETERS
   \<and> sint (programId (limbo_master 2 None NULL)) = 2
   \<and> FindIndicatorInLimbo ui_host (limbo_state NULL) NULL ''Trend'' UR_PARAMETERS = Some 0
   \<and> FindIndicatorInLimbo ui_host (limbo_state NULL) NULL ''Trend'' UR_PARAMETERS
       \<noteq> Some (sint (programId (limbo_master 2 None NULL)))"
  by (simp add: limbo_state_masters limbo_master_match limbo_master_programId
      FindIndicatorInLimbo_def)

lemma limbo_match_hChart:
  "limbo_match h m hc name reason \<Longrightarrow> hChart m = hc"
  by (simp add: limbo_match_def split: if_splits)

lemma limbo_loop_result:
  "limbo_loop h s hc name reason cs = Some r \<Longrightarrow>
     (r = 0 \<and> (\<forall>k<length cs. \<exists>p rest m. cs ! k = p # rest \<and> deref s p = Some m
                  \<and> \<not> limbo_match h m hc name reason))
     \<or> (\<exists>k p rest m. k < length cs \<and> cs ! k = p # rest \<and> deref s p = Some m
           \<and> limbo_match h m hc name reason
           \<and> (\<forall>j<k. \<exists>p' rest' m'. cs ! j = p' # rest' \<and> deref s p' = Some m'
                  \<and> \<not> limbo_match h m' hc name reason)
           \<and> r = sint (programId m))"
proof (induction cs)
  case Nil
  then show ?case by simp
next
  case (Cons c cs)
  from Cons.prems obtain p rest m where c: "c = p # rest" and m: "deref s p = Some m"
    by (auto split: list.splits option.splits)
  show ?case
  proof (cases "limbo_match h m hc name reason")
    case True
    with Cons.prems c m have "r = sint (programId m)"
      by simp
    with True c m have "0 < length (c # cs) \<and> (c # cs) ! 0 = p # rest \<and> deref s p = Some m
           \<and> limbo_match h m hc name reason
           \<and> (\<forall>j<0. \<exists>p' rest' m'. (c # cs) ! j = p' # rest' \<and> deref s p' = Some m'
                  \<and> \<not> limbo_match h m' hc name reason)
           \<and> r = sint (programId m)"
      by simp
    then show ?thesis
      by blast
  next
    case False
    with Cons.prems c m have "limbo_loop h s hc name reason cs = Some r"
      by simp
    from Cons.IH [OF this] show ?thesis
    proof (elim disjE conjE exE)
      assume r: "r = 0" and all: "\<forall>k<length cs. \<exists>p rest m. cs ! k = p # rest
                  \<and> deref s p = Some m \<and> \<not> limbo_match h m hc name reason"
      have "\<forall>k<length (c # cs). \<exists>p rest m. (c # cs) ! k = p # rest \<and> deref s p = Some m
                  \<and> \<not> limbo_match h m hc name reason"
      proof (intro allI impI)
        fix k assume "k < length (c # cs)"
        then show "\<exists>p rest m. (c # cs) ! k = p # rest \<and> deref s p = Some m
                  \<and> \<not> limbo_match h m hc name reason"
          using all c m False by (cases k) auto
      qed
      with r show ?thesis
        by blast
    next
      fix k q rest' m'
      assume k: "k < length cs" "cs ! k = q # rest'" "deref s q = Some m'"
        "limbo_match h m' hc name reason" "r = sint (programId m')"
        and before: "\<forall>j<k. \<exists>p' rest' m'. cs ! j = p' # rest' \<and> deref s p' = Some m'
                  \<and> \<not> limbo_match h m' hc name reason"
      have "\<forall>j<Suc k. \<exists>p' rest' m'. (c # cs) ! j = p' # rest' \<and> deref s p' = Some m'
                  \<and> \<not> limbo_match h m' hc name reason"
      proof (intro allI impI)
        fix j assume "j < Suc k"
        then show "\<exists>p' rest' m'. (c # cs) ! j = p' # rest' \<and> deref s p' = Some m'
                  \<and> \<not> limbo_match h m' hc name reason"
          using before c m False by (cases j) auto
      qed
      with k have "Suc k < length (c # cs) \<and> (c # cs) ! Suc k = q # rest' \<and> deref s q = Some m'
           \<and> limbo_match h m' hc name reason
           \<and> (\<forall>j<Suc k. \<exists>p' rest' m'. (c # cs) ! j = p' # rest' \<and> deref s p' = Some m'
                  \<and> \<not> limbo_match h m' hc name reason)
           \<and> r = sint (programId m')"
        by simp
      then show ?thesis
        by blast
    qed
  qed
qed

lemma master_at_tail:
  "k < length (drop 1 (g_contextChains s)) \<Longrightarrow> drop 1 (g_contextChains s) ! k = p # rest
   \<Longrightarrow> deref s p = Some m \<Longrightarrow> master_at s (Suc k) = Some m"
  by (simp add: master_at_def)

lemma masters_tail:
  assumes "\<forall>j<k. \<exists>p rest m. drop 1 (g_contextChains s) ! j = p # rest \<and> deref s p = Some m
             \<and> \<not> limbo_match h m hc name reason"
    and "k \<le> length (drop 1 (g_contextChains s))"
  shows "\<forall>i. 1 \<le> i \<and> i < Suc k \<longrightarrow>
           (\<exists>m. master_at s i = Some m \<and> \<not> limbo_match h m hc name reason)"
proof (intro allI impI)
  fix i assume i: "1 \<le> i \<and> i < Suc k"
  then obtain j where j: "i = Suc j" "j < k"
    by (cases i) auto
  with assms(1) obtain p rest m where
    "drop 1 (g_contextChains s) ! j = p # rest" "deref s p = Some m"
    "\<not> limbo_match h m hc name reason"
    by blast
  moreover have "j < length (drop 1 (g_contextChains s))"
    using j assms(2) by simp
  ultimately show "\<exists>m. master_at s i = Some m \<and> \<not> limbo_match h m hc name reason"
    using j master_at_tail by blast
qed

text \<open>
  C10. With a null chart handle the limbo scan returns \<^verbatim>\<open>NULL\<close>, "no indicator found",
  for every program name and uninit reason and in every state: no chain is read, so the
  result is defined even where reading a chain would not be. Whatever the chart handle of
  the query, a scan that returns has either stopped at no chain (the handle is null, or
  every chain from index 1 on has a readable master that does not match) and returns
  \<^verbatim>\<open>NULL\<close>, or it has stopped at the first chain whose master matches and returns the
  program id of that master, and then the chart handle of that master is the one of the
  query and is not null; so a result other than \<^verbatim>\<open>NULL\<close> is always the program id of a
  master that has a chart handle. A master without a chart handle matches no query with a chart
  handle, and a query without one is not scanned: a program without a chart is never the
  one the scan selects.
\<close>

theorem limbo_scan_null_chart:
  "FindIndicatorInLimbo h s NULL name reason = Some 0
   \<and> (\<forall>hc r. FindIndicatorInLimbo h s hc name reason = Some r \<longrightarrow>
         (r = 0 \<and> (hc = NULL
                   \<or> (\<forall>i. 1 \<le> i \<and> i < length (g_contextChains s) \<longrightarrow>
                         (\<exists>m. master_at s i = Some m \<and> \<not> limbo_match h m hc name reason))))
         \<or> (\<exists>i m. 1 \<le> i \<and> i < length (g_contextChains s) \<and> master_at s i = Some m
               \<and> limbo_match h m hc name reason
               \<and> (\<forall>j. 1 \<le> j \<and> j < i \<longrightarrow>
                     (\<exists>m'. master_at s j = Some m' \<and> \<not> limbo_match h m' hc name reason))
               \<and> r = sint (programId m) \<and> hChart m = hc \<and> hChart m \<noteq> NULL))
   \<and> (\<forall>m hc. hChart m = NULL \<and> hc \<noteq> NULL \<longrightarrow> \<not> limbo_match h m hc name reason)"
proof (intro conjI allI impI)
  show "FindIndicatorInLimbo h s NULL name reason = Some 0"
    by (simp add: FindIndicatorInLimbo_def)
next
  fix hc r
  assume run: "FindIndicatorInLimbo h s hc name reason = Some r"
  let ?cs = "drop 1 (g_contextChains s)"
  show "(r = 0 \<and> (hc = NULL
                   \<or> (\<forall>i. 1 \<le> i \<and> i < length (g_contextChains s) \<longrightarrow>
                         (\<exists>m. master_at s i = Some m \<and> \<not> limbo_match h m hc name reason))))
         \<or> (\<exists>i m. 1 \<le> i \<and> i < length (g_contextChains s) \<and> master_at s i = Some m
               \<and> limbo_match h m hc name reason
               \<and> (\<forall>j. 1 \<le> j \<and> j < i \<longrightarrow>
                     (\<exists>m'. master_at s j = Some m' \<and> \<not> limbo_match h m' hc name reason))
               \<and> r = sint (programId m) \<and> hChart m = hc \<and> hChart m \<noteq> NULL)"
  proof (cases "hc = NULL")
    case True
    with run show ?thesis
      by (simp add: FindIndicatorInLimbo_def)
  next
    case False
    with run have "limbo_loop h s hc name reason ?cs = Some r"
      by (simp add: FindIndicatorInLimbo_def)
    from limbo_loop_result [OF this] show ?thesis
    proof (elim disjE conjE exE)
      assume r: "r = 0" and all: "\<forall>k<length ?cs. \<exists>p rest m. ?cs ! k = p # rest
                  \<and> deref s p = Some m \<and> \<not> limbo_match h m hc name reason"
      from masters_tail [OF all] have "\<forall>i. 1 \<le> i \<and> i < length (g_contextChains s) \<longrightarrow>
                         (\<exists>m. master_at s i = Some m \<and> \<not> limbo_match h m hc name reason)"
        by auto
      with r show ?thesis
        by blast
    next
      fix k p rest m
      assume k: "k < length ?cs" "?cs ! k = p # rest" "deref s p = Some m"
        "limbo_match h m hc name reason" "r = sint (programId m)"
        and before: "\<forall>j<k. \<exists>p' rest' m'. ?cs ! j = p' # rest' \<and> deref s p' = Some m'
                  \<and> \<not> limbo_match h m' hc name reason"
      have 1: "master_at s (Suc k) = Some m"
        using master_at_tail k by blast
      have 2: "\<forall>j. 1 \<le> j \<and> j < Suc k \<longrightarrow>
                     (\<exists>m'. master_at s j = Some m' \<and> \<not> limbo_match h m' hc name reason)"
        using masters_tail [OF before] k(1) by simp
      have 3: "hChart m = hc"
        using k(4) by (rule limbo_match_hChart)
      have "1 \<le> Suc k \<and> Suc k < length (g_contextChains s) \<and> master_at s (Suc k) = Some m
               \<and> limbo_match h m hc name reason
               \<and> (\<forall>j. 1 \<le> j \<and> j < Suc k \<longrightarrow>
                     (\<exists>m'. master_at s j = Some m' \<and> \<not> limbo_match h m' hc name reason))
               \<and> r = sint (programId m) \<and> hChart m = hc \<and> hChart m \<noteq> NULL"
        using 1 2 3 k False by simp
      then show ?thesis
        by blast
    qed
  qed
next
  fix m :: EXECUTION_CONTEXT and hc :: HWND
  assume "hChart m = NULL \<and> hc \<noteq> NULL"
  then show "\<not> limbo_match h m hc name reason"
    by (auto dest: limbo_match_hChart)
qed


theorem limbo_scan_null_chart_witness:
  "FindIndicatorInLimbo ui_host chartless_state NULL ''Trend'' UR_PARAMETERS = Some 0
   \<and> FindIndicatorInLimbo ui_host chartless_state 0x4000 ''Trend'' UR_PARAMETERS = None
   \<and> master_at chartless_state 1 = Some (limbo_master 1 None NULL)
   \<and> hChart (limbo_master 1 None NULL) = NULL
   \<and> limbo_match ui_host (limbo_master 1 None NULL) NULL ''Trend'' UR_PARAMETERS
   \<and> (0x3000 :: HWND) \<noteq> NULL
   \<and> \<not> limbo_match ui_host (limbo_master 1 None NULL) 0x3000 ''Trend'' UR_PARAMETERS
   \<and> FindIndicatorInLimbo ui_host chartless_state 0x3000 ''Trend'' UR_PARAMETERS = Some 2
   \<and> (\<exists>i m. 1 \<le> i \<and> i < length (g_contextChains chartless_state)
          \<and> master_at chartless_state i = Some m
          \<and> limbo_match ui_host m 0x3000 ''Trend'' UR_PARAMETERS
          \<and> sint (programId m) = 2 \<and> hChart m = 0x3000 \<and> hChart m \<noteq> NULL)"
proof -
  note th = limbo_scan_null_chart [of ui_host chartless_state "''Trend''" UR_PARAMETERS]
  have a: "FindIndicatorInLimbo ui_host chartless_state NULL ''Trend'' UR_PARAMETERS = Some 0"
    using th by (rule conjunct1)
  have b: "FindIndicatorInLimbo ui_host chartless_state 0x4000 ''Trend'' UR_PARAMETERS = None"
    by (simp add: FindIndicatorInLimbo_def chartless_state_def deref_def limbo_master_match)
  have c: "master_at chartless_state 1 = Some (limbo_master 1 None NULL)"
    by (simp add: master_at_def chartless_state_def deref_def)
  have d: "hChart (limbo_master 1 None NULL) = NULL" "(0x3000 :: HWND) \<noteq> NULL"
    by (simp_all add: limbo_master_def)
  have d': "limbo_match ui_host (limbo_master 1 None NULL) NULL ''Trend'' UR_PARAMETERS"
    by (simp add: limbo_master_match)
  have e: "\<not> limbo_match ui_host (limbo_master 1 None NULL) 0x3000 ''Trend'' UR_PARAMETERS"
    using th [THEN conjunct2, THEN conjunct2, rule_format, of "limbo_master 1 None NULL" "0x3000"] d
    by simp
  have run: "FindIndicatorInLimbo ui_host chartless_state 0x3000 ''Trend'' UR_PARAMETERS = Some 2"
    by (simp add: FindIndicatorInLimbo_def chartless_state_def deref_def limbo_master_match
        limbo_master_programId)
  from th [THEN conjunct2, THEN conjunct1, rule_format, OF run]
  have f: "\<exists>i m. 1 \<le> i \<and> i < length (g_contextChains chartless_state)
          \<and> master_at chartless_state i = Some m
          \<and> limbo_match ui_host m 0x3000 ''Trend'' UR_PARAMETERS
          \<and> sint (programId m) = 2 \<and> hChart m = 0x3000 \<and> hChart m \<noteq> NULL"
    by auto
  from a b c d d' e run f show ?thesis
    by blast
qed

section \<open>The init reason of an indicator: properties\<close>

text \<open>
  C6. An indicator with uninit reason \<^verbatim>\<open>UR_PARAMETERS\<close>: with a super context the resolver
  reports an illegal state and returns \<^verbatim>\<open>NULL\<close>. Without a super context and with no
  program id in the record, the limbo scan decides: when it finds nothing (it returns 0)
  the reason is \<^verbatim>\<open>IR_USER\<close>, and when it returns an id (a positive number) the reason is
  \<^verbatim>\<open>IR_PARAMETERS\<close> and the id is stored in \<^verbatim>\<open>originalProgramId\<close>. (A negative result
  is the scan's error value; the resolver returns \<^verbatim>\<open>NULL\<close> for it.)
\<close>

theorem parameters_resolution:
  "(sec \<noteq> NULL \<longrightarrow>
      InitReason_indicator h s ec sec name UR_PARAMETERS symb isTesting isVisualMode hc dropped orig
        = Some (None, orig, error s ERR_ILLEGAL_STATE))
   \<and> (sec = NULL \<and> deref s ec = Some e \<and> programId e = 0
        \<and> FindIndicatorInLimbo h s hc name UR_PARAMETERS = Some 0 \<longrightarrow>
      InitReason_indicator h s ec sec name UR_PARAMETERS symb isTesting isVisualMode hc dropped orig
        = Some (Some IR_USER, 0, s))
   \<and> (sec = NULL \<and> deref s ec = Some e \<and> programId e = 0
        \<and> FindIndicatorInLimbo h s hc name UR_PARAMETERS = Some found \<and> 0 < found \<longrightarrow>
      InitReason_indicator h s ec sec name UR_PARAMETERS symb isTesting isVisualMode hc dropped orig
        = Some (Some IR_PARAMETERS, word_of_int found, s))"
  by (simp add: InitReason_indicator_def illegal_def)

theorem parameters_resolution_witness:
  "(0x280000 :: pointer) \<noteq> NULL
   \<and> InitReason_indicator ui_host (limbo_state 0x3000) 0x200000 0x280000 ''Trend'' UR_PARAMETERS
        ''EURUSD'' False False 0x3000 0 0
        = Some (None, 0, error (limbo_state 0x3000) ERR_ILLEGAL_STATE)
   \<and> deref (limbo_state 0x3000) 0x200000 = Some zero_context
   \<and> programId zero_context = 0
   \<and> FindIndicatorInLimbo ui_host (limbo_state 0x3000) 0x3000 ''Other'' UR_PARAMETERS = Some 0
   \<and> InitReason_indicator ui_host (limbo_state 0x3000) 0x200000 NULL ''Other'' UR_PARAMETERS
        ''EURUSD'' False False 0x3000 0 0
        = Some (Some IR_USER, 0, limbo_state 0x3000)
   \<and> FindIndicatorInLimbo ui_host (limbo_state 0x3000) 0x3000 ''Trend'' UR_PARAMETERS = Some 2
   \<and> InitReason_indicator ui_host (limbo_state 0x3000) 0x200000 NULL ''Trend'' UR_PARAMETERS
        ''EURUSD'' False False 0x3000 0 0
        = Some (Some IR_PARAMETERS, 2, limbo_state 0x3000)"
proof -
  let ?s = "limbo_state 0x3000"
  have a: "(0x280000 :: pointer) \<noteq> NULL"
    by simp
  have e: "deref ?s 0x200000 = Some zero_context" "programId zero_context = 0"
    by (simp_all add: limbo_state_def deref_def zero_context_def)
  have other: "FindIndicatorInLimbo ui_host ?s 0x3000 ''Other'' UR_PARAMETERS = Some 0"
    by (simp add: FindIndicatorInLimbo_def limbo_state_def deref_def limbo_master_match)
  have trend: "FindIndicatorInLimbo ui_host ?s 0x3000 ''Trend'' UR_PARAMETERS = Some 2"
    by (simp add: FindIndicatorInLimbo_def limbo_state_def deref_def limbo_master_match
        limbo_master_programId)
  note th = parameters_resolution [of _ ui_host ?s "0x200000" _ "''EURUSD''" False False "0x3000" 0 0
      zero_context]
  have 1: "InitReason_indicator ui_host ?s 0x200000 0x280000 ''Trend'' UR_PARAMETERS
        ''EURUSD'' False False 0x3000 0 0 = Some (None, 0, error ?s ERR_ILLEGAL_STATE)"
    using th [of "0x280000" "''Trend''" 0] a by blast
  have 2: "InitReason_indicator ui_host ?s 0x200000 NULL ''Other'' UR_PARAMETERS
        ''EURUSD'' False False 0x3000 0 0 = Some (Some IR_USER, 0, ?s)"
    using th [of NULL "''Other''" 0] e other by blast
  have 3: "InitReason_indicator ui_host ?s 0x200000 NULL ''Trend'' UR_PARAMETERS
        ''EURUSD'' False False 0x3000 0 0 = Some (Some IR_PARAMETERS, 2, ?s)"
    using th [of NULL "''Trend''" 2] e trend by simp
  from a e other trend 1 2 3 show ?thesis
    by blast
qed

text \<open>
  C8, as the code has it. An indicator with uninit reason \<^verbatim>\<open>UR_RECOMPILE\<close>: the result
  does not depend on the build. With a super context the resolver reports an illegal
  state and returns \<^verbatim>\<open>NULL\<close>; without a super context the reason is \<^verbatim>\<open>IR_RECOMPILE\<close>
  and nothing is reported.
\<close>

theorem recompile_resolution:
  "(sec \<noteq> NULL \<longrightarrow>
      InitReason_indicator h s ec sec name UR_RECOMPILE symb isTesting isVisualMode hc dropped orig
        = Some (None, orig, error s ERR_ILLEGAL_STATE))
   \<and> (sec = NULL \<longrightarrow>
      InitReason_indicator h s ec sec name UR_RECOMPILE symb isTesting isVisualMode hc dropped orig
        = Some (Some IR_RECOMPILE, orig, s))"
  by (simp add: InitReason_indicator_def illegal_def)

theorem recompile_resolution_witness:
  "(0x280000 :: pointer) \<noteq> NULL
   \<and> InitReason_indicator ui_host two_threads 0x200000 0x280000 ''Indicator'' UR_RECOMPILE
        ''EURUSD'' False False 0x3000 0 0
        = Some (None, 0, error two_threads ERR_ILLEGAL_STATE)
   \<and> InitReason_indicator ui_host two_threads 0x200000 NULL ''Indicator'' UR_RECOMPILE
        ''EURUSD'' False False 0x3000 0 0
        = Some (Some IR_RECOMPILE, 0, two_threads)"
  using recompile_resolution [of "0x280000" ui_host two_threads "0x200000" "''Indicator''"
      "''EURUSD''" False False "0x3000" 0 0]
    recompile_resolution [of NULL ui_host two_threads "0x200000" "''Indicator''"
      "''EURUSD''" False False "0x3000" 0 0]
  by simp

text \<open>The claim as it was made has the two cases the other way round: without a super
  context the resolver does not fail, it returns \<^verbatim>\<open>IR_RECOMPILE\<close>.\<close>

theorem recompile_without_super_counterexample:
  "InitReason_indicator ui_host two_threads 0x200000 NULL ''Indicator'' UR_RECOMPILE
     ''EURUSD'' False False 0x3000 0 0
     = Some (Some IR_RECOMPILE, 0, two_threads)
   \<and> InitReason_indicator ui_host two_threads 0x200000 NULL ''Indicator'' UR_RECOMPILE
     ''EURUSD'' False False 0x3000 0 0
     \<noteq> Some (None, 0, error two_threads ERR_ILLEGAL_STATE)"
  by (simp add: InitReason_indicator_def illegal_def)

section \<open>Moving the libraries of the last test: properties\<close>

lemma deref_mem_upd:
  "deref (s\<lparr>memory := m\<rparr>) p = (if p = NULL then None else m p)"
  by (simp add: deref_def)

lemma deref_chains_upd [simp]:
  "deref (s\<lparr>g_contextChains := c\<rparr>) p = deref s p"
  by (simp add: deref_def)

lemma deref_diag_upd [simp]:
  "deref (s\<lparr>diagnostics := c\<rparr>) p = deref s p"
  by (simp add: deref_def)

lemma poke_eq:
  "poke s p f = (case deref s p of None \<Rightarrow> None
                 | Some e \<Rightarrow> Some (s\<lparr>memory := (memory s)(p \<mapsto> f e)\<rparr>))"
  by (simp add: poke_def)

lemmas setter_defs =
  ec_SetProgramId_def ec_SetProgramType_def ec_SetProgramName_def ec_SetModuleType_def
  ec_SetModuleName_def ec_SetRootFunction_def ec_SetInitCycle_def ec_SetInitReason_def
  ec_SetUninitReason_def ec_SetTesting_def ec_SetVisualMode_def ec_SetOptimization_def
  ec_SetInitFlags_def ec_SetDeinitFlags_def ec_SetLogging_def ec_SetCustomLogFile_def
  ec_SetSymbol_def ec_SetTimeframe_def ec_SetHChart_def ec_SetHChartWindow_def
  ec_SetSuperContext_def ec_SetThreadId_def ec_SetTicks_def ec_SetPreviousTickTime_def
  ec_SetCurrentTickTime_def ec_SetMqlError_def ec_SetDllError_def ec_SetDllWarning_def

lemma reassign_library_eq:
  assumes "deref s lib = Some l" and "deref s ec = Some e"
    and "unat lastId < length (g_contextChains s)"
    and "i < length (g_contextChains s ! unat lastId)"
    and "unat cur < length (g_contextChains s)"
  shows "reassign_library ec cur lastId i lib s =
     Some (s\<lparr>g_contextChains :=
               ((g_contextChains s)[unat lastId := (g_contextChains s ! unat lastId)[i := NULL]])
               [unat cur := ((g_contextChains s)[unat lastId := (g_contextChains s ! unat lastId)[i := NULL]]) ! unat cur @ [lib]],
             memory := (memory s)(lib \<mapsto> adopted e l)\<rparr>)"
proof -
  have nn: "lib \<noteq> NULL" "ec \<noteq> NULL"
    using assms(1,2) by (auto simp: deref_def split: if_splits)
  have m: "memory s lib = Some l" "memory s ec = Some e"
    using assms(1,2) by (auto simp: deref_def split: if_splits)
  show ?thesis
  proof (cases "lib = ec")
    case True
    with m have "l = e" by simp
    with True nn m assms show ?thesis
      by (simp add: reassign_library_def set_chain_slot_def chain_push_back_def setter_defs
          poke_eq deref_mem_upd adopted_def)
  next
    case False
    with nn m assms show ?thesis
      by (simp add: reassign_library_def set_chain_slot_def chain_push_back_def setter_defs
          poke_eq deref_mem_upd adopted_def)
  qed
qed


lemma marked_NULL [simp]: "\<not> marked s NULL"
  by (simp add: marked_def deref_def)

lemma marked_cong_memory: "memory s' p = memory s p \<Longrightarrow> marked s' p = marked s p"
  by (simp add: marked_def deref_def)

lemma reassign_loop_total:
  assumes "n - i = k"
    and "deref s ec = Some e"
    and "unat lastId < length (g_contextChains s)" and "unat cur < length (g_contextChains s)"
    and "unat cur \<noteq> unat lastId"
    and "n = length (g_contextChains s ! unat lastId)"
    and "\<forall>p \<in> set (drop i (g_contextChains s ! unat lastId)). p \<noteq> NULL \<longrightarrow> p \<noteq> ec \<and> deref s p \<noteq> None"
    and "distinct (filter (\<lambda>p. p \<noteq> NULL) (drop i (g_contextChains s ! unat lastId)))"
  shows "\<exists>s'. reassign_loop ec cur lastId i n s = Some s'
     \<and> g_contextChains s' = (g_contextChains s)
          [unat lastId := take i (g_contextChains s ! unat lastId)
               @ map (\<lambda>p. if marked s p then NULL else p) (drop i (g_contextChains s ! unat lastId)),
           unat cur := g_contextChains s ! unat cur
               @ filter (marked s) (drop i (g_contextChains s ! unat lastId))]
     \<and> memory s' = (\<lambda>p. if p \<in> set (drop i (g_contextChains s ! unat lastId)) \<and> marked s p
                          then map_option (adopted e) (memory s p) else memory s p)
     \<and> diagnostics s' = diagnostics s
          @ replicate (length (filter (\<lambda>p. p = NULL) (drop i (g_contextChains s ! unat lastId))))
              (L_WARN ERR_ILLEGAL_STATE)
     \<and> g_threads s' = g_threads s \<and> g_threadsPrograms s' = g_threadsPrograms s
     \<and> g_lastUIThreadProgram s' = g_lastUIThreadProgram s"
  using assms
proof (induction k arbitrary: i s)
  case 0
  then have "\<not> i < n" by simp
  moreover from this 0 have "drop i (g_contextChains s ! unat lastId) = []" by simp
  ultimately show ?case
    using 0 by (subst reassign_loop.simps) simp
next
  case (Suc k)
  let ?L = "g_contextChains s ! unat lastId"
  from Suc.prems have i: "i < n" "i < length ?L" by simp_all
  let ?lib = "?L ! i"
  have dr: "drop i ?L = ?lib # drop (Suc i) ?L"
    using i by (simp add: Cons_nth_drop_Suc)
  have slot: "chain_slot s lastId i = Some ?lib"
    using Suc.prems i by (simp add: chain_slot_def)
  have k: "n - Suc i = k" using Suc.prems by simp
  have tail7: "\<forall>p \<in> set (drop (Suc i) ?L). p \<noteq> NULL \<longrightarrow> p \<noteq> ec \<and> deref s p \<noteq> None"
    using Suc.prems(7) by (simp add: dr)
  have tail8: "distinct (filter (\<lambda>p. p \<noteq> NULL) (drop (Suc i) ?L))"
    using Suc.prems(8) by (simp add: dr split: if_splits)
  show ?case
  proof (cases "?lib = NULL")
    case True
    let ?s1 = "warn s ERR_ILLEGAL_STATE"
    have same: "g_contextChains ?s1 = g_contextChains s" "memory ?s1 = memory s"
        "deref ?s1 = deref s" "marked ?s1 = marked s"
        "g_threads ?s1 = g_threads s" "g_threadsPrograms ?s1 = g_threadsPrograms s"
        "g_lastUIThreadProgram ?s1 = g_lastUIThreadProgram s"
      by (auto simp: warn_def deref_def marked_def fun_eq_iff)
    have "\<exists>s'. reassign_loop ec cur lastId (Suc i) n ?s1 = Some s'
     \<and> g_contextChains s' = (g_contextChains ?s1)
          [unat lastId := take (Suc i) (g_contextChains ?s1 ! unat lastId)
               @ map (\<lambda>p. if marked ?s1 p then NULL else p) (drop (Suc i) (g_contextChains ?s1 ! unat lastId)),
           unat cur := g_contextChains ?s1 ! unat cur
               @ filter (marked ?s1) (drop (Suc i) (g_contextChains ?s1 ! unat lastId))]
     \<and> memory s' = (\<lambda>p. if p \<in> set (drop (Suc i) (g_contextChains ?s1 ! unat lastId)) \<and> marked ?s1 p
                          then map_option (adopted e) (memory ?s1 p) else memory ?s1 p)
     \<and> diagnostics s' = diagnostics ?s1
          @ replicate (length (filter (\<lambda>p. p = NULL) (drop (Suc i) (g_contextChains ?s1 ! unat lastId))))
              (L_WARN ERR_ILLEGAL_STATE)
     \<and> g_threads s' = g_threads ?s1 \<and> g_threadsPrograms s' = g_threadsPrograms ?s1
     \<and> g_lastUIThreadProgram s' = g_lastUIThreadProgram ?s1"
      using Suc.prems(2-6) tail7 tail8 by (intro Suc.IH [OF k]) (simp_all add: same)
    then obtain s' where s': "reassign_loop ec cur lastId (Suc i) n ?s1 = Some s'"
      "g_contextChains s' = (g_contextChains s)
          [unat lastId := take (Suc i) ?L @ map (\<lambda>p. if marked s p then NULL else p) (drop (Suc i) ?L),
           unat cur := g_contextChains s ! unat cur @ filter (marked s) (drop (Suc i) ?L)]"
      "memory s' = (\<lambda>p. if p \<in> set (drop (Suc i) ?L) \<and> marked s p
                          then map_option (adopted e) (memory s p) else memory s p)"
      "diagnostics s' = diagnostics ?s1
          @ replicate (length (filter (\<lambda>p. p = NULL) (drop (Suc i) ?L))) (L_WARN ERR_ILLEGAL_STATE)"
      "g_threads s' = g_threads s" "g_threadsPrograms s' = g_threadsPrograms s"
      "g_lastUIThreadProgram s' = g_lastUIThreadProgram s"
      unfolding same by blast
    have run: "reassign_loop ec cur lastId i n s = Some s'"
      using i slot True s'(1) by (subst reassign_loop.simps) simp
    have tk: "take (Suc i) ?L = take i ?L @ [NULL]"
      using i True by (simp add: take_Suc_conv_app_nth)
    have dg: "diagnostics ?s1 = diagnostics s @ [L_WARN ERR_ILLEGAL_STATE]"
      by (simp add: warn_def)
    show ?thesis
      using run s'(2-) True
      by (intro exI [of _ s']) (simp add: dr tk dg fun_eq_iff replicate_append_same)
  next
    case False
    from Suc.prems(7) dr False obtain l where l: "deref s ?lib = Some l" "?lib \<noteq> ec"
      by auto
    have others: "\<forall>p \<in> set (drop (Suc i) ?L). p \<noteq> NULL \<longrightarrow> p \<noteq> ?lib"
      using Suc.prems(8) dr False by auto
    show ?thesis
    proof (cases "initCycle l")
      case nomark: False
      then have nm: "\<not> marked s ?lib"
        using l by (simp add: marked_def)
      have "\<exists>s'. reassign_loop ec cur lastId (Suc i) n s = Some s'
       \<and> g_contextChains s' = (g_contextChains s)
          [unat lastId := take (Suc i) ?L @ map (\<lambda>p. if marked s p then NULL else p) (drop (Suc i) ?L),
           unat cur := g_contextChains s ! unat cur @ filter (marked s) (drop (Suc i) ?L)]
       \<and> memory s' = (\<lambda>p. if p \<in> set (drop (Suc i) ?L) \<and> marked s p
                          then map_option (adopted e) (memory s p) else memory s p)
       \<and> diagnostics s' = diagnostics s
          @ replicate (length (filter (\<lambda>p. p = NULL) (drop (Suc i) ?L))) (L_WARN ERR_ILLEGAL_STATE)
       \<and> g_threads s' = g_threads s \<and> g_threadsPrograms s' = g_threadsPrograms s
       \<and> g_lastUIThreadProgram s' = g_lastUIThreadProgram s"
        using Suc.prems(2-6) tail7 tail8 by (intro Suc.IH [OF k]) simp_all
      then obtain s' where s': "reassign_loop ec cur lastId (Suc i) n s = Some s'"
        "g_contextChains s' = (g_contextChains s)
          [unat lastId := take (Suc i) ?L @ map (\<lambda>p. if marked s p then NULL else p) (drop (Suc i) ?L),
           unat cur := g_contextChains s ! unat cur @ filter (marked s) (drop (Suc i) ?L)]"
        "memory s' = (\<lambda>p. if p \<in> set (drop (Suc i) ?L) \<and> marked s p
                          then map_option (adopted e) (memory s p) else memory s p)"
        "diagnostics s' = diagnostics s
          @ replicate (length (filter (\<lambda>p. p = NULL) (drop (Suc i) ?L))) (L_WARN ERR_ILLEGAL_STATE)"
        "g_threads s' = g_threads s" "g_threadsPrograms s' = g_threadsPrograms s"
        "g_lastUIThreadProgram s' = g_lastUIThreadProgram s"
        by blast
      have run: "reassign_loop ec cur lastId i n s = Some s'"
        using i slot False l nomark s'(1) by (subst reassign_loop.simps) simp
      have tk: "take (Suc i) ?L = take i ?L @ [?lib]"
        using i by (simp add: take_Suc_conv_app_nth)
      show ?thesis
        using run s'(2-) False nm
        by (intro exI [of _ s']) (auto simp: dr tk fun_eq_iff)
    next
      case mark: True
      then have mk: "marked s ?lib"
        using l by (simp add: marked_def)
      let ?C1 = "(g_contextChains s)[unat lastId := ?L[i := NULL],
                   unat cur := g_contextChains s ! unat cur @ [?lib]]"
      let ?s1 = "s\<lparr>g_contextChains := ?C1, memory := (memory s)(?lib \<mapsto> adopted e l)\<rparr>"
      have lib: "reassign_library ec cur lastId i ?lib s = Some ?s1"
        using reassign_library_eq [OF l(1) Suc.prems(2) Suc.prems(3) i(2) Suc.prems(4)]
          Suc.prems(5) by simp
      have L1x: "?C1 ! unat lastId = ?L[i := NULL]"
        using Suc.prems(3-5) by simp
      have C1x: "?C1 ! unat cur = g_contextChains s ! unat cur @ [?lib]"
        using Suc.prems(3-5) by simp
      have L1: "g_contextChains ?s1 ! unat lastId = ?L[i := NULL]"
        using L1x by simp
      have C1: "g_contextChains ?s1 ! unat cur = g_contextChains s ! unat cur @ [?lib]"
        using C1x by simp
      have dr1: "drop (Suc i) (?L[i := NULL]) = drop (Suc i) ?L"
        by simp
      have e1: "deref ?s1 ec = Some e"
        using Suc.prems(2) l(2) by (auto simp: deref_def split: if_splits)
      have mem1: "\<forall>p \<in> set (drop (Suc i) ?L). p \<noteq> NULL \<longrightarrow> memory ?s1 p = memory s p"
        using others by simp
      have mk1: "\<forall>p \<in> set (drop (Suc i) ?L). marked ?s1 p = marked s p"
      proof
        fix p assume p: "p \<in> set (drop (Suc i) ?L)"
        show "marked ?s1 p = marked s p"
        proof (cases "p = NULL")
          case True then show ?thesis by simp
        next
          case False
          with mem1 p show ?thesis by (intro marked_cong_memory) simp
        qed
      qed
      have pre7: "\<forall>p \<in> set (drop (Suc i) (g_contextChains ?s1 ! unat lastId)).
                    p \<noteq> NULL \<longrightarrow> p \<noteq> ec \<and> deref ?s1 p \<noteq> None"
      proof (intro ballI impI)
        fix p assume p: "p \<in> set (drop (Suc i) (g_contextChains ?s1 ! unat lastId))" "p \<noteq> NULL"
        then have p': "p \<in> set (drop (Suc i) ?L)" by (simp add: L1x)
        with Suc.prems(7) dr p(2) have "p \<noteq> ec" "deref s p \<noteq> None" by auto
        moreover have "deref ?s1 p = deref s p"
          using mem1 p' p(2) by (simp add: deref_def)
        ultimately show "p \<noteq> ec \<and> deref ?s1 p \<noteq> None" by simp
      qed
      have pre8: "distinct (filter (\<lambda>p. p \<noteq> NULL) (drop (Suc i) (g_contextChains ?s1 ! unat lastId)))"
        using tail8 by (simp add: L1x)
      have "\<exists>s'. reassign_loop ec cur lastId (Suc i) n ?s1 = Some s'
       \<and> g_contextChains s' = (g_contextChains ?s1)
          [unat lastId := take (Suc i) (g_contextChains ?s1 ! unat lastId)
               @ map (\<lambda>p. if marked ?s1 p then NULL else p) (drop (Suc i) (g_contextChains ?s1 ! unat lastId)),
           unat cur := g_contextChains ?s1 ! unat cur
               @ filter (marked ?s1) (drop (Suc i) (g_contextChains ?s1 ! unat lastId))]
       \<and> memory s' = (\<lambda>p. if p \<in> set (drop (Suc i) (g_contextChains ?s1 ! unat lastId)) \<and> marked ?s1 p
                          then map_option (adopted e) (memory ?s1 p) else memory ?s1 p)
       \<and> diagnostics s' = diagnostics ?s1
          @ replicate (length (filter (\<lambda>p. p = NULL) (drop (Suc i) (g_contextChains ?s1 ! unat lastId))))
              (L_WARN ERR_ILLEGAL_STATE)
       \<and> g_threads s' = g_threads ?s1 \<and> g_threadsPrograms s' = g_threadsPrograms ?s1
       \<and> g_lastUIThreadProgram s' = g_lastUIThreadProgram ?s1"
      proof (intro Suc.IH [OF k])
        show "deref ?s1 ec = Some e" by (rule e1)
        show "unat lastId < length (g_contextChains ?s1)" using Suc.prems by simp
        show "unat cur < length (g_contextChains ?s1)" using Suc.prems by simp
        show "unat cur \<noteq> unat lastId" using Suc.prems by simp
        show "n = length (g_contextChains ?s1 ! unat lastId)" using Suc.prems(6) by (simp add: L1x)
        show "\<forall>p \<in> set (drop (Suc i) (g_contextChains ?s1 ! unat lastId)).
                    p \<noteq> NULL \<longrightarrow> p \<noteq> ec \<and> deref ?s1 p \<noteq> None" by (rule pre7)
        show "distinct (filter (\<lambda>p. p \<noteq> NULL) (drop (Suc i) (g_contextChains ?s1 ! unat lastId)))"
          by (rule pre8)
      qed
      then obtain s' where s': "reassign_loop ec cur lastId (Suc i) n ?s1 = Some s'"
        "g_contextChains s' = ?C1
          [unat lastId := take (Suc i) (?L[i := NULL])
               @ map (\<lambda>p. if marked ?s1 p then NULL else p) (drop (Suc i) ?L),
           unat cur := (g_contextChains s ! unat cur @ [?lib])
               @ filter (marked ?s1) (drop (Suc i) ?L)]"
        "memory s' = (\<lambda>p. if p \<in> set (drop (Suc i) ?L) \<and> marked ?s1 p
                          then map_option (adopted e) (memory ?s1 p) else memory ?s1 p)"
        "diagnostics s' = diagnostics s
          @ replicate (length (filter (\<lambda>p. p = NULL) (drop (Suc i) ?L))) (L_WARN ERR_ILLEGAL_STATE)"
        "g_threads s' = g_threads s" "g_threadsPrograms s' = g_threadsPrograms s"
        "g_lastUIThreadProgram s' = g_lastUIThreadProgram s"
        unfolding L1 C1 dr1 by auto
      have run: "reassign_loop ec cur lastId i n s = Some s'"
        using i slot False l mark lib s'(1) by (subst reassign_loop.simps) simp
      have tk: "take (Suc i) (?L[i := NULL]) = take i ?L @ [NULL]"
        using i by (simp add: take_Suc_conv_app_nth)
      have mapeq: "map (\<lambda>p. if marked ?s1 p then NULL else p) (drop (Suc i) ?L)
                 = map (\<lambda>p. if marked s p then NULL else p) (drop (Suc i) ?L)"
        using mk1 by (intro map_cong) simp_all
      have fileq: "filter (marked ?s1) (drop (Suc i) ?L) = filter (marked s) (drop (Suc i) ?L)"
        using mk1 by (intro filter_cong) simp_all
      have chains: "g_contextChains s' = (g_contextChains s)
          [unat lastId := take i ?L @ map (\<lambda>p. if marked s p then NULL else p) (drop i ?L),
           unat cur := g_contextChains s ! unat cur @ filter (marked s) (drop i ?L)]"
        using Suc.prems(3-5) mk
        by (simp add: s'(2) tk mapeq fileq dr list_update_swap [of "unat cur" "unat lastId"])
      have notin: "?lib \<notin> set (drop (Suc i) ?L)"
        using others False by auto
      have memory: "memory s' = (\<lambda>p. if p \<in> set (drop i ?L) \<and> marked s p
                          then map_option (adopted e) (memory s p) else memory s p)"
      proof
        fix p
        show "memory s' p = (if p \<in> set (drop i ?L) \<and> marked s p
                          then map_option (adopted e) (memory s p) else memory s p)"
        proof (cases "p = ?lib")
          case True
          have "memory s ?lib = Some l"
            using l(1) by (auto simp: deref_def split: if_splits)
          with True notin mk show ?thesis
            by (simp add: s'(3) dr)
        next
          case neq: False
          show ?thesis
          proof (cases "p \<in> set (drop (Suc i) ?L)")
            case True
            with mk1 have "marked ?s1 p = marked s p" by simp
            with True neq show ?thesis by (simp add: s'(3) dr)
          next
            case False
            with neq show ?thesis by (simp add: s'(3) dr)
          qed
        qed
      qed
      show ?thesis
        using run chains memory s'(4-) False
        by (intro exI [of _ s']) (simp add: dr)
    qed
  qed
qed


lemma threads_loop_at:
  "k < length ts \<Longrightarrow> ts ! k = t \<Longrightarrow> \<forall>j<k. ts ! j \<noteq> t
   \<Longrightarrow> threads_loop ts t 0 i progs = Some (int (i + k), progs)"
proof (induction ts arbitrary: k i)
  case Nil
  then show ?case by simp
next
  case (Cons a ts)
  show ?case
  proof (cases k)
    case 0
    with Cons.prems show ?thesis by simp
  next
    case (Suc k')
    with Cons.prems have a: "a \<noteq> t" by auto
    have "\<forall>j<k'. ts ! j \<noteq> t"
      using Cons.prems(3) Suc by auto
    with Cons.IH [of k' "Suc i"] Cons.prems Suc a show ?thesis by simp
  qed
qed

lemma StoreThreadAndProgram_known:
  assumes "k < length (g_threads s)" and "g_threads s ! k = GetCurrentThreadId h"
    and "\<forall>j<k. g_threads s ! j \<noteq> GetCurrentThreadId h"
  shows "StoreThreadAndProgram h s 0 = Some (int k, s)"
  using threads_loop_at [OF assms, of 0 "g_threadsPrograms s"]
  by (simp add: StoreThreadAndProgram_def)

lemma init_1_new_expert:
  assumes "deref s ec = Some e" and "programId e = 0"
    and "operator_new h \<noteq> NULL" and "memory s (operator_new h) = None"
    and "k < length (g_threads s)" and "g_threads s ! k = GetCurrentThreadId h"
    and "\<forall>j<k. g_threads s ! j \<noteq> GetCurrentThreadId h"
    and "k < length (g_threadsPrograms s)"
  shows "SyncMainContext_init_1 h s ec PT_EXPERT ir 0 sec =
     Some ((sec, g_threadsPrograms s ! k, True),
           s\<lparr>g_contextChains := g_contextChains s @ [[operator_new h, ec]],
             memory := (memory s)
                 (ec \<mapsto> e\<lparr>programId := of_nat (length (g_contextChains s))\<rparr>,
                  operator_new h \<mapsto> e\<lparr>programId := of_nat (length (g_contextChains s))\<rparr>),
             g_threadsPrograms := (g_threadsPrograms s)
                 [k := of_nat (length (g_contextChains s))]\<rparr>)"
proof -
  have nn: "ec \<noteq> NULL" and m: "memory s ec = Some e"
    using assms(1) by (auto simp: deref_def split: if_splits)
  have ne: "operator_new h \<noteq> ec"
    using assms(4) m by auto
  show ?thesis
    using assms nn m ne
    by (simp add: SyncMainContext_init_1_def SyncMainContext_init_1_2_def poke_eq deref_mem_upd
        Let_def StoreThreadAndProgram_known [where k = k])
qed


lemmas flag_defs =
  ProgramIsTesting_def ProgramIsVisualMode_def ProgramIsOptimization_def
  ProgramIsLogging_def ProgramCustomLogFile_def

lemma init_2_expert:
  assumes "deref s ec = Some e"
  shows "\<exists>s' e'. SyncMainContext_init_2 h s ec PT_EXPERT name ir ur iF dF symb per NULL isT isV isO hc
             = Some ((isT, isV, isO), s')
      \<and> s' = s\<lparr>memory := (memory s)(ec \<mapsto> e')\<rparr>
      \<and> programId e' = programId e \<and> initCycle e' = initCycle e"
proof -
  have nn: "ec \<noteq> NULL" and m: "memory s ec = Some e"
    using assms by (auto simp: deref_def split: if_splits)
  show ?thesis
  proof (cases "ticks e = 0")
    case True
    with assms nn m show ?thesis
      apply (simp add: SyncMainContext_init_2_def setter_defs poke_eq deref_mem_upd flag_defs)
      apply (intro conjI impI exI)
           apply (rule refl, simp, simp)+
      done
  next
    case False
    with assms nn m show ?thesis
      apply (simp add: SyncMainContext_init_2_def setter_defs poke_eq deref_mem_upd flag_defs)
      apply (intro conjI impI exI)
        apply (rule refl, simp, simp)
      done
  qed
qed


lemma InitReason_new_expert:
  assumes "deref s ec = Some e" and "programId e = 0"
  shows "\<exists>ir ds. InitReason h s ec sec PT_EXPERT name ur symb isT isV hc dC dX dY
            = Some (ir, 0, s\<lparr>diagnostics := diagnostics s @ ds\<rparr>)
         \<and> (ds = [] \<or> ds = [L_ERROR ERR_ILLEGAL_STATE])"
proof -
  have *: "\<exists>ir ds. Some (r, (0::uint), s\<lparr>diagnostics := diagnostics s @ d\<rparr>)
              = Some (ir, 0, s\<lparr>diagnostics := diagnostics s @ ds\<rparr>)
            \<and> (ds = [] \<or> ds = [L_ERROR ERR_ILLEGAL_STATE])"
    if "d = [] \<or> d = [L_ERROR ERR_ILLEGAL_STATE]" for r d
    using that by blast
  have **: "\<exists>ir ds. Some (r, (0::uint), s) = Some (ir, 0, s\<lparr>diagnostics := diagnostics s @ ds\<rparr>)
            \<and> (ds = [] \<or> ds = [L_ERROR ERR_ILLEGAL_STATE])" for r
    using * [of "[]" r] by simp
  show ?thesis
    using assms * [of "[L_ERROR ERR_ILLEGAL_STATE]"] **
    by (cases ur) (simp_all add: InitReason_def InitReason_expert_def error_def)
qed

lemma FindWindowHandle_given:
  assumes "hc \<noteq> NULL \<or> (isT \<and> \<not> isV)"
  shows "FindWindowHandle h s hc NULL mt symb per isT isV = Some (hc, s)"
  using assms by (auto simp: FindWindowHandle_def)

lemma init_3_total:
  assumes e: "deref s ec = Some e"
    and cur: "unat (programId e) < length (g_contextChains s)"
    and last: "lastId \<noteq> 0" "unat lastId < length (g_contextChains s)"
      "unat (programId e) \<noteq> unat lastId"
    and L: "L = g_contextChains s ! unat lastId" "L \<noteq> []"
    and lm: "L ! 0 \<noteq> ec" "L ! 0 \<notin> set (drop 2 L)" "deref s (L ! 0) = Some lm" "initCycle lm"
    and libs: "\<forall>p \<in> set (drop 2 L). p \<noteq> NULL \<longrightarrow> p \<noteq> ec \<and> deref s p \<noteq> None"
      "distinct (filter (\<lambda>p. p \<noteq> NULL) (drop 2 L))"
  shows "\<exists>s'. SyncMainContext_init_3 h s ec True True lastId = Some s'
     \<and> g_contextChains s' = (g_contextChains s)
          [unat lastId := take 2 L @ map (\<lambda>p. if marked s p then NULL else p) (drop 2 L),
           unat (programId e) := g_contextChains s ! unat (programId e) @ filter (marked s) (drop 2 L)]
     \<and> memory s' = (\<lambda>p. if p = L ! 0 then Some (lm\<lparr>initCycle := False\<rparr>)
                         else if p \<in> set (drop 2 L) \<and> marked s p
                          then map_option (adopted e) (memory s p) else memory s p)
     \<and> diagnostics s' = diagnostics s
          @ replicate (length (filter (\<lambda>p. p = NULL) (drop 2 L))) (L_WARN ERR_ILLEGAL_STATE)
     \<and> g_threads s' = g_threads s \<and> g_threadsPrograms s' = g_threadsPrograms s
     \<and> g_lastUIThreadProgram s' = g_lastUIThreadProgram s"
proof -
  have nn: "L ! 0 \<noteq> NULL" and mlm: "memory s (L ! 0) = Some lm"
    using lm(3) by (auto simp: deref_def split: if_splits)
  have slot0: "chain_slot s lastId 0 = Some (L ! 0)"
    using last L by (simp add: chain_slot_def)
  from reassign_loop_total [OF refl e last(2) cur last(3) refl, of 2]
    libs L(1)
  obtain s1 where s1: "reassign_loop ec (programId e) lastId 2 (length L) s = Some s1"
    "g_contextChains s1 = (g_contextChains s)
          [unat lastId := take 2 L @ map (\<lambda>p. if marked s p then NULL else p) (drop 2 L),
           unat (programId e) := g_contextChains s ! unat (programId e) @ filter (marked s) (drop 2 L)]"
    "memory s1 = (\<lambda>p. if p \<in> set (drop 2 L) \<and> marked s p
                          then map_option (adopted e) (memory s p) else memory s p)"
    "diagnostics s1 = diagnostics s
          @ replicate (length (filter (\<lambda>p. p = NULL) (drop 2 L))) (L_WARN ERR_ILLEGAL_STATE)"
    "g_threads s1 = g_threads s" "g_threadsPrograms s1 = g_threadsPrograms s"
    "g_lastUIThreadProgram s1 = g_lastUIThreadProgram s"
    by auto
  have d1: "deref s1 (L ! 0) = Some lm"
    using nn mlm lm(2) by (simp add: deref_def s1(3))
  let ?s' = "s1\<lparr>memory := (memory s1)(L ! 0 \<mapsto> lm\<lparr>initCycle := False\<rparr>)\<rparr>"
  have run: "SyncMainContext_init_3 h s ec True True lastId = Some ?s'"
    using e cur last slot0 nn lm(3,4) s1(1) d1 L(1)
    by (simp add: SyncMainContext_init_3_def poke_eq)
  show ?thesis
    using run s1(2-) by (intro exI [of _ ?s']) (auto simp: fun_eq_iff)
qed


text \<open>
  C7. The main module of a new expert is initialised in the tester: valid arguments, no
  super context, the terminal reports testing, and the chart handle is either set or not
  needed (visual mode off); the record of the expert has no program id; the allocator
  returns unused memory; the registry holds fewer than \<open>2 ^ 32\<close> chains. The current
  thread is known to the tracker and its last program \<open>lastId\<close> is not 0 and has a
  chain \<open>L\<close> whose master is readable and marked for the init cycle. The libraries in
  \<open>L\<close> (the slots from index 2 on) that are not null are readable, different from each
  other, from the master of \<open>L\<close> and from the record of the expert.

  Then the call returns \<^verbatim>\<open>TRUE\<close>. The expert gets the index of the new chain as its
  program id. In \<open>L\<close> every library slot whose record is marked becomes \<^verbatim>\<open>NULL\<close> and the
  other slots are as before; the new chain is the new master, the expert's record and
  then the marked libraries in their order. The record of every marked library differs
  from what it was in the fields \<open>adopted\<close> writes: the program id, visual mode,
  optimization, logging, custom log file and the two chart handles are those of the
  expert's record, and the init-cycle mark is cleared; the records of the other
  libraries are unchanged. The master of \<open>L\<close> has its init-cycle mark cleared. One warning
  \<^verbatim>\<open>ERR_ILLEGAL_STATE\<close> is emitted for each empty library slot, after what the init-reason
  resolver reported.
\<close>

theorem expert_reattaches_libraries:
  assumes ptr: "MIN_VALID_POINTER h \<le> ec" "MIN_VALID_POINTER h \<le> fst name"
      "MIN_VALID_POINTER h \<le> fst symb" "0 < sint period"
    and new: "deref s ec = Some e" "programId e = 0"
    and chart: "hc \<noteq> INVALID_HWND" "hc \<noteq> NULL \<or> \<not> isV"
    and alloc: "operator_new h \<noteq> NULL" "memory s (operator_new h) = None"
    and size: "length (g_contextChains s) < 2 ^ 32"
    and thread: "k < length (g_threads s)" "g_threads s ! k = GetCurrentThreadId h"
      "\<forall>j<k. g_threads s ! j \<noteq> GetCurrentThreadId h" "k < length (g_threadsPrograms s)"
    and last: "lastId = g_threadsPrograms s ! k" "lastId \<noteq> 0"
      "unat lastId < length (g_contextChains s)"
    and L: "L = g_contextChains s ! unat lastId" "L \<noteq> []"
    and lm: "L ! 0 \<noteq> ec" "L ! 0 \<notin> set (drop 2 L)" "deref s (L ! 0) = Some lm" "initCycle lm"
    and libs: "\<forall>p \<in> set (drop 2 L). p \<noteq> NULL \<longrightarrow> p \<noteq> ec \<and> deref s p \<noteq> None"
      "distinct (filter (\<lambda>p. p \<noteq> NULL) (drop 2 L))"
  shows "\<exists>s' e' ds.
       SyncMainContext_init h s ec PT_EXPERT name ur iF dF symb period NULL True isV isO hc dC dX dY
         = Some (True, s')
     \<and> deref s' ec = Some e' \<and> programId e' = of_nat (length (g_contextChains s))
     \<and> g_contextChains s'
         = (g_contextChains s)
             [unat lastId := take 2 L @ map (\<lambda>p. if marked s p then NULL else p) (drop 2 L)]
           @ [[operator_new h, ec] @ filter (marked s) (drop 2 L)]
     \<and> (\<forall>p \<in> set (drop 2 L).
           deref s' p = (if marked s p then map_option (adopted e') (deref s p) else deref s p))
     \<and> deref s' (L ! 0) = Some (lm\<lparr>initCycle := False\<rparr>)
     \<and> diagnostics s' = diagnostics s @ ds
         @ replicate (length (filter (\<lambda>p. p = NULL) (drop 2 L))) (L_WARN ERR_ILLEGAL_STATE)
     \<and> (ds = [] \<or> ds = [L_ERROR ERR_ILLEGAL_STATE])"
proof -
  let ?N = "length (g_contextChains s)"
  let ?new = "operator_new h"
  let ?nid = "of_nat ?N :: uint"
  have nn: "ec \<noteq> NULL" and m: "memory s ec = Some e"
    using new(1) by (auto simp: deref_def split: if_splits)
  have ne: "?new \<noteq> ec"
    using alloc(2) m by auto
  have unid: "unat ?nid = ?N"
    using size by (simp add: unat_of_nat)
  have lm0: "L ! 0 \<noteq> NULL" "memory s (L ! 0) = Some lm" "L ! 0 \<noteq> ?new"
    using lm(3) alloc(2) by (auto simp: deref_def split: if_splits)
  have lib_mem: "p \<noteq> ec \<and> p \<noteq> ?new \<and> memory s p \<noteq> None"
    if "p \<in> set (drop 2 L)" "p \<noteq> NULL" for p
    using libs(1) that alloc(2) by (auto simp: deref_def split: if_splits)
  \<comment> \<open>the init reason and the window handle\<close>
  from InitReason_new_expert [OF new, of h NULL "snd name" ur "snd symb" True isV hc dC dX dY]
  obtain ir ds where ir: "InitReason h s ec NULL PT_EXPERT (snd name) ur (snd symb) True isV hc dC dX dY
            = Some (ir, 0, s\<lparr>diagnostics := diagnostics s @ ds\<rparr>)"
    and ds: "ds = [] \<or> ds = [L_ERROR ERR_ILLEGAL_STATE]"
    by blast
  let ?s2 = "s\<lparr>diagnostics := diagnostics s @ ds\<rparr>"
  have fw: "FindWindowHandle h ?s2 hc NULL (ModuleType_of PT_EXPERT) (snd symb) period True isV
              = Some (hc, ?s2)"
    using chart(2) by (intro FindWindowHandle_given) auto
  \<comment> \<open>section (1): the new chain\<close>
  let ?e1 = "e\<lparr>programId := ?nid\<rparr>"
  let ?s4 = "?s2\<lparr>g_contextChains := g_contextChains s @ [[?new, ec]],
                 memory := (memory s)(ec \<mapsto> ?e1, ?new \<mapsto> ?e1),
                 g_threadsPrograms := (g_threadsPrograms s)[k := ?nid]\<rparr>"
  have s4: "SyncMainContext_init_1 h ?s2 ec PT_EXPERT ir 0 NULL = Some ((NULL, lastId, True), ?s4)"
    using init_1_new_expert [of ?s2 ec e h k ir NULL] new alloc thread last(1) nn m
    by (simp add: deref_def)
  have e4: "deref ?s4 ec = Some ?e1"
    using nn ne by (simp add: deref_def)
  \<comment> \<open>section (2): the fields of the main context\<close>
  from init_2_expert [OF e4, of h "snd name" ir ur iF dF "snd symb" period True isV isO hc]
  obtain s5 e2 where s5: "SyncMainContext_init_2 h ?s4 ec PT_EXPERT (snd name) ir ur iF dF
        (snd symb) period NULL True isV isO hc = Some ((True, isV, isO), s5)"
    and s5_eq: "s5 = ?s4\<lparr>memory := (memory ?s4)(ec \<mapsto> e2)\<rparr>"
    and e2: "programId e2 = ?nid"
    by auto
  have c5: "g_contextChains s5 = g_contextChains s @ [[?new, ec]]"
    and d5: "diagnostics s5 = diagnostics s @ ds"
    and m5: "memory s5 = (memory s)(ec \<mapsto> e2, ?new \<mapsto> ?e1)"
    using ne by (auto simp: s5_eq fun_eq_iff)
  have e5: "deref s5 ec = Some e2"
    using nn by (simp add: deref_def m5 ne [symmetric])
  have same5: "deref s5 p = deref s p \<and> marked s5 p = marked s p"
    if "p = NULL \<or> (p \<noteq> ec \<and> p \<noteq> ?new)" for p
    using that by (auto simp: deref_def marked_def m5)
  have libs5: "deref s5 p = deref s p \<and> marked s5 p = marked s p" if "p \<in> set (drop 2 L)" for p
    using lib_mem [OF that] same5 [of p] by blast
  \<comment> \<open>section (3): the libraries of the last program\<close>
  have L5: "L = g_contextChains s5 ! unat lastId"
    using last(3) L(1) by (simp add: c5 nth_append)
  have "\<exists>s'. SyncMainContext_init_3 h s5 ec True True lastId = Some s'
     \<and> g_contextChains s' = (g_contextChains s5)
          [unat lastId := take 2 L @ map (\<lambda>p. if marked s5 p then NULL else p) (drop 2 L),
           unat (programId e2) := g_contextChains s5 ! unat (programId e2) @ filter (marked s5) (drop 2 L)]
     \<and> memory s' = (\<lambda>p. if p = L ! 0 then Some (lm\<lparr>initCycle := False\<rparr>)
                         else if p \<in> set (drop 2 L) \<and> marked s5 p
                          then map_option (adopted e2) (memory s5 p) else memory s5 p)
     \<and> diagnostics s' = diagnostics s5
          @ replicate (length (filter (\<lambda>p. p = NULL) (drop 2 L))) (L_WARN ERR_ILLEGAL_STATE)
     \<and> g_threads s' = g_threads s5 \<and> g_threadsPrograms s' = g_threadsPrograms s5
     \<and> g_lastUIThreadProgram s' = g_lastUIThreadProgram s5"
  proof (rule init_3_total [OF e5 _ last(2) _ _ L5 L(2) lm(1,2) _ lm(4)])
    show "unat (programId e2) < length (g_contextChains s5)"
      by (simp add: e2 unid c5)
    show "unat lastId < length (g_contextChains s5)"
      using last(3) by (simp add: c5)
    show "unat (programId e2) \<noteq> unat lastId"
      using last(3) by (simp add: e2 unid)
    show "deref s5 (L ! 0) = Some lm"
      using same5 [of "L ! 0"] lm(1,3) lm0(3) by simp
    show "\<forall>p\<in>set (drop 2 L). p \<noteq> NULL \<longrightarrow> p \<noteq> ec \<and> deref s5 p \<noteq> None"
      using libs(1) libs5 by auto
    show "distinct (filter (\<lambda>p. p \<noteq> NULL) (drop 2 L))"
      by (rule libs(2))
  qed
  then obtain s' where s': "SyncMainContext_init_3 h s5 ec True True lastId = Some s'"
    and c': "g_contextChains s' = (g_contextChains s5)
          [unat lastId := take 2 L @ map (\<lambda>p. if marked s5 p then NULL else p) (drop 2 L),
           unat (programId e2) := g_contextChains s5 ! unat (programId e2) @ filter (marked s5) (drop 2 L)]"
    and m': "memory s' = (\<lambda>p. if p = L ! 0 then Some (lm\<lparr>initCycle := False\<rparr>)
                         else if p \<in> set (drop 2 L) \<and> marked s5 p
                          then map_option (adopted e2) (memory s5 p) else memory s5 p)"
    and d': "diagnostics s' = diagnostics s5
          @ replicate (length (filter (\<lambda>p. p = NULL) (drop 2 L))) (L_WARN ERR_ILLEGAL_STATE)"
    by blast
  have mapeq: "map (\<lambda>p. if marked s5 p then NULL else p) (drop 2 L)
             = map (\<lambda>p. if marked s p then NULL else p) (drop 2 L)"
    using libs5 by (intro map_cong) simp_all
  have fileq: "filter (marked s5) (drop 2 L) = filter (marked s) (drop 2 L)"
    using libs5 by (intro filter_cong) simp_all
  \<comment> \<open>the whole call\<close>
  have run: "SyncMainContext_init h s ec PT_EXPERT name ur iF dF symb period NULL True isV isO hc dC dX dY
         = Some (True, s')"
    using ptr new chart(1) ir fw s4 s5 s'
    by (simp add: SyncMainContext_init_def not_less not_le)
  have q_ec: "deref s' ec = Some e2"
  proof -
    have "ec \<notin> set (drop 2 L)"
      using libs(1) nn by auto
    then show ?thesis
      using lm(1) nn e5 by (auto simp: deref_def m' split: if_splits)
  qed
  have q_chains: "g_contextChains s'
         = (g_contextChains s)
             [unat lastId := take 2 L @ map (\<lambda>p. if marked s p then NULL else p) (drop 2 L)]
           @ [[?new, ec] @ filter (marked s) (drop 2 L)]"
    using last(3) by (simp add: c' c5 e2 unid mapeq fileq list_update_append nth_append)
  have q_libs: "\<forall>p \<in> set (drop 2 L).
           deref s' p = (if marked s p then map_option (adopted e2) (deref s p) else deref s p)"
  proof
    fix p assume p: "p \<in> set (drop 2 L)"
    then have p0: "p \<noteq> L ! 0" using lm(2) by auto
    show "deref s' p = (if marked s p then map_option (adopted e2) (deref s p) else deref s p)"
    proof (cases "p = NULL")
      case True
      then show ?thesis by (simp add: deref_def)
    next
      case False
      have "memory s5 p = memory s p"
        using lib_mem [OF p False] by (simp add: m5)
      with p p0 False libs5 [OF p] show ?thesis
        by (simp add: deref_def m')
    qed
  qed
  have q_lm: "deref s' (L ! 0) = Some (lm\<lparr>initCycle := False\<rparr>)"
    using lm0(1) by (simp add: deref_def m')
  have q_diag: "diagnostics s' = diagnostics s @ ds
         @ replicate (length (filter (\<lambda>p. p = NULL) (drop 2 L))) (L_WARN ERR_ILLEGAL_STATE)"
    by (simp add: d' d5)
  from run q_ec e2 q_chains q_libs q_lm q_diag ds show ?thesis
    by blast
qed

lemma second_test_marked:
  "marked second_test 0x600000" "\<not> marked second_test 0x610000"
  by (simp_all add: marked_def second_test_def deref_def old_context_def)

theorem expert_reattaches_libraries_witness:
  "deref second_test 0x200000 = Some zero_context
   \<and> programId zero_context = 0
   \<and> g_threads second_test ! 0 = GetCurrentThreadId tester_host
   \<and> g_threadsPrograms second_test ! 0 = 1
   \<and> g_contextChains second_test ! 1 = [0x400000, NULL, 0x600000, NULL, 0x610000]
   \<and> deref second_test 0x400000 = Some (old_context MT_EXPERT True)
   \<and> initCycle (old_context MT_EXPERT True)
   \<and> marked second_test 0x600000
   \<and> \<not> marked second_test 0x610000
   \<and> (\<exists>s' e'.
        SyncMainContext_init tester_host second_test 0x200000 PT_EXPERT (0x700000, ''Expert'')
          UR_UNDEFINED 0 0 (0x710000, ''EURUSD'') 60 NULL True False False NULL 0 0 0
          = Some (True, s')
      \<and> deref s' 0x200000 = Some e' \<and> programId e' = 2
      \<and> g_contextChains s' = [[], [0x400000, NULL, NULL, NULL, 0x610000],
                                [0x500000, 0x200000, 0x600000]]
      \<and> deref s' 0x600000 = Some (adopted e' (old_context MT_LIBRARY True))
      \<and> deref s' 0x610000 = Some (old_context MT_LIBRARY False)
      \<and> deref s' 0x400000 = Some (old_context MT_EXPERT False)
      \<and> L_WARN ERR_ILLEGAL_STATE \<in> set (diagnostics s'))"
proof -
  let ?s = second_test
  let ?L = "[0x400000, NULL, 0x600000, NULL, 0x610000] :: pointer list"
  have L: "?L = g_contextChains ?s ! unat (1 :: uint)"
    by (simp add: second_test_def)
  have ec: "deref ?s 0x200000 = Some zero_context" "programId zero_context = 0"
    by (simp_all add: second_test_def deref_def zero_context_def)
  have lm: "deref ?s (?L ! 0) = Some (old_context MT_EXPERT True)"
      "initCycle (old_context MT_EXPERT True)"
    by (simp_all add: second_test_def deref_def old_context_def)
  have libs: "\<forall>p \<in> set (drop 2 ?L). p \<noteq> NULL \<longrightarrow> p \<noteq> 0x200000 \<and> deref ?s p \<noteq> None"
    by (simp add: second_test_def deref_def)
  have thread: "\<forall>j<0. g_threads ?s ! j \<noteq> GetCurrentThreadId tester_host"
    by simp
  have "\<exists>s' e' ds.
       SyncMainContext_init tester_host ?s 0x200000 PT_EXPERT (0x700000, ''Expert'')
          UR_UNDEFINED 0 0 (0x710000, ''EURUSD'') 60 NULL True False False NULL 0 0 0
         = Some (True, s')
     \<and> deref s' 0x200000 = Some e' \<and> programId e' = of_nat (length (g_contextChains ?s))
     \<and> g_contextChains s'
         = (g_contextChains ?s)
             [unat (1 :: uint) := take 2 ?L @ map (\<lambda>p. if marked ?s p then NULL else p) (drop 2 ?L)]
           @ [[operator_new tester_host, 0x200000] @ filter (marked ?s) (drop 2 ?L)]
     \<and> (\<forall>p \<in> set (drop 2 ?L).
           deref s' p = (if marked ?s p then map_option (adopted e') (deref ?s p) else deref ?s p))
     \<and> deref s' (?L ! 0) = Some ((old_context MT_EXPERT True)\<lparr>initCycle := False\<rparr>)
     \<and> diagnostics s' = diagnostics ?s @ ds
         @ replicate (length (filter (\<lambda>p. p = NULL) (drop 2 ?L))) (L_WARN ERR_ILLEGAL_STATE)
     \<and> (ds = [] \<or> ds = [L_ERROR ERR_ILLEGAL_STATE])"
  proof (rule expert_reattaches_libraries [where k = 0 and e = zero_context, OF _ _ _ _ ec _ _ _ _ _ _ _ thread _ _ _ _ L _ _ _ lm libs])
    show "MIN_VALID_POINTER tester_host \<le> 0x200000"
      "MIN_VALID_POINTER tester_host \<le> fst (0x700000 :: pointer, ''Expert'')"
      "MIN_VALID_POINTER tester_host \<le> fst (0x710000 :: pointer, ''EURUSD'')"
      by (simp_all add: tester_host_def ui_host_def)
    show "0 < sint (60 :: uint)" by simp
    show "(NULL :: HWND) \<noteq> INVALID_HWND" by simp
    show "(NULL :: HWND) \<noteq> NULL \<or> \<not> False" by simp
    show "operator_new tester_host \<noteq> NULL" "memory ?s (operator_new tester_host) = None"
      by (simp_all add: tester_host_def ui_host_def second_test_def)
    show "length (g_contextChains ?s) < 2 ^ 32" by (simp add: second_test_def)
    show "0 < length (g_threads ?s)" "g_threads ?s ! 0 = GetCurrentThreadId tester_host"
      "0 < length (g_threadsPrograms ?s)" "(1 :: uint) = g_threadsPrograms ?s ! 0"
      by (simp_all add: second_test_def tester_host_def ui_host_def)
    show "(1 :: uint) \<noteq> 0" "unat (1 :: uint) < length (g_contextChains ?s)"
      by (simp_all add: second_test_def)
    show "?L \<noteq> []" "?L ! 0 \<noteq> 0x200000" "?L ! 0 \<notin> set (drop 2 ?L)"
      "distinct (filter (\<lambda>p. p \<noteq> NULL) (drop 2 ?L))"
      by simp_all
  qed
  then obtain s' e' ds where r:
    "SyncMainContext_init tester_host ?s 0x200000 PT_EXPERT (0x700000, ''Expert'')
          UR_UNDEFINED 0 0 (0x710000, ''EURUSD'') 60 NULL True False False NULL 0 0 0
         = Some (True, s')"
    "deref s' 0x200000 = Some e'" "programId e' = of_nat (length (g_contextChains ?s))"
    "g_contextChains s'
         = (g_contextChains ?s)
             [unat (1 :: uint) := take 2 ?L @ map (\<lambda>p. if marked ?s p then NULL else p) (drop 2 ?L)]
           @ [[operator_new tester_host, 0x200000] @ filter (marked ?s) (drop 2 ?L)]"
    "\<forall>p \<in> set (drop 2 ?L).
           deref s' p = (if marked ?s p then map_option (adopted e') (deref ?s p) else deref ?s p)"
    "deref s' (?L ! 0) = Some ((old_context MT_EXPERT True)\<lparr>initCycle := False\<rparr>)"
    "diagnostics s' = diagnostics ?s @ ds
         @ replicate (length (filter (\<lambda>p. p = NULL) (drop 2 ?L))) (L_WARN ERR_ILLEGAL_STATE)"
    by blast
  have pid: "programId e' = 2"
    using r(3) by (simp add: second_test_def)
  have chains: "g_contextChains s' = [[], [0x400000, NULL, NULL, NULL, 0x610000],
                                [0x500000, 0x200000, 0x600000]]"
    using r(4) by (simp add: second_test_marked tester_host_def ui_host_def)
      (simp add: second_test_def)
  have libA: "deref s' 0x600000 = Some (adopted e' (old_context MT_LIBRARY True))"
    using r(5) by (simp add: second_test_marked) (simp add: second_test_def deref_def)
  have libB: "deref s' 0x610000 = Some (old_context MT_LIBRARY False)"
    using r(5) by (simp add: second_test_marked) (simp add: second_test_def deref_def)
  have master: "deref s' 0x400000 = Some (old_context MT_EXPERT False)"
    using r(6) by (simp add: old_context_def)
  have warned: "L_WARN ERR_ILLEGAL_STATE \<in> set (diagnostics s')"
    using r(7) by simp
  from r(1,2) pid chains libA libB master warned ec lm second_test_marked show ?thesis
    by (simp add: second_test_def tester_host_def ui_host_def)
qed

section \<open>The effective flags: properties\<close>

lemma init_2_nested:
  assumes "deref s ec = Some e" and "ticks e = 0" and "sec \<noteq> NULL"
    and "deref s sec = Some super"
  shows "\<exists>s' e'. SyncMainContext_init_2 h s ec pt name ir ur iF dF symb per sec isT isV isO hc
             = Some ((testing super, visualMode super, optimization super), s')
      \<and> deref s' ec = Some e'
      \<and> superContext e' = sec
      \<and> testing e' = testing super \<and> visualMode e' = visualMode super
      \<and> optimization e' = optimization super \<and> logging e' = logging super
      \<and> customLogFile e' = customLogFile super"
proof -
  have nn: "ec \<noteq> NULL" and m: "memory s ec = Some e"
    using assms(1) by (auto simp: deref_def split: if_splits)
  have ms: "memory s sec = Some super"
    using assms(3,4) by (auto simp: deref_def split: if_splits)
  show ?thesis
  proof (cases "sec = ec")
    case True
    with m ms have "super = e" by simp
    with True assms nn m show ?thesis
      by (simp add: SyncMainContext_init_2_def setter_defs poke_eq deref_mem_upd flag_defs)
  next
    case False
    with assms nn m ms show ?thesis
      by (simp add: SyncMainContext_init_2_def setter_defs poke_eq deref_mem_upd flag_defs)
  qed
qed

text \<open>
  C5. For a record whose super context is set (and readable), the five functions that
  compute the effective values of testing, visual mode, optimization, logging and the
  custom log file return the values stored in the super context, whatever flags the
  terminal passed, and report nothing. Section (2) of \<^verbatim>\<open>SyncMainContext_init\<close>, at the
  first call of init (\<^verbatim>\<open>ticks\<close> is 0) with a super context, stores the super context in
  the record and these five values of the super context with it, and hands the inherited
  testing, visual mode and optimization on as the locals of the call.
\<close>

theorem nested_flags:
  "(deref s ec = Some e \<and> superContext e \<noteq> NULL \<and> deref s (superContext e) = Some super \<longrightarrow>
      ProgramIsTesting h s ec isTesting = Some (testing super, s)
      \<and> ProgramIsVisualMode h s ec isVisualMode = Some (visualMode super, s)
      \<and> ProgramIsOptimization h s ec isOptimization = Some (optimization super, s)
      \<and> ProgramIsLogging h s ec = Some (logging super, s)
      \<and> ProgramCustomLogFile h s ec = Some (customLogFile super, s))
   \<and> (deref s ec = Some e \<and> ticks e = 0 \<and> sec \<noteq> NULL \<and> deref s sec = Some super \<longrightarrow>
      (\<exists>s' e'. SyncMainContext_init_2 h s ec pt name ir ur iF dF symb per sec
                  isTesting isVisualMode isOptimization hc
                = Some ((testing super, visualMode super, optimization super), s')
         \<and> deref s' ec = Some e' \<and> superContext e' = sec
         \<and> testing e' = testing super \<and> visualMode e' = visualMode super
         \<and> optimization e' = optimization super \<and> logging e' = logging super
         \<and> customLogFile e' = customLogFile super))"
proof (rule conjI; rule impI)
  assume "deref s ec = Some e \<and> superContext e \<noteq> NULL \<and> deref s (superContext e) = Some super"
  then show "ProgramIsTesting h s ec isTesting = Some (testing super, s)
      \<and> ProgramIsVisualMode h s ec isVisualMode = Some (visualMode super, s)
      \<and> ProgramIsOptimization h s ec isOptimization = Some (optimization super, s)
      \<and> ProgramIsLogging h s ec = Some (logging super, s)
      \<and> ProgramCustomLogFile h s ec = Some (customLogFile super, s)"
    by (simp add: flag_defs)
next
  assume "deref s ec = Some e \<and> ticks e = 0 \<and> sec \<noteq> NULL \<and> deref s sec = Some super"
  then show "\<exists>s' e'. SyncMainContext_init_2 h s ec pt name ir ur iF dF symb per sec
                  isTesting isVisualMode isOptimization hc
                = Some ((testing super, visualMode super, optimization super), s')
         \<and> deref s' ec = Some e' \<and> superContext e' = sec
         \<and> testing e' = testing super \<and> visualMode e' = visualMode super
         \<and> optimization e' = optimization super \<and> logging e' = logging super
         \<and> customLogFile e' = customLogFile super"
    using init_2_nested [of s ec e sec super] by blast
qed

theorem nested_flags_witness:
  "deref nested_state 0x200000 = Some nested_context
   \<and> superContext nested_context \<noteq> NULL
   \<and> deref nested_state (superContext nested_context) = Some super_context
   \<and> ProgramIsTesting ui_host nested_state 0x200000 False = Some (True, nested_state)
   \<and> ProgramIsVisualMode ui_host nested_state 0x200000 False = Some (True, nested_state)
   \<and> ProgramIsOptimization ui_host nested_state 0x200000 True = Some (False, nested_state)
   \<and> ProgramIsLogging ui_host nested_state 0x200000 = Some (True, nested_state)
   \<and> ProgramCustomLogFile ui_host nested_state 0x200000 = Some (Some ''expert.log'', nested_state)
   \<and> ticks nested_context = 0
   \<and> (0x280000 :: pointer) \<noteq> NULL
   \<and> deref nested_state 0x280000 = Some super_context
   \<and> (\<exists>s' e'. SyncMainContext_init_2 ui_host nested_state 0x200000 PT_INDICATOR ''Trend''
                  (Some IR_PROGRAM) UR_UNDEFINED 0 0 ''EURUSD'' 60 0x280000 False False True 0x3000
                = Some ((True, True, False), s')
         \<and> deref s' 0x200000 = Some e' \<and> superContext e' = 0x280000
         \<and> testing e' \<and> visualMode e' \<and> \<not> optimization e' \<and> logging e'
         \<and> customLogFile e' = Some ''expert.log'')"
proof -
  have a: "deref nested_state 0x200000 = Some nested_context"
    by (simp add: nested_state_def deref_def)
  have b: "superContext nested_context \<noteq> NULL" "superContext nested_context = 0x280000"
    "ticks nested_context = 0"
    by (simp_all add: nested_context_def zero_context_def)
  have c: "deref nested_state 0x280000 = Some super_context"
    by (simp add: nested_state_def deref_def)
  have v: "testing super_context" "visualMode super_context" "\<not> optimization super_context"
    "logging super_context" "customLogFile super_context = Some ''expert.log''"
    by (simp_all add: super_context_def zero_context_def)
  note th = nested_flags [of nested_state "0x200000" nested_context super_context ui_host
      False False True "0x280000" PT_INDICATOR "''Trend''" "Some IR_PROGRAM" UR_UNDEFINED 0 0
      "''EURUSD''" 60 "0x3000"]
  have 1: "ProgramIsTesting ui_host nested_state 0x200000 False = Some (True, nested_state)
   \<and> ProgramIsVisualMode ui_host nested_state 0x200000 False = Some (True, nested_state)
   \<and> ProgramIsOptimization ui_host nested_state 0x200000 True = Some (False, nested_state)
   \<and> ProgramIsLogging ui_host nested_state 0x200000 = Some (True, nested_state)
   \<and> ProgramCustomLogFile ui_host nested_state 0x200000 = Some (Some ''expert.log'', nested_state)"
    using th [THEN conjunct1] a b c v by simp
  have 2: "\<exists>s' e'. SyncMainContext_init_2 ui_host nested_state 0x200000 PT_INDICATOR ''Trend''
                  (Some IR_PROGRAM) UR_UNDEFINED 0 0 ''EURUSD'' 60 0x280000 False False True 0x3000
                = Some ((True, True, False), s')
         \<and> deref s' 0x200000 = Some e' \<and> superContext e' = 0x280000
         \<and> testing e' \<and> visualMode e' \<and> \<not> optimization e' \<and> logging e'
         \<and> customLogFile e' = Some ''expert.log''"
    using th [THEN conjunct2] a b c v by simp
  from 1 2 a b c show ?thesis
    by simp
qed

section \<open>Program ids and the growth of the registry: properties\<close>

lemma steady_refl [simp]: "steady s s"
  by (simp add: steady_def)

lemma steady_trans: "steady s s1 \<Longrightarrow> steady s1 s2 \<Longrightarrow> steady s s2"
  by (simp add: steady_def)

lemma steady_diagnostics [simp]: "steady s (s\<lparr>diagnostics := d\<rparr>)"
  by (simp add: steady_def)

lemma poke_Some_iff:
  "poke s p f = Some s' \<longleftrightarrow> (\<exists>e. deref s p = Some e \<and> s' = s\<lparr>memory := (memory s)(p \<mapsto> f e)\<rparr>)"
  by (auto simp: poke_def split: option.splits)

lemma StoreThreadAndProgram_run:
  "StoreThreadAndProgram h s pid = Some (i, s') \<Longrightarrow>
     g_contextChains s' = g_contextChains s \<and> memory s' = memory s"
  by (auto simp: StoreThreadAndProgram_def error_def debug_def Let_def
      split: if_splits option.splits prod.splits)

lemma flags_run:
  "ProgramIsTesting h s ec t = Some (b, s') \<Longrightarrow> \<exists>ds. s' = s\<lparr>diagnostics := diagnostics s @ ds\<rparr>"
  "ProgramIsVisualMode h s ec v = Some (b, s') \<Longrightarrow> \<exists>ds. s' = s\<lparr>diagnostics := diagnostics s @ ds\<rparr>"
  "ProgramIsOptimization h s ec v = Some (b, s') \<Longrightarrow> \<exists>ds. s' = s\<lparr>diagnostics := diagnostics s @ ds\<rparr>"
  "ProgramIsLogging h s ec = Some (b, s') \<Longrightarrow> \<exists>ds. s' = s\<lparr>diagnostics := diagnostics s @ ds\<rparr>"
  "ProgramCustomLogFile h s ec = Some (f, s') \<Longrightarrow> \<exists>ds. s' = s\<lparr>diagnostics := diagnostics s @ ds\<rparr>"
proof -
  have a: "\<exists>ds. s = s\<lparr>diagnostics := diagnostics s @ ds\<rparr>"
    by (rule exI [of _ "[]"]) simp
  have b: "\<exists>ds. error s c = s\<lparr>diagnostics := diagnostics s @ ds\<rparr>" for c
    by (rule exI [of _ "[L_ERROR c]"]) (simp add: error_def)
  show "ProgramIsTesting h s ec t = Some (b, s') \<Longrightarrow> \<exists>ds. s' = s\<lparr>diagnostics := diagnostics s @ ds\<rparr>"
    using a b by (auto simp: ProgramIsTesting_def Let_def bind_eq_Some_conv
        split: if_splits option.splits ProgramType.splits)
  show "ProgramIsVisualMode h s ec v = Some (b, s') \<Longrightarrow> \<exists>ds. s' = s\<lparr>diagnostics := diagnostics s @ ds\<rparr>"
    using a b by (auto simp: ProgramIsVisualMode_def Let_def bind_eq_Some_conv
        split: if_splits option.splits ProgramType.splits)
  show "ProgramIsOptimization h s ec v = Some (b, s') \<Longrightarrow> \<exists>ds. s' = s\<lparr>diagnostics := diagnostics s @ ds\<rparr>"
    using a b by (auto simp: ProgramIsOptimization_def Let_def bind_eq_Some_conv
        split: if_splits option.splits ProgramType.splits)
  show "ProgramIsLogging h s ec = Some (b, s') \<Longrightarrow> \<exists>ds. s' = s\<lparr>diagnostics := diagnostics s @ ds\<rparr>"
    using a b by (auto simp: ProgramIsLogging_def Let_def bind_eq_Some_conv
        split: if_splits option.splits ProgramType.splits)
  show "ProgramCustomLogFile h s ec = Some (f, s') \<Longrightarrow> \<exists>ds. s' = s\<lparr>diagnostics := diagnostics s @ ds\<rparr>"
    using a b by (auto simp: ProgramCustomLogFile_def Let_def bind_eq_Some_conv
        split: if_splits option.splits ProgramType.splits)
qed

lemma InitReason_run:
  "InitReason h s ec sec pt name ur symb isT isV hc dC dX dY = Some (ir, orig, s')
   \<Longrightarrow> g_contextChains s' = g_contextChains s \<and> memory s' = memory s"
  by (cases pt; cases ur)
    (auto simp: InitReason_def InitReason_indicator_def InitReason_expert_def illegal_def
      error_def Let_def bind_eq_Some_conv split: if_splits)

lemma FindWindowHandle_run:
  "FindWindowHandle h s hc sec mt symb per isT isV = Some (hc1, s')
   \<Longrightarrow> g_contextChains s' = g_contextChains s \<and> memory s' = memory s"
  by (auto simp: FindWindowHandle_def bind_eq_Some_conv split: if_splits prod.splits)

lemma bind_SomeE:
  assumes "Option.bind m f = Some y"
  obtains x where "m = Some x" and "f x = Some y"
  using assms by (auto simp: bind_eq_Some_conv)

lemma poke_steady:
  "poke s p f = Some s' \<Longrightarrow> (\<And>e. programId (f e) = programId e) \<Longrightarrow> steady s s'"
  by (auto simp: poke_Some_iff steady_def deref_def split: if_splits)

lemma setters_steady:
  "ec_SetProgramType s ec v1 = Some s' \<Longrightarrow> steady s s'"
  "ec_SetProgramName s ec v2 = Some s' \<Longrightarrow> steady s s'"
  "ec_SetModuleType s ec v3 = Some s' \<Longrightarrow> steady s s'"
  "ec_SetModuleName s ec v2 = Some s' \<Longrightarrow> steady s s'"
  "ec_SetRootFunction s ec v4 = Some s' \<Longrightarrow> steady s s'"
  "ec_SetInitCycle s ec v5 = Some s' \<Longrightarrow> steady s s'"
  "ec_SetInitReason s ec v6 = Some s' \<Longrightarrow> steady s s'"
  "ec_SetUninitReason s ec v7 = Some s' \<Longrightarrow> steady s s'"
  "ec_SetTesting s ec v5 = Some s' \<Longrightarrow> steady s s'"
  "ec_SetVisualMode s ec v5 = Some s' \<Longrightarrow> steady s s'"
  "ec_SetOptimization s ec v5 = Some s' \<Longrightarrow> steady s s'"
  "ec_SetInitFlags s ec v8 = Some s' \<Longrightarrow> steady s s'"
  "ec_SetDeinitFlags s ec v8 = Some s' \<Longrightarrow> steady s s'"
  "ec_SetLogging s ec v5 = Some s' \<Longrightarrow> steady s s'"
  "ec_SetCustomLogFile s ec v9 = Some s' \<Longrightarrow> steady s s'"
  "ec_SetSymbol s ec v2 = Some s' \<Longrightarrow> steady s s'"
  "ec_SetTimeframe s ec v8 = Some s' \<Longrightarrow> steady s s'"
  "ec_SetHChart s ec v8 = Some s' \<Longrightarrow> steady s s'"
  "ec_SetHChartWindow s ec v8 = Some s' \<Longrightarrow> steady s s'"
  "ec_SetSuperContext s ec v8 = Some s' \<Longrightarrow> steady s s'"
  "ec_SetThreadId s ec v8 = Some s' \<Longrightarrow> steady s s'"
  "ec_SetTicks s ec v8 = Some s' \<Longrightarrow> steady s s'"
  "ec_SetPreviousTickTime s ec v8 = Some s' \<Longrightarrow> steady s s'"
  "ec_SetCurrentTickTime s ec v8 = Some s' \<Longrightarrow> steady s s'"
  "ec_SetMqlError s ec v10 = Some s' \<Longrightarrow> steady s s'"
  "ec_SetDllError s ec v10 = Some s' \<Longrightarrow> steady s s'"
  "ec_SetDllWarning s ec v10 = Some s' \<Longrightarrow> steady s s'"
  by (auto simp: setter_defs intro: poke_steady)

lemma flags_steady:
  "ProgramIsTesting h s ec t = Some (b, s') \<Longrightarrow> steady s s'"
  "ProgramIsVisualMode h s ec v = Some (b, s') \<Longrightarrow> steady s s'"
  "ProgramIsOptimization h s ec v = Some (b, s') \<Longrightarrow> steady s s'"
  "ProgramIsLogging h s ec = Some (b, s') \<Longrightarrow> steady s s'"
  "ProgramCustomLogFile h s ec = Some (f, s') \<Longrightarrow> steady s s'"
  by (auto dest!: flags_run)

lemma init_2_run:
  "SyncMainContext_init_2 h s ec pt name ir ur iF dF symb per sec isT isV isO hc = Some (x, s')
   \<Longrightarrow> steady s s'"
  unfolding SyncMainContext_init_2_def
  by (auto elim!: bind_SomeE dest!: setters_steady flags_steady simp: steady_def
      split: if_splits)


lemma kept_refl [simp]: "kept C C"
  by (simp add: kept_def)

lemma kept_trans: "kept C C1 \<Longrightarrow> kept C1 C2 \<Longrightarrow> kept C C2"
  unfolding kept_def by (metis le_trans less_le_trans)

lemma kept_append [simp]: "kept C (C @ D)"
  by (simp add: kept_def nth_append)

lemma kept_update_slot [simp]: "0 < i \<Longrightarrow> kept C (C[k := (C ! k)[i := p]])"
proof (cases "k < length C")
  case True
  assume "0 < i"
  then obtain i' where "i = Suc i'" by (cases i) auto
  with True show ?thesis
    by (auto simp: kept_def nth_list_update)
next
  case False
  then show ?thesis by (simp add: list_update_beyond)
qed

lemma kept_push_back [simp]: "kept C (C[k := C ! k @ [p]])"
proof (cases "k < length C")
  case True
  then show ?thesis
    by (auto simp: kept_def nth_list_update)
next
  case False
  then show ?thesis by (simp add: list_update_beyond)
qed

lemma set_chain_slot_Some_iff:
  "set_chain_slot s pid i p = Some s' \<longleftrightarrow>
     unat pid < length (g_contextChains s) \<and> i < length (g_contextChains s ! unat pid)
     \<and> s' = s\<lparr>g_contextChains :=
                (g_contextChains s)[unat pid := (g_contextChains s ! unat pid)[i := p]]\<rparr>"
  by (auto simp: set_chain_slot_def)

lemma chain_push_back_Some_iff:
  "chain_push_back s pid p = Some s' \<longleftrightarrow>
     unat pid < length (g_contextChains s)
     \<and> s' = s\<lparr>g_contextChains :=
                (g_contextChains s)[unat pid := g_contextChains s ! unat pid @ [p]]\<rparr>"
  by (auto simp: chain_push_back_def)

lemma StoreThreadAndProgram_steady:
  "StoreThreadAndProgram h s pid = Some (i, s') \<Longrightarrow> steady s s'"
  by (auto dest!: StoreThreadAndProgram_run simp: steady_def)

lemma InitReason_steady:
  "InitReason h s ec sec pt name ur symb isT isV hc dC dX dY = Some (ir, orig, s') \<Longrightarrow> steady s s'"
  by (auto dest!: InitReason_run simp: steady_def)

lemma FindWindowHandle_steady:
  "FindWindowHandle h s hc sec mt symb per isT isV = Some (hc1, s') \<Longrightarrow> steady s s'"
  by (auto dest!: FindWindowHandle_run simp: steady_def)

lemma steady_deref:
  "steady s s' \<Longrightarrow> deref s p = Some x \<Longrightarrow> \<exists>x'. deref s' p = Some x' \<and> programId x' = programId x"
  by (auto simp: steady_def deref_def split: if_splits dest!: spec [of _ p])

lemma init_1_1_run:
  assumes "SyncMainContext_init_1_1 s ec = Some s'"
  shows "kept (g_contextChains s) (g_contextChains s')
       \<and> length (g_contextChains s') = length (g_contextChains s)"
  using assms unfolding SyncMainContext_init_1_1_def
  by (auto elim!: bind_SomeE simp: set_chain_slot_Some_iff Let_def)

lemma init_1_2_run:
  assumes "SyncMainContext_init_1_2 h s ec pt = Some (l, b, s')"
  shows "g_contextChains s' = g_contextChains s @ [[operator_new h, ec]]
       \<and> (\<exists>e' m. deref s' ec = Some e'
             \<and> programId e' = of_nat (Suc (length (g_contextChains s))) - 1
             \<and> deref s' (operator_new h) = Some m \<and> programId m = programId e')"
  using assms unfolding SyncMainContext_init_1_2_def
  by (auto elim!: bind_SomeE dest!: StoreThreadAndProgram_run
      simp: poke_Some_iff Let_def deref_def split: if_splits)

lemma init_1_run:
  assumes "SyncMainContext_init_1 h s ec pt ir orig sec = Some (x, s')"
  shows "kept (g_contextChains s) (g_contextChains s')
     \<and> (length (g_contextChains s') = length (g_contextChains s)
        \<or> (g_contextChains s' = g_contextChains s @ [[operator_new h, ec]]
           \<and> (\<exists>e' m. deref s' ec = Some e'
                 \<and> programId e' = of_nat (Suc (length (g_contextChains s))) - 1
                 \<and> deref s' (operator_new h) = Some m \<and> programId m = programId e')))"
proof -
  from assms obtain e where e: "deref s ec = Some e"
    unfolding SyncMainContext_init_1_def by (auto elim!: bind_SomeE)
  show ?thesis
  proof (cases "programId e = 0")
    case False
    with assms e have "s' = s"
      by (simp add: SyncMainContext_init_1_def)
    then show ?thesis by simp
  next
    case True
    let ?cycle = "pt = PT_INDICATOR \<and>
             (ir = Some IR_PARAMETERS \<or> ir = Some IR_SYMBOLCHANGE \<or> ir = Some IR_TIMEFRAMECHANGE)"
    let ?after = "pt = PT_INDICATOR \<and> ir = Some IR_PROGRAM_AFTERTEST"
    from assms e True obtain s1 l b s2 where
      s1: "(if orig \<noteq> 0 then do {
                 sa \<leftarrow> ec_SetProgramId s ec orig;
                 ea \<leftarrow> deref sa ec;
                 (_, sb) \<leftarrow> StoreThreadAndProgram h sa (programId ea);
                 Some sb
               } else Some s) = Some s1"
      and s2: "(if ?cycle then do { sa \<leftarrow> SyncMainContext_init_1_1 s1 ec; Some (NULL, False, sa) }
                else SyncMainContext_init_1_2 h s1 ec pt) = Some (l, b, s2)"
      and s3: "(if ?after then do { s3 \<leftarrow> ec_SetSuperContext s2 ec NULL; Some ((NULL, l, b), s3) }
                else Some ((sec, l, b), s2)) = Some (x, s')"
      unfolding SyncMainContext_init_1_def by (auto elim!: bind_SomeE simp: Let_def)
    have c1: "g_contextChains s1 = g_contextChains s"
      using s1 by (auto elim!: bind_SomeE dest!: StoreThreadAndProgram_run
          simp: ec_SetProgramId_def poke_Some_iff split: if_splits)
    have st: "steady s2 s'"
      using s3 by (auto elim!: bind_SomeE dest!: setters_steady split: if_splits)
    then have c3: "g_contextChains s' = g_contextChains s2"
      by (simp add: steady_def)
    show ?thesis
    proof (cases ?cycle)
      case True
      with s2 obtain sa where "SyncMainContext_init_1_1 s1 ec = Some sa" "s2 = sa"
        by (auto elim!: bind_SomeE)
      with init_1_1_run [of s1 ec s2] c1 c3 show ?thesis
        by simp
    next
      case False
      with s2 have "SyncMainContext_init_1_2 h s1 ec pt = Some (l, b, s2)"
        by simp
      from init_1_2_run [OF this] obtain e2 m2 where
        c2: "g_contextChains s2 = g_contextChains s1 @ [[operator_new h, ec]]"
        and r2: "deref s2 ec = Some e2"
          "programId e2 = of_nat (Suc (length (g_contextChains s1))) - 1"
          "deref s2 (operator_new h) = Some m2" "programId m2 = programId e2"
        by blast
      from steady_deref [OF st r2(1)] steady_deref [OF st r2(3)] r2 c1 c2 c3
      show ?thesis by auto
    qed
  qed
qed


lemma reassign_library_run:
  assumes "reassign_library ec cur lastId i lib s = Some s1"
  shows "\<exists>l e. deref s lib = Some l \<and> deref s ec = Some e
     \<and> s1 = s\<lparr>g_contextChains :=
               ((g_contextChains s)[unat lastId := (g_contextChains s ! unat lastId)[i := NULL]])
               [unat cur := ((g_contextChains s)[unat lastId := (g_contextChains s ! unat lastId)[i := NULL]]) ! unat cur @ [lib]],
             memory := (memory s)(lib \<mapsto> adopted e l)\<rparr>"
proof -
  from assms have idx: "unat lastId < length (g_contextChains s)"
      "i < length (g_contextChains s ! unat lastId)"
    unfolding reassign_library_def
    by (auto elim!: bind_SomeE simp: set_chain_slot_Some_iff)
  from assms idx obtain e where e: "deref s ec = Some e"
    unfolding reassign_library_def
    by (auto elim!: bind_SomeE simp: set_chain_slot_Some_iff)
  from assms idx obtain l where l: "deref s lib = Some l"
    unfolding reassign_library_def
    by (auto elim!: bind_SomeE simp: set_chain_slot_Some_iff ec_SetProgramId_def poke_Some_iff)
  from assms have cur: "unat cur < length (g_contextChains s)"
    unfolding reassign_library_def
    by (auto elim!: bind_SomeE simp: set_chain_slot_Some_iff chain_push_back_Some_iff
        setter_defs poke_Some_iff)
  from reassign_library_eq [OF l e idx cur] assms l e show ?thesis
    by simp
qed

lemma reassign_loop_run:
  assumes "n - i = k" and "reassign_loop ec cur lastId i n s = Some s'"
    and "0 < i" and "deref s ec = Some e"
  shows "kept (g_contextChains s) (g_contextChains s')
     \<and> length (g_contextChains s') = length (g_contextChains s)
     \<and> (\<forall>p x. deref s p = Some x \<and> programId x = programId e \<longrightarrow>
           (\<exists>x'. deref s' p = Some x' \<and> programId x' = programId e))"
  using assms
proof (induction k arbitrary: i s e)
  case 0
  then have "s' = s"
    by (subst (asm) reassign_loop.simps) simp
  then show ?case by simp
next
  case (Suc k)
  from Suc.prems have i: "i < n" and k: "n - Suc i = k" by simp_all
  from Suc.prems(2) i obtain lib where slot: "chain_slot s lastId i = Some lib"
    by (subst (asm) reassign_loop.simps) (auto elim!: bind_SomeE)
  note IH = Suc.IH [OF k _ _ ]
  show ?case
  proof (cases "lib = NULL")
    case True
    with Suc.prems(2) i slot
    have run: "reassign_loop ec cur lastId (Suc i) n (warn s ERR_ILLEGAL_STATE) = Some s'"
      by (subst (asm) reassign_loop.simps) simp
    have "deref (warn s ERR_ILLEGAL_STATE) ec = Some e"
      using Suc.prems(4) by (simp add: warn_def)
    from IH [OF run _ this] show ?thesis
      by (simp add: warn_def)
  next
    case False
    with Suc.prems(2) i slot obtain l where l: "deref s lib = Some l"
      by (subst (asm) reassign_loop.simps) (auto elim!: bind_SomeE)
    show ?thesis
    proof (cases "initCycle l")
      case nomark: False
      with Suc.prems(2) i slot False l
      have run: "reassign_loop ec cur lastId (Suc i) n s = Some s'"
        by (subst (asm) reassign_loop.simps) simp
      from IH [OF run _ Suc.prems(4)] show ?thesis
        by simp
    next
      case True
      with Suc.prems(2) i slot False l obtain s1 where
        lib: "reassign_library ec cur lastId i lib s = Some s1"
        and run: "reassign_loop ec cur lastId (Suc i) n s1 = Some s'"
        by (subst (asm) reassign_loop.simps) (auto elim!: bind_SomeE)
      let ?C = "g_contextChains s"
      let ?C1 = "?C[unat lastId := (?C ! unat lastId)[i := NULL]]"
      from reassign_library_run [OF lib] l Suc.prems(4)
      have s1: "s1 = s\<lparr>g_contextChains := ?C1[unat cur := ?C1 ! unat cur @ [lib]],
                        memory := (memory s)(lib \<mapsto> adopted e l)\<rparr>"
        by auto
      have k1: "kept ?C (g_contextChains s1)"
        using Suc.prems(3) kept_trans [OF kept_update_slot kept_push_back]
        by (simp add: s1)
      have len1: "length (g_contextChains s1) = length ?C"
        by (simp add: s1)
      have nn: "lib \<noteq> NULL" "ec \<noteq> NULL"
        using l Suc.prems(4) by (auto simp: deref_def split: if_splits)
      have ids1: "\<exists>x'. deref s1 p = Some x' \<and> programId x' = programId e"
        if "deref s p = Some x" "programId x = programId e" for p x
        using that nn by (auto simp: s1 deref_def adopted_def split: if_splits)
      from ids1 [OF Suc.prems(4) refl] obtain e1 where
        e1: "deref s1 ec = Some e1" "programId e1 = programId e"
        by blast
      from IH [OF run _ e1(1)]
      have r: "kept (g_contextChains s1) (g_contextChains s')"
        "length (g_contextChains s') = length (g_contextChains s1)"
        "\<forall>p x. deref s1 p = Some x \<and> programId x = programId e1 \<longrightarrow>
           (\<exists>x'. deref s' p = Some x' \<and> programId x' = programId e1)"
        by simp_all
      have "\<exists>x'. deref s' p = Some x' \<and> programId x' = programId e"
        if "deref s p = Some x \<and> programId x = programId e" for p x
        using ids1 [of p x] that r(3) e1(2) by metis
      then have ids: "\<forall>p x. deref s p = Some x \<and> programId x = programId e \<longrightarrow>
           (\<exists>x'. deref s' p = Some x' \<and> programId x' = programId e)"
        by blast
      show ?thesis
        using kept_trans [OF k1 r(1)] r(2) len1 ids by simp
    qed
  qed
qed

lemma init_3_run:
  assumes "SyncMainContext_init_3 h s ec a b lastId = Some s'" and "deref s ec = Some e"
  shows "kept (g_contextChains s) (g_contextChains s')
     \<and> length (g_contextChains s') = length (g_contextChains s)
     \<and> (\<forall>p x. deref s p = Some x \<and> programId x = programId e \<longrightarrow>
           (\<exists>x'. deref s' p = Some x' \<and> programId x' = programId e))"
proof (cases "s' = s")
  case True
  then show ?thesis by simp
next
  case False
  with assms obtain lastMaster s1 where
    run: "reassign_loop ec (programId e) lastId 2
            (length (g_contextChains s ! unat lastId)) s = Some s1"
    and fin: "poke s1 lastMaster (\<lambda>m. m\<lparr>initCycle := False\<rparr>) = Some s'"
    unfolding SyncMainContext_init_3_def
    by (auto elim!: bind_SomeE split: if_splits)
  from reassign_loop_run [OF refl run _ assms(2)]
  have r: "kept (g_contextChains s) (g_contextChains s1)"
    "length (g_contextChains s1) = length (g_contextChains s)"
    "\<forall>p x. deref s p = Some x \<and> programId x = programId e \<longrightarrow>
           (\<exists>x'. deref s1 p = Some x' \<and> programId x' = programId e)"
    by simp_all
  have st: "steady s1 s'"
    using fin by (rule poke_steady) simp
  have "\<exists>x'. deref s' p = Some x' \<and> programId x' = programId e"
    if "deref s p = Some x \<and> programId x = programId e" for p x
    using r(3) that steady_deref [OF st] by metis
  then have ids: "\<forall>p x. deref s p = Some x \<and> programId x = programId e \<longrightarrow>
           (\<exists>x'. deref s' p = Some x' \<and> programId x' = programId e)"
    by blast
  have "g_contextChains s' = g_contextChains s1"
    using st by (simp add: steady_def)
  with r(1,2) ids show ?thesis
    by simp
qed


lemma steady_chains: "steady s s' \<Longrightarrow> g_contextChains s' = g_contextChains s"
  by (simp add: steady_def)

lemmas setters_chains = setters_steady [THEN steady_chains]

lemma SyncMainContext_init_run:
  assumes run: "SyncMainContext_init h s ec pt name ur iF dF symb period sec isT isV isO hc dC dX dY
                  = Some (r, s')"
  shows "kept (g_contextChains s) (g_contextChains s')
     \<and> (length (g_contextChains s') = length (g_contextChains s)
        \<or> (length (g_contextChains s') = Suc (length (g_contextChains s))
           \<and> (\<exists>e' m rest. deref s' ec = Some e'
                 \<and> programId e' = of_nat (Suc (length (g_contextChains s))) - 1
                 \<and> g_contextChains s' ! length (g_contextChains s) = operator_new h # rest
                 \<and> deref s' (operator_new h) = Some m \<and> programId m = programId e')))"
proof (cases "g_contextChains s' = g_contextChains s")
  case True
  then show ?thesis by simp
next
  case False
  with run obtain s3 ir orig hc1 sec1 l b s4 t1 v1 o1 s5 where
    c3: "g_contextChains s3 = g_contextChains s"
    and s4: "SyncMainContext_init_1 h s3 ec pt ir orig sec = Some ((sec1, l, b), s4)"
    and s5: "SyncMainContext_init_2 h s4 ec pt (snd name) ir ur iF dF (snd symb) period sec1
               isT isV isO hc1 = Some ((t1, v1, o1), s5)"
    and s6: "SyncMainContext_init_3 h s5 ec b t1 l = Some s'"
    unfolding SyncMainContext_init_def
    by (auto elim!: bind_SomeE simp: error_def split: if_splits
        dest!: StoreThreadAndProgram_run InitReason_run FindWindowHandle_run)
  from init_1_run [OF s4]
  have k4: "kept (g_contextChains s3) (g_contextChains s4)"
    and alt: "length (g_contextChains s4) = length (g_contextChains s3)
        \<or> (g_contextChains s4 = g_contextChains s3 @ [[operator_new h, ec]]
           \<and> (\<exists>e' m. deref s4 ec = Some e'
                 \<and> programId e' = of_nat (Suc (length (g_contextChains s3))) - 1
                 \<and> deref s4 (operator_new h) = Some m \<and> programId m = programId e'))"
    by simp_all
  have st5: "steady s4 s5"
    using s5 by (rule init_2_run)
  then have c5: "g_contextChains s5 = g_contextChains s4"
    by (rule steady_chains)
  from s5 obtain e4 where e4: "deref s4 ec = Some e4"
    unfolding SyncMainContext_init_2_def by (auto elim!: bind_SomeE)
  from steady_deref [OF st5 e4] obtain e5 where
    e5: "deref s5 ec = Some e5" "programId e5 = programId e4"
    by blast
  from init_3_run [OF s6 e5(1)]
  have k6: "kept (g_contextChains s5) (g_contextChains s')"
    and len6: "length (g_contextChains s') = length (g_contextChains s5)"
    and ids: "\<forall>p x. deref s5 p = Some x \<and> programId x = programId e5 \<longrightarrow>
           (\<exists>x'. deref s' p = Some x' \<and> programId x' = programId e5)"
    by simp_all
  have kept: "kept (g_contextChains s) (g_contextChains s')"
    using kept_trans [OF k4] k6 by (simp add: c3 c5)
  from alt show ?thesis
  proof
    assume "length (g_contextChains s4) = length (g_contextChains s3)"
    with kept len6 show ?thesis
      by (simp add: c3 c5)
  next
    assume "g_contextChains s4 = g_contextChains s3 @ [[operator_new h, ec]]
           \<and> (\<exists>e' m. deref s4 ec = Some e'
                 \<and> programId e' = of_nat (Suc (length (g_contextChains s3))) - 1
                 \<and> deref s4 (operator_new h) = Some m \<and> programId m = programId e')"
    then obtain m4 where
      c4: "g_contextChains s4 = g_contextChains s @ [[operator_new h, ec]]"
      and id4: "programId e4 = of_nat (Suc (length (g_contextChains s))) - 1"
      and m4: "deref s4 (operator_new h) = Some m4" "programId m4 = programId e4"
      using e4 by (auto simp: c3)
    from steady_deref [OF st5 m4(1)] obtain m5 where
      m5: "deref s5 (operator_new h) = Some m5" "programId m5 = programId e5"
      using m4(2) e5(2) by auto
    from ids e5 obtain e' where e': "deref s' ec = Some e'" "programId e' = programId e5"
      by blast
    from ids m5 obtain m' where m': "deref s' (operator_new h) = Some m'"
      "programId m' = programId e5"
      by blast
    have "g_contextChains s5 ! length (g_contextChains s) = operator_new h # [ec]"
      by (simp add: c5 c4)
    moreover have "length (g_contextChains s) < length (g_contextChains s5)"
      by (simp add: c5 c4)
    ultimately obtain rest where
      rest: "g_contextChains s' ! length (g_contextChains s) = operator_new h # rest"
      using k6 unfolding kept_def by blast
    have "length (g_contextChains s') = Suc (length (g_contextChains s))"
      by (simp add: len6 c5 c4)
    with kept e' m' rest id4 e5(2) show ?thesis
      by auto
  qed
qed

lemma other_operations_run:
  "SyncMainContext_start h s ec t = Some (r, s') \<Longrightarrow> g_contextChains s' = g_contextChains s"
  "SyncMainContext_deinit h s ec ur = Some (r, s') \<Longrightarrow> g_contextChains s' = g_contextChains s"
  "SyncLibContext_deinit h s ec ur = Some (r, s') \<Longrightarrow> g_contextChains s' = g_contextChains s"
  "StoreThreadAndProgram h s pid = Some (i, s') \<Longrightarrow> g_contextChains s' = g_contextChains s"
  unfolding SyncMainContext_start_def SyncMainContext_deinit_def SyncLibContext_deinit_def
  by (auto elim!: bind_SomeE simp: error_def split: if_splits
      dest!: setters_chains StoreThreadAndProgram_run)

lemma LeaveContext_run:
  "LeaveContext h s ec = Some (r, s') \<Longrightarrow>
     kept (g_contextChains s) (g_contextChains s')
     \<and> length (g_contextChains s') = length (g_contextChains s)"
  unfolding LeaveContext_def
  by (auto elim!: bind_SomeE simp: error_def set_chain_slot_Some_iff Let_def split: if_splits
      dest!: setters_chains)

lemma SyncLibContext_init_run:
  "SyncLibContext_init h s ec ur iF dF name symb period isO = Some (r, s') \<Longrightarrow>
     kept (g_contextChains s) (g_contextChains s')
     \<and> length (g_contextChains s') = length (g_contextChains s)"
  unfolding SyncLibContext_init_def
  by (auto elim!: bind_SomeE simp: error_def chain_push_back_Some_iff poke_Some_iff Let_def
      split: if_splits dest!: setters_chains StoreThreadAndProgram_run)

text \<open>
  C2. The registry holds the free chain at index 0, and fewer than \<open>2 ^ 32\<close> chains.
  Whatever a call of \<^verbatim>\<open>SyncMainContext_init\<close> returns, the registry it leaves grew out of
  the one it found: no chain is gone and every master is where it was. Either the number
  of chains is the same, or one chain was created at the end; then the program id of the
  record is the index of that chain, which is the former number of chains: it is not 0
  and greater than the index of every chain that existed (the ids assigned so far), and
  the new master, first in the new chain, holds the same id. The other operations
  (\<^verbatim>\<open>SyncMainContext_start\<close>, \<^verbatim>\<open>SyncMainContext_deinit\<close>, \<^verbatim>\<open>SyncLibContext_init\<close>,
  \<^verbatim>\<open>SyncLibContext_deinit\<close>, \<^verbatim>\<open>LeaveContext\<close>, \<^verbatim>\<open>StoreThreadAndProgram\<close>) never
  change the number of chains nor move a master, so an index is never free again for a
  later creation.
\<close>

theorem chain_ids_grow:
  assumes "0 < length (g_contextChains s)" and "length (g_contextChains s) < 2 ^ 32"
  shows "(\<forall>r s'. SyncMainContext_init h s ec pt name ur iF dF symb period sec isT isV isO hc dC dX dY
                  = Some (r, s') \<longrightarrow>
           kept (g_contextChains s) (g_contextChains s')
           \<and> (length (g_contextChains s') = length (g_contextChains s)
              \<or> (length (g_contextChains s') = Suc (length (g_contextChains s))
                 \<and> (\<exists>e' m rest. deref s' ec = Some e' \<and> programId e' \<noteq> 0
                      \<and> unat (programId e') = length (g_contextChains s)
                      \<and> (\<forall>i<length (g_contextChains s). i < unat (programId e'))
                      \<and> g_contextChains s' ! unat (programId e') = operator_new h # rest
                      \<and> deref s' (operator_new h) = Some m \<and> programId m = programId e'))))
       \<and> (\<forall>r s'. SyncMainContext_start h s ec1 t1 = Some (r, s') \<longrightarrow>
             g_contextChains s' = g_contextChains s)
       \<and> (\<forall>r s'. SyncMainContext_deinit h s ec2 ur2 = Some (r, s') \<longrightarrow>
             g_contextChains s' = g_contextChains s)
       \<and> (\<forall>r s'. SyncLibContext_init h s ec3 ur3 iF3 dF3 name3 symb3 period3 isO3 = Some (r, s') \<longrightarrow>
             kept (g_contextChains s) (g_contextChains s')
             \<and> length (g_contextChains s') = length (g_contextChains s))
       \<and> (\<forall>r s'. SyncLibContext_deinit h s ec4 ur4 = Some (r, s') \<longrightarrow>
             g_contextChains s' = g_contextChains s)
       \<and> (\<forall>r s'. LeaveContext h s ec5 = Some (r, s') \<longrightarrow>
             kept (g_contextChains s) (g_contextChains s')
             \<and> length (g_contextChains s') = length (g_contextChains s))
       \<and> (\<forall>i s'. StoreThreadAndProgram h s pid = Some (i, s') \<longrightarrow>
             g_contextChains s' = g_contextChains s)"
proof (intro conjI allI impI)
  fix r s'
  assume run: "SyncMainContext_init h s ec pt name ur iF dF symb period sec isT isV isO hc dC dX dY
                  = Some (r, s')"
  let ?N = "length (g_contextChains s)"
  have nid: "(of_nat (Suc ?N) - 1 :: uint) = of_nat ?N"
    by simp
  have unid: "unat (of_nat ?N :: uint) = ?N"
    using assms(2) by (simp add: unat_of_nat)
  have nz: "(of_nat ?N :: uint) \<noteq> 0"
    using unid assms(1) by (metis less_numeral_extra(3) unat_0)
  from SyncMainContext_init_run [OF run]
  show "kept (g_contextChains s) (g_contextChains s')"
    by simp
  from SyncMainContext_init_run [OF run]
  show "length (g_contextChains s') = length (g_contextChains s)
              \<or> (length (g_contextChains s') = Suc (length (g_contextChains s))
                 \<and> (\<exists>e' m rest. deref s' ec = Some e' \<and> programId e' \<noteq> 0
                      \<and> unat (programId e') = length (g_contextChains s)
                      \<and> (\<forall>i<length (g_contextChains s). i < unat (programId e'))
                      \<and> g_contextChains s' ! unat (programId e') = operator_new h # rest
                      \<and> deref s' (operator_new h) = Some m \<and> programId m = programId e'))"
    using nz unid by (auto simp: nid)
qed (auto dest: other_operations_run LeaveContext_run SyncLibContext_init_run)

lemma fresh_script_run:
  "\<exists>s'. SyncMainContext_init ui_host fresh_state 0x200000 PT_SCRIPT (0x700000, ''Script'')
          UR_UNDEFINED 0 0 (0x710000, ''EURUSD'') 60 NULL False False False 0x3000 0 0 0
        = Some (True, s')
      \<and> length (g_contextChains s') = 2"
  by (simp add: SyncMainContext_init_def SyncMainContext_init_1_def SyncMainContext_init_1_2_def
      SyncMainContext_init_2_def SyncMainContext_init_3_def InitReason_def InitReason_script_def
      FindWindowHandle_def StoreThreadAndProgram_def flag_defs setter_defs poke_eq deref_mem_upd
      StringEndsWith_def ui_host_def fresh_state_def zero_context_def deref_def Let_def)

theorem chain_ids_grow_witness:
  "0 < length (g_contextChains fresh_state)
   \<and> length (g_contextChains fresh_state) < 2 ^ 32
   \<and> (\<exists>s' e' rest.
        SyncMainContext_init ui_host fresh_state 0x200000 PT_SCRIPT (0x700000, ''Script'')
          UR_UNDEFINED 0 0 (0x710000, ''EURUSD'') 60 NULL False False False 0x3000 0 0 0
        = Some (True, s')
      \<and> length (g_contextChains s') = 2
      \<and> deref s' 0x200000 = Some e' \<and> programId e' = 1
      \<and> g_contextChains s' ! 1 = 0x500000 # rest)"
proof -
  have a: "0 < length (g_contextChains fresh_state)"
    and b: "length (g_contextChains fresh_state) < 2 ^ 32"
    and len: "length (g_contextChains fresh_state) = 1"
    by (simp_all add: fresh_state_def)
  from fresh_script_run obtain s' where
    run: "SyncMainContext_init ui_host fresh_state 0x200000 PT_SCRIPT (0x700000, ''Script'')
          UR_UNDEFINED 0 0 (0x710000, ''EURUSD'') 60 NULL False False False 0x3000 0 0 0
        = Some (True, s')"
    and two: "length (g_contextChains s') = 2"
    by blast
  from chain_ids_grow [OF a b, THEN conjunct1, rule_format, OF run] two len
  obtain e' rest where "deref s' 0x200000 = Some e'" "unat (programId e') = 1"
    "g_contextChains s' ! unat (programId e') = operator_new ui_host # rest"
    by auto
  moreover from this have "programId e' = 1"
    by (metis unat_1 word_unat_eq_iff)
  ultimately show ?thesis
    using a b run two by (auto simp: ui_host_def)
qed

end
